theory Spec2Isabelle
  imports Main "HOL-Library.Sublist"
begin

section \<open>Template substitution\<close>

text \<open>
  Strings are modelled as \<^typ>\<open>string\<close>. The regular expression class \<open>\w\<close> of the
  source (no unicode flag) is the ASCII letters, the digits and the underscore.
\<close>

definition wordChar :: "char \<Rightarrow> bool" where
  "wordChar c \<longleftrightarrow>
     c \<in> set ''abcdefghijklmnopqrstuvwxyzABCDEFGHIJKLMNOPQRSTUVWXYZ0123456789_''"

text \<open>
  One attempt of the pattern \<open>\{\{(\w+)\}\}\<close> at the start of a string: two opening
  braces, the longest non-empty run of word characters (a shorter run can never be
  followed by a closing brace), two closing braces. The result is the captured key and
  the text after the match.
\<close>

fun matchPlaceholder :: "string \<Rightarrow> (string \<times> string) option" where
  "matchPlaceholder (a # b # r) =
     (if a = CHR ''{'' \<and> b = CHR ''{'' \<and> takeWhile wordChar r \<noteq> [] \<and>
         take 2 (dropWhile wordChar r) = ''}}''
      then Some (takeWhile wordChar r, drop 2 (dropWhile wordChar r))
      else None)"
| "matchPlaceholder _ = None"

lemma matchPlaceholder_shorter:
  "matchPlaceholder s = Some (k, rest) \<Longrightarrow> length rest < length s"
proof (cases s rule: matchPlaceholder.cases)
  case (1 a b r)
  assume "matchPlaceholder s = Some (k, rest)"
  with 1 have "rest = drop 2 (dropWhile wordChar r)"
    by (simp split: if_splits)
  moreover have "length (dropWhile wordChar r) \<le> length r"
    by (rule length_dropWhile_le)
  ultimately show ?thesis using 1 by simp
qed simp_all

text \<open>
  \<open>template.replace(/\{\{(\w+)\}\}/g, callback)\<close>: the global replace scans from the
  left, replaces every match by the callback's value for (whole match, key) and resumes
  after the match; a character where the pattern does not match is copied.
\<close>

function replacePlaceholders :: "(string \<Rightarrow> string \<Rightarrow> string) \<Rightarrow> string \<Rightarrow> string" where
  "replacePlaceholders f [] = []"
| "replacePlaceholders f (c # cs) =
     (case matchPlaceholder (c # cs) of
        Some (k, rest) \<Rightarrow> f (''{{'' @ k @ ''}}'') k @ replacePlaceholders f rest
      | None \<Rightarrow> c # replacePlaceholders f cs)"
  by pat_completeness auto
termination
  by (relation "measure (\<lambda>(f, s). length s)")
     (auto dest: matchPlaceholder_shorter)

text \<open>
  The keys captured by the matches of that scan, in order: the placeholder names of a
  template.
\<close>

function placeholders :: "string \<Rightarrow> string list" where
  "placeholders [] = []"
| "placeholders (c # cs) =
     (case matchPlaceholder (c # cs) of
        Some (k, rest) \<Rightarrow> k # placeholders rest
      | None \<Rightarrow> placeholders cs)"
  by pat_completeness auto
termination
  by (relation "measure length") (auto dest: matchPlaceholder_shorter)

text \<open>
  A context is the map of the string properties of the context object itself; a
  placeholder named like a property that every object inherits (\<open>constructor\<close>,
  \<open>toString\<close>, ...) is outside the model.

  \<open>PairCreator.applyTemplate\<close>: the callback is \<open>context[key] || match\<close>, so an unbound key
  and a key bound to the empty string both leave the placeholder as it is.
\<close>

definition applyTemplate :: "string \<Rightarrow> (string \<rightharpoonup> string) \<Rightarrow> string" where
  "applyTemplate template context =
     replacePlaceholders
       (\<lambda>match k. case context k of
                     None \<Rightarrow> match
                   | Some v \<Rightarrow> if v = [] then match else v)
       template"

text \<open>
  \<open>PairCreatorService.applyTemplate\<close>: the callback is \<open>context[key] ?? ''\<close>, so an unbound
  key is replaced by the empty string.
\<close>

definition applyTemplate_service :: "string \<Rightarrow> (string \<rightharpoonup> string) \<Rightarrow> string" where
  "applyTemplate_service template context =
     replacePlaceholders
       (\<lambda>match k. case context k of None \<Rightarrow> [] | Some v \<Rightarrow> v)
       template"

section \<open>Pairing rules and file templates\<close>

datatype Language = C | CPP

text \<open>
  The interface \<open>PairingRule\<close>. The optional flags \<open>isClass?\<close> and \<open>isStruct?\<close> are
  \<^const>\<open>None\<close> when the property is absent; a flag is truthy only as \<open>Some True\<close>.
\<close>

record PairingRule =
  key :: string
  label :: string
  description :: string
  language :: Language
  headerExt :: string
  sourceExt :: string
  isClass :: "bool option"
  isStruct :: "bool option"

definition truthy :: "bool option \<Rightarrow> bool" where
  "truthy b \<longleftrightarrow> b = Some True"

definition TEMPLATE_RULES :: "PairingRule list" where
  "TEMPLATE_RULES =
    [\<lparr>key = ''cpp_empty'', label = ''$(new-file) Empty C++ Pair'',
       description = ''Creates a basic .h/.cpp file pair with header guards.'',
       language = CPP, headerExt = ''.h'', sourceExt = ''.cpp'',
       isClass = None, isStruct = None\<rparr>,
     \<lparr>key = ''cpp_class'', label = ''$(symbol-class) C++ Class'',
       description = ''Creates a .h/.cpp pair with a boilerplate class definition.'',
       language = CPP, headerExt = ''.h'', sourceExt = ''.cpp'',
       isClass = Some True, isStruct = None\<rparr>,
     \<lparr>key = ''cpp_struct'', label = ''$(symbol-struct) C++ Struct'',
       description = ''Creates a .h/.cpp pair with a boilerplate struct definition.'',
       language = CPP, headerExt = ''.h'', sourceExt = ''.cpp'',
       isClass = None, isStruct = Some True\<rparr>,
     \<lparr>key = ''c_empty'', label = ''$(file-code) Empty C Pair'',
       description = ''Creates a basic .h/.c file pair for function declarations.'',
       language = C, headerExt = ''.h'', sourceExt = ''.c'',
       isClass = None, isStruct = None\<rparr>,
     \<lparr>key = ''c_struct'', label = ''$(symbol-struct) C Struct'',
       description = ''Creates a .h/.c pair with a boilerplate typedef struct.'',
       language = C, headerExt = ''.h'', sourceExt = ''.c'',
       isClass = None, isStruct = Some True\<rparr>]"

text \<open>The five boilerplate pairs (header, source), as the template literals spell them.\<close>

definition CPP_CLASS :: "string \<times> string" where
  "CPP_CLASS =
    (''#ifndef {{headerGuard}}\<newline>#define {{headerGuard}}\<newline>\<newline>class {{fileName}} {\<newline>public:\<newline>  {{fileName}}();\<newline>  ~{{fileName}}();\<newline>\<newline>private:\<newline>  // Add private members here\<newline>};\<newline>\<newline>#endif  // {{headerGuard}}\<newline>'',
     ''{{includeLine}}\<newline>\<newline>{{fileName}}::{{fileName}}() {\<newline>  // Constructor implementation\<newline>}\<newline>\<newline>{{fileName}}::~{{fileName}}() {\<newline>  // Destructor implementation\<newline>}\<newline>'')"

definition CPP_STRUCT :: "string \<times> string" where
  "CPP_STRUCT =
    (''#ifndef {{headerGuard}}\<newline>#define {{headerGuard}}\<newline>\<newline>struct {{fileName}} {\<newline>  // Struct members\<newline>};\<newline>\<newline>#endif  // {{headerGuard}}\<newline>'',
     ''{{includeLine}}'')"

definition C_STRUCT :: "string \<times> string" where
  "C_STRUCT =
    (''#ifndef {{headerGuard}}\<newline>#define {{headerGuard}}\<newline>\<newline>typedef struct {\<newline>  // Struct members\<newline>} {{fileName}};\<newline>\<newline>#endif  // {{headerGuard}}\<newline>'',
     ''{{includeLine}}'')"

definition C_EMPTY :: "string \<times> string" where
  "C_EMPTY =
    (''#ifndef {{headerGuard}}\<newline>#define {{headerGuard}}\<newline>\<newline>// Declarations for {{fileName}}.c\<newline>\<newline>#endif  // {{headerGuard}}\<newline>'',
     ''{{includeLine}}\<newline>\<newline>// Implementations for {{fileName}}.c\<newline>'')"

definition CPP_EMPTY :: "string \<times> string" where
  "CPP_EMPTY =
    (''#ifndef {{headerGuard}}\<newline>#define {{headerGuard}}\<newline>\<newline>// Declarations for {{fileName}}.cpp\<newline>\<newline>#endif  // {{headerGuard}}\<newline>'',
     ''{{includeLine}}'')"

text \<open>\<open>PairCreator.getTemplatesByRule\<close>: the first matching test decides.\<close>

definition getTemplatesByRule :: "PairingRule \<Rightarrow> string \<times> string" where
  "getTemplatesByRule rule =
     (if truthy (isClass rule) then CPP_CLASS
      else if truthy (isStruct rule) \<and> language rule = CPP then CPP_STRUCT
      else if truthy (isStruct rule) \<and> language rule = C then C_STRUCT
      else if language rule = C then C_EMPTY
      else CPP_EMPTY)"

text \<open>
  \<open>String.prototype.toUpperCase\<close> on the characters of the model: the ASCII lower-case
  letters move to upper case, every other character stays.
\<close>

definition upperChar :: "char \<Rightarrow> char" where
  "upperChar c =
     (case map_of (zip ''abcdefghijklmnopqrstuvwxyz'' ''ABCDEFGHIJKLMNOPQRSTUVWXYZ'') c of
        Some u \<Rightarrow> u
      | None \<Rightarrow> c)"

definition toUpperCase :: "string \<Rightarrow> string" where
  "toUpperCase s = map upperChar s"

text \<open>
  The substitution context of \<open>generateFileContent\<close>: an object with exactly the three
  properties \<open>fileName\<close>, \<open>headerGuard\<close> and \<open>includeLine\<close>.
\<close>

definition templateContext :: "string \<Rightarrow> PairingRule \<Rightarrow> (string \<rightharpoonup> string)" where
  "templateContext fileName rule =
     [''fileName'' \<mapsto> fileName,
      ''headerGuard'' \<mapsto> toUpperCase fileName @ ''_H_'',
      ''includeLine'' \<mapsto> ''#include '' @ [CHR 0x22] @ fileName @ headerExt rule @ [CHR 0x22]]"

text \<open>
  \<open>s.replace(/\n/g, eol)\<close> for a line ending \<open>eol\<close>, which is inserted as it is (a line
  ending has no \<open>$\<close> pattern).
\<close>

definition replaceNewlines :: "string \<Rightarrow> string \<Rightarrow> string" where
  "replaceNewlines eol s = concat (map (\<lambda>c. if c = CHR 0x0A then eol else [c]) s)"

text \<open>\<open>PairCreator.generateFileContent\<close>, returning (headerContent, sourceContent).\<close>

definition generateFileContent :: "string \<Rightarrow> string \<Rightarrow> PairingRule \<Rightarrow> string \<times> string" where
  "generateFileContent fileName eol rule =
     (let templates = getTemplatesByRule rule;
          context = templateContext fileName rule;
          headerContent = applyTemplate (fst templates) context;
          sourceContent = applyTemplate (snd templates) context
      in (replaceNewlines eol headerContent, replaceNewlines eol sourceContent))"

section \<open>The host: documents, paths and the file system\<close>

text \<open>
  The active editor's document, as far as the code reads it. \<open>activeTextEditor\<close> is
  \<^const>\<open>None\<close> when no editor is open.
\<close>

record TextDocument =
  isUntitled :: bool
  languageId :: string
  fsPath :: string

text \<open>
  The functions of Node's \<open>path\<close> module that the code calls. They belong to the host,
  so every definition takes them as a parameter; a one-argument \<open>path.basename(p)\<close> is
  \<open>basename\<close> with the empty suffix.
\<close>

record PathApi =
  extname :: "string \<Rightarrow> string"
  basename :: "string \<Rightarrow> string \<Rightarrow> string"
  dirname :: "string \<Rightarrow> string"
  join :: "string \<Rightarrow> string \<Rightarrow> string"

text \<open>
  What the host supplies to a run: the active editor, the workspace folders, the file
  system (\<open>stat p\<close> is true when \<open>vscode.workspace.fs.stat\<close> fulfils for \<open>p\<close>, false when
  it rejects, whatever the reason), the \<open>files.eol\<close> setting, \<open>os.EOL\<close> and the decimal
  text of \<open>Date.now()\<close>. \<open>updateError\<close> and \<open>writeError\<close> say whether \<open>config.update\<close> and
  \<open>fs.writeFile\<close> reject, and with which message.
\<close>

record Host =
  activeTextEditor :: "TextDocument option"
  workspaceFolders :: "string list option"
  stat :: "string \<Rightarrow> bool"
  eolSetting :: "string option"
  osEOL :: string
  dateNow :: string
  updateError :: "string option"
  writeError :: "string \<Rightarrow> string option"

record Detection =
  detected :: Language
  uncertain :: bool

section \<open>Language detection\<close>

text \<open>
  \<open>PairCreator.detectLanguage\<close> (create-source-header-pair.ts). The four companion
  checks are settled together; only whether each one fulfilled is read.
\<close>

definition detectLanguage :: "PathApi \<Rightarrow> Host \<Rightarrow> Detection" where
  "detectLanguage path host =
     (case activeTextEditor host of
        None \<Rightarrow> \<lparr>detected = CPP, uncertain = True\<rparr>
      | Some document \<Rightarrow>
          if isUntitled document then \<lparr>detected = CPP, uncertain = True\<rparr>
          else
            let langId = languageId document;
                filePath = fsPath document;
                ext = extname path filePath
            in if ext = ''.c'' then \<lparr>detected = C, uncertain = False\<rparr>
               else if ext = ''.cpp'' \<or> ext = ''.cc'' \<or> ext = ''.cxx''
                 then \<lparr>detected = CPP, uncertain = False\<rparr>
               else if ext = ''.hh'' \<or> ext = ''.hpp'' \<or> ext = ''.hxx''
                 then \<lparr>detected = CPP, uncertain = False\<rparr>
               else if ext = ''.h'' then
                 let baseName = basename path filePath ''.h'';
                     dirPath = dirname path filePath;
                     companionChecks =
                       [join path dirPath (baseName @ ''.c''),
                        join path dirPath (baseName @ ''.cpp''),
                        join path dirPath (baseName @ ''.cc''),
                        join path dirPath (baseName @ ''.cxx'')];
                     results = map (stat host) companionChecks
                 in if hd results then \<lparr>detected = C, uncertain = False\<rparr>
                    else if list_ex (\<lambda>r. r) (tl results)
                      then \<lparr>detected = CPP, uncertain = False\<rparr>
                    else \<lparr>detected = CPP, uncertain = True\<rparr>
               else \<lparr>detected = (if langId = ''c'' then C else CPP), uncertain = True\<rparr>)"

text \<open>
  \<open>PairCreatorService\<close> with the static \<open>fileStatCache\<close>. The cache maps a path to
  the answer of the check that was started for it; an entry is deleted by a timer five
  seconds after it was made, so the cache found by a call is whatever younger entries
  earlier calls have left. \<open>fileExists\<close> returns a cached answer without asking the file
  system, and otherwise asks and stores the answer.
\<close>

type_synonym FileStatCache = "string \<rightharpoonup> bool"

definition fileExists :: "Host \<Rightarrow> string \<Rightarrow> FileStatCache \<Rightarrow> bool \<times> FileStatCache" where
  "fileExists host filePath fileStatCache =
     (case fileStatCache filePath of
        Some cached \<Rightarrow> (cached, fileStatCache)
      | None \<Rightarrow>
          (stat host filePath, fileStatCache(filePath \<mapsto> stat host filePath)))"

text \<open>The calls \<open>paths.map(p => fileExists(p))\<close>, made one after the other.\<close>

fun fileExistsAll ::
  "Host \<Rightarrow> string list \<Rightarrow> FileStatCache \<Rightarrow> bool list \<times> FileStatCache" where
  "fileExistsAll host [] fileStatCache = ([], fileStatCache)"
| "fileExistsAll host (p # ps) fileStatCache =
     (let (r, cache1) = fileExists host p fileStatCache;
          (rs, cache2) = fileExistsAll host ps cache1
      in (r # rs, cache2))"

text \<open>
  \<open>PairCreatorService.detectLanguageForHeaderFile\<close>; the result type admits \<open>null\<close>, which
  no branch returns.
\<close>

definition detectLanguageForHeaderFile ::
  "PathApi \<Rightarrow> Host \<Rightarrow> string \<Rightarrow> FileStatCache \<Rightarrow> Detection option \<times> FileStatCache" where
  "detectLanguageForHeaderFile path host filePath fileStatCache =
     (let baseName = basename path filePath ''.h'';
          dirPath = dirname path filePath;
          cFile = join path dirPath (baseName @ ''.c'');
          (cExists, cache1) = fileExists host cFile fileStatCache
      in if cExists then (Some \<lparr>detected = C, uncertain = False\<rparr>, cache1)
         else
           let cppExtensions = [''.cpp'', ''.cc'', ''.cxx''];
               (results, cache2) =
                 fileExistsAll host
                   (map (\<lambda>ext. join path dirPath (baseName @ ext)) cppExtensions) cache1
           in if list_ex (\<lambda>exists. exists) results
              then (Some \<lparr>detected = CPP, uncertain = False\<rparr>, cache2)
              else (Some \<lparr>detected = CPP, uncertain = True\<rparr>, cache2))"

definition DEFINITIVE_EXTENSIONS_c :: "string set" where
  "DEFINITIVE_EXTENSIONS_c = {''.c''}"

definition DEFINITIVE_EXTENSIONS_cpp :: "string set" where
  "DEFINITIVE_EXTENSIONS_cpp = {''.cpp'', ''.cc'', ''.cxx'', ''.hh'', ''.hpp'', ''.hxx''}"

text \<open>\<open>PairCreatorService.detectLanguage\<close>, reading the active editor itself.\<close>

definition detectLanguage_cached ::
  "PathApi \<Rightarrow> Host \<Rightarrow> FileStatCache \<Rightarrow> Detection \<times> FileStatCache" where
  "detectLanguage_cached path host fileStatCache =
     (case activeTextEditor host of
        None \<Rightarrow> (\<lparr>detected = CPP, uncertain = True\<rparr>, fileStatCache)
      | Some document \<Rightarrow>
          if isUntitled document
          then (\<lparr>detected = CPP, uncertain = True\<rparr>, fileStatCache)
          else
            let ext = extname path (fsPath document);
                fallback =
                  \<lparr>detected = (if languageId document = ''c'' then C else CPP),
                   uncertain = True\<rparr>
            in if ext \<in> DEFINITIVE_EXTENSIONS_c
                 then (\<lparr>detected = C, uncertain = False\<rparr>, fileStatCache)
               else if ext \<in> DEFINITIVE_EXTENSIONS_cpp
                 then (\<lparr>detected = CPP, uncertain = False\<rparr>, fileStatCache)
               else if ext = ''.h'' then
                 (case detectLanguageForHeaderFile path host (fsPath document) fileStatCache of
                    (Some result, cache1) \<Rightarrow> (result, cache1)
                  | (None, cache1) \<Rightarrow> (fallback, cache1))
               else (fallback, fileStatCache))"

text \<open>
  The later \<open>PairCreatorService.detectLanguage(languageId?, filePath?, fileExistsCheck?)\<close>
  with its \<open>detectLanguageForHeaderFile(filePath, fileExistsCheck?)\<close>: the three inputs
  are optional and the existence check is injected. A string argument is falsy when it
  is absent or empty.
\<close>

definition falsy :: "string option \<Rightarrow> bool" where
  "falsy s \<longleftrightarrow> s = None \<or> s = Some []"

definition detectLanguageForHeaderFile_injected ::
  "PathApi \<Rightarrow> string \<Rightarrow> (string \<Rightarrow> bool) option \<Rightarrow> Detection option" where
  "detectLanguageForHeaderFile_injected path filePath fileExistsCheck =
     (case fileExistsCheck of
        None \<Rightarrow> Some \<lparr>detected = CPP, uncertain = True\<rparr>
      | Some check \<Rightarrow>
          let baseName = basename path filePath ''.h'';
              dirPath = dirname path filePath;
              cFile = join path dirPath (baseName @ ''.c'')
          in if check cFile then Some \<lparr>detected = C, uncertain = False\<rparr>
             else
               let cppExtensions = [''.cpp'', ''.cc'', ''.cxx''];
                   results =
                     map (\<lambda>ext. check (join path dirPath (baseName @ ext))) cppExtensions
               in if list_ex (\<lambda>exists. exists) results
                  then Some \<lparr>detected = CPP, uncertain = False\<rparr>
                  else Some \<lparr>detected = CPP, uncertain = True\<rparr>)"

definition detectLanguage_injected ::
  "PathApi \<Rightarrow> string option \<Rightarrow> string option \<Rightarrow> (string \<Rightarrow> bool) option \<Rightarrow> Detection" where
  "detectLanguage_injected path languageId' filePath' fileExistsCheck =
     (case (languageId', filePath') of
        (Some langId, Some filePath) \<Rightarrow>
          if falsy languageId' \<or> falsy filePath' then \<lparr>detected = CPP, uncertain = True\<rparr>
          else
            let ext = extname path filePath;
                fallback =
                  \<lparr>detected = (if langId = ''c'' then C else CPP), uncertain = True\<rparr>
            in if ext \<in> DEFINITIVE_EXTENSIONS_c then \<lparr>detected = C, uncertain = False\<rparr>
               else if ext \<in> DEFINITIVE_EXTENSIONS_cpp
                 then \<lparr>detected = CPP, uncertain = False\<rparr>
               else if langId = ''c'' then \<lparr>detected = C, uncertain = False\<rparr>
               else if langId = ''cpp'' \<or> langId = ''cxx''
                 then \<lparr>detected = CPP, uncertain = False\<rparr>
               else if ext = ''.h'' then
                 (case detectLanguageForHeaderFile_injected path filePath fileExistsCheck of
                    Some result \<Rightarrow> result
                  | None \<Rightarrow> fallback)
               else fallback
      | _ \<Rightarrow> \<lparr>detected = CPP, uncertain = True\<rparr>)"

text \<open>
  The companion of a header that the detectors probe for an extension:
  \<open>path.join(dirPath, `${baseName}${ext}`)\<close>.
\<close>

definition companionFile :: "PathApi \<Rightarrow> string \<Rightarrow> string \<Rightarrow> string" where
  "companionFile path filePath ext =
     join path (dirname path filePath) (basename path filePath ''.h'' @ ext)"

text \<open>
  A concrete path module for worked examples. On a normalised absolute path without a
  trailing separator it computes what Node's posix \<open>path\<close> functions return.
\<close>

definition lastComponent :: "string \<Rightarrow> string" where
  "lastComponent p = rev (takeWhile (\<lambda>c. c \<noteq> CHR ''/'') (rev p))"

definition posix_extname :: "string \<Rightarrow> string" where
  "posix_extname p =
     (let b = lastComponent p;
          e = rev (takeWhile (\<lambda>c. c \<noteq> CHR ''.'') (rev b))
      in if CHR ''.'' \<notin> set b \<or> length e + 1 = length b \<or> b = ''..'' then []
         else CHR ''.'' # e)"

definition posix_basename :: "string \<Rightarrow> string \<Rightarrow> string" where
  "posix_basename p ext =
     (let b = lastComponent p
      in if ext \<noteq> [] \<and> ext \<noteq> b \<and> drop (length b - length ext) b = ext
         then take (length b - length ext) b
         else b)"

definition posix_dirname :: "string \<Rightarrow> string" where
  "posix_dirname p =
     (let d = rev (drop 1 (dropWhile (\<lambda>c. c \<noteq> CHR ''/'') (rev p)))
      in if CHR ''/'' \<notin> set p then ''.'' else if d = [] then ''/'' else d)"

definition posix_join :: "string \<Rightarrow> string \<Rightarrow> string" where
  "posix_join a b = (if a = ''/'' then a @ b else a @ ''/'' @ b)"

definition posixPath :: PathApi where
  "posixPath =
     \<lparr>extname = posix_extname, basename = posix_basename,
      dirname = posix_dirname, join = posix_join\<rparr>"

text \<open>
  A concrete host for worked examples: a saved document with the given path and language
  identifier is active, the listed paths exist, and no host call fails.
\<close>

definition exampleHost :: "string \<Rightarrow> string \<Rightarrow> string list \<Rightarrow> Host" where
  "exampleHost filePath langId existing =
     \<lparr>activeTextEditor =
        Some \<lparr>isUntitled = False, languageId = langId, fsPath = filePath\<rparr>,
      workspaceFolders = None,
      stat = (\<lambda>p. p \<in> set existing),
      eolSetting = None,
      osEOL = [CHR 0x0A],
      dateNow = ''1700000000000'',
      updateError = None,
      writeError = (\<lambda>p. None)\<rparr>"

section \<open>Settings\<close>

datatype Scope = Workspace | User

text \<open>
  The two scopes of the setting \<open>clangd.createPair.rules\<close>, as \<open>inspect\<close> shows them;
  a scope without the setting is \<^const>\<open>None\<close>.
\<close>

record 'r Configuration =
  workspaceValue :: "'r list option"
  globalValue :: "'r list option"

definition getRules :: "Scope \<Rightarrow> 'r Configuration \<Rightarrow> 'r list option" where
  "getRules scope config =
     (if scope = Workspace then workspaceValue config else globalValue config)"

text \<open>A fulfilled \<open>config.update(CONFIG_KEY, rules, target)\<close>.\<close>

definition update :: "Scope \<Rightarrow> 'r list option \<Rightarrow> 'r Configuration \<Rightarrow> 'r Configuration" where
  "update scope rules config =
     (if scope = Workspace then config\<lparr>workspaceValue := rules\<rparr>
      else config\<lparr>globalValue := rules\<rparr>)"

section \<open>What a run does: dialogs, messages, writes\<close>

text \<open>
  An entry of a quick pick over custom rules: a rule, or the special entry
  \<open>use_default\<close> (the only entry with \<open>isSpecial\<close>).
\<close>

datatype QuickPickItem = RuleItem PairingRule | UseDefaultItem

text \<open>
  The dialogs of the wizard. A quick pick carries the entries it offers; an extension
  entry is (label, headerExt, sourceExt).
\<close>

datatype DialogKind =
    WorkspaceFolderPick
  | CustomRulePick "QuickPickItem list"
  | OfferCustomRules
  | ExtensionPick "(string \<times> string \<times> string) list"
  | HeaderExtInput
  | SourceExtInput
  | SaveLocationPick
  | TemplatePick "PairingRule list"
  | MismatchWarning
  | FileNameInput

text \<open>
  The effects of a run, in order. \<open>Dialog d answered\<close>: dialog \<open>d\<close> was shown and the host
  returned a value (\<open>answered\<close>) or \<open>undefined\<close> because the user dismissed it.
  \<open>ConfigurationUpdate\<close> and \<open>WriteFile\<close> are the calls \<open>config.update\<close> and
  \<open>fs.writeFile\<close>.
\<close>

datatype 'r Event =
    Dialog DialogKind bool
  | ErrorMessage string
  | InformationMessage string
  | ConfigurationUpdate Scope "'r list"
  | WriteFile string string
  | ShowTextDocument string

record 'r World =
  configuration :: "'r Configuration"
  events :: "'r Event list"

definition emit :: "'r Event \<Rightarrow> 'r World \<Rightarrow> 'r World" where
  "emit e w = w\<lparr>events := events w @ [e]\<rparr>"

text \<open>
  Readings of a list of effects: the files written (path and content), the settings
  updates attempted, whether a dialog was shown, and whether one was dismissed.
\<close>

fun writes :: "'r Event list \<Rightarrow> (string \<times> string) list" where
  "writes [] = []"
| "writes (WriteFile p c # es) = (p, c) # writes es"
| "writes (_ # es) = writes es"

fun updates :: "'r Event list \<Rightarrow> (Scope \<times> 'r list) list" where
  "updates [] = []"
| "updates (ConfigurationUpdate scope rules # es) = (scope, rules) # updates es"
| "updates (_ # es) = updates es"

definition shown :: "DialogKind \<Rightarrow> 'r Event list \<Rightarrow> bool" where
  "shown d es \<longleftrightarrow> Dialog d True \<in> set es \<or> Dialog d False \<in> set es"

fun dismissals :: "'r Event list \<Rightarrow> DialogKind list" where
  "dismissals [] = []"
| "dismissals (Dialog d False # es) = d # dismissals es"
| "dismissals (_ # es) = dismissals es"

text \<open>A run that stops at a dismissed dialog: nothing follows a dismissal.\<close>

fun endsAtDismissal :: "'r Event list \<Rightarrow> bool" where
  "endsAtDismissal [] = True"
| "endsAtDismissal (Dialog d False # es) = (es = [])"
| "endsAtDismissal (_ # es) = endsAtDismissal es"

text \<open>
  What a step without file writes adds to the effects: no write, nothing after a
  dismissal, and no dismissal at all when the step lets the run continue.
\<close>

definition quiet :: "'r Event list \<Rightarrow> bool \<Rightarrow> bool" where
  "quiet es continued \<longleftrightarrow>
     writes es = [] \<and> endsAtDismissal es \<and> (continued \<longrightarrow> dismissals es = [])"

text \<open>
  The user's answers, one per dialog; \<^const>\<open>None\<close> is a dismissed dialog. A quick pick
  answers with one of the entries it is given; an input box returns only text that its
  \<open>validateInput\<close> accepts. The model lets an answer be any value of the right type.
\<close>

record User =
  folderPick :: "string option"
  customRulePick :: "QuickPickItem list \<Rightarrow> QuickPickItem option"
  offerAnswer :: "string option"
  extensionPick :: "(string \<times> string \<times> string) list \<Rightarrow> (string \<times> string \<times> string) option"
  headerExtInput :: "string option"
  sourceExtInput :: "string option"
  saveLocationPick :: "Scope option"
  templatePick :: "PairingRule list \<Rightarrow> PairingRule option"
  mismatchAnswer :: "string option"
  fileNameInput :: "string option"

section \<open>PairingRuleService (pairing-rule-service.ts, pairing-rule-manager.ts)\<close>

text \<open>
  \<open>writeRules\<close> awaits \<open>config.update\<close>; the result is the rejection message or success.
\<close>

definition writeRules ::
  "Host \<Rightarrow> 'r list \<Rightarrow> Scope \<Rightarrow> 'r World \<Rightarrow> (string + unit) \<times> 'r World" where
  "writeRules host rules scope w =
     (let w1 = emit (ConfigurationUpdate scope rules) w
      in case updateError host of
           Some message \<Rightarrow> (Inl message, w1)
         | None \<Rightarrow>
             (Inr (), w1\<lparr>configuration := update scope (Some rules) (configuration w1)\<rparr>))"

section \<open>The wizard of create-source-header-pair.ts (first version)\<close>

definition languageName :: "Language \<Rightarrow> string" where
  "languageName l = (if l = C then ''c'' else ''cpp'')"

text \<open>
  \<open>s.replace(/pat/, rep)\<close> for a pattern that is a literal text: the leftmost
  occurrence is replaced. The replacement is taken as it is (no \<open>$\<close> patterns).
\<close>

fun replaceFirst :: "string \<Rightarrow> string \<Rightarrow> string \<Rightarrow> string" where
  "replaceFirst pat rep [] = (if pat = [] then rep else [])"
| "replaceFirst pat rep (c # cs) =
     (if prefix pat (c # cs) then rep @ drop (length pat) (c # cs)
      else c # replaceFirst pat rep cs)"

text \<open>\<open>Array.prototype.indexOf\<close>: the first position of an element, or \<open>-1\<close>.\<close>

fun indexOf :: "'a list \<Rightarrow> 'a \<Rightarrow> int" where
  "indexOf [] x = - 1"
| "indexOf (y # ys) x =
     (if x = y then 0 else (let i = indexOf ys x in if i < 0 then - 1 else i + 1))"

definition getLineEnding :: "Host \<Rightarrow> string" where
  "getLineEnding host =
     (case eolSetting host of
        Some e \<Rightarrow> if e = [CHR 0x0A] \<or> e = [CHR 0x0D, CHR 0x0A] then e else osEOL host
      | None \<Rightarrow> osEOL host)"

text \<open>
  \<open>getTargetDirectory\<close>: the directory of the saved active document, else the only
  workspace folder, else the folder picked among several, else nothing.
\<close>

definition pickWorkspaceFolder :: "Host \<Rightarrow> User \<Rightarrow> 'r World \<Rightarrow> string option \<times> 'r World" where
  "pickWorkspaceFolder host user w =
     (case workspaceFolders host of
        None \<Rightarrow> (None, w)
      | Some folders \<Rightarrow>
          if length folders = 1 then (Some (hd folders), w)
          else if length folders > 1
            then (folderPick user,
                  emit (Dialog WorkspaceFolderPick (folderPick user \<noteq> None)) w)
          else (None, w))"

definition getTargetDirectory ::
  "PathApi \<Rightarrow> Host \<Rightarrow> User \<Rightarrow> 'r World \<Rightarrow> string option \<times> 'r World" where
  "getTargetDirectory path host user w =
     (case activeTextEditor host of
        Some document \<Rightarrow>
          if \<not> isUntitled document then (Some (dirname path (fsPath document)), w)
          else pickWorkspaceFolder host user w
      | None \<Rightarrow> pickWorkspaceFolder host user w)"

text \<open>
  \<open>selectFromCustomRules\<close>: the entries are the custom rules (with label and description
  tidied), the built-in templates of the language that no custom rule duplicates
  (carrying the first custom rule's extensions for C++), the built-in templates of the
  other language, and \<open>use_default\<close>. \<^const>\<open>None\<close> is a dismissed pick.
\<close>

datatype CustomRulesResult =
    Selected PairingRule
  | Cancelled
  | NoCustomRules
  | UseDefault

definition adaptedDefaultTemplates :: "PairingRule list \<Rightarrow> Language \<Rightarrow> PairingRule list" where
  "adaptedDefaultTemplates languageRules lang =
     (case languageRules of
        first # _ \<Rightarrow>
          if headerExt first \<noteq> [] \<and> sourceExt first \<noteq> [] \<and> lang = CPP then
            map (\<lambda>template. template
                   \<lparr>key := key template @ ''_adapted'',
                    description :=
                      replaceFirst ''Creates a .h/.cpp''
                        (''Creates a '' @ headerExt first @ ''/'' @ sourceExt first)
                        (replaceFirst ''basic .h/.cpp''
                           (''basic '' @ headerExt first @ ''/'' @ sourceExt first)
                           (replaceFirst ''.h/.cpp''
                              (headerExt first @ ''/'' @ sourceExt first)
                              (description template))),
                    headerExt := headerExt first,
                    sourceExt := sourceExt first\<rparr>)
              (filter (\<lambda>template.
                   \<not> list_ex (\<lambda>customRule.
                        isClass customRule = isClass template \<and>
                        isStruct customRule = isStruct template \<and>
                        (truthy (isClass customRule) \<or> truthy (isStruct customRule) \<or>
                         (\<not> truthy (isClass customRule) \<and> \<not> truthy (isStruct customRule) \<and>
                          \<not> truthy (isClass template) \<and> \<not> truthy (isStruct template))))
                      languageRules)
                 (filter (\<lambda>template. language template = CPP) TEMPLATE_RULES))
          else
            filter (\<lambda>template.
                \<not> list_ex (\<lambda>customRule.
                     headerExt customRule = headerExt template \<and>
                     sourceExt customRule = sourceExt template \<and>
                     isClass customRule = isClass template \<and>
                     isStruct customRule = isStruct template)
                   languageRules)
              (filter (\<lambda>template. language template = lang) TEMPLATE_RULES)
      | [] \<Rightarrow> filter (\<lambda>template. language template = lang) TEMPLATE_RULES)"

definition cleanedCustomRules :: "PairingRule list \<Rightarrow> PairingRule list" where
  "cleanedCustomRules rules =
     map (\<lambda>rule. rule
            \<lparr>label :=
               (if sublist ''$('' (label rule) then label rule
                else ''$(new-file) '' @ (if language rule = CPP then ''C++'' else ''C'') @
                     '' Pair ('' @ headerExt rule @ ''/'' @ sourceExt rule @ '')''),
             description :=
               (if prefix ''Creates a'' (description rule) then description rule
                else ''Creates a '' @ headerExt rule @ ''/'' @ sourceExt rule @
                     '' file pair with header guards.'')\<rparr>)
       rules"

definition selectFromCustomRules ::
  "User \<Rightarrow> PairingRule list \<Rightarrow> Language \<Rightarrow> 'r World \<Rightarrow> CustomRulesResult option \<times> 'r World" where
  "selectFromCustomRules user rules lang w =
     (let languageRules = filter (\<lambda>rule. language rule = lang) rules;
          otherLanguageTemplates =
            filter (\<lambda>template. language template \<noteq> lang) TEMPLATE_RULES;
          choices =
            map RuleItem
              (cleanedCustomRules rules @ adaptedDefaultTemplates languageRules lang @
               otherLanguageTemplates) @
            [UseDefaultItem];
          result = customRulePick user choices;
          w1 = emit (Dialog (CustomRulePick choices) (result \<noteq> None)) w
      in case result of
           None \<Rightarrow> (None, w1)
         | Some UseDefaultItem \<Rightarrow> (Some UseDefault, w1)
         | Some (RuleItem rule) \<Rightarrow> (Some (Selected rule), w1))"

text \<open>
  \<open>offerToCreateCustomRules\<close>: \<open>Some True\<close> to create rules, \<open>Some False\<close> to use the
  defaults, \<^const>\<open>None\<close> (the source's \<open>null\<close>) when the message was dismissed.
\<close>

definition offerToCreateCustomRules ::
  "User \<Rightarrow> Language \<Rightarrow> 'r World \<Rightarrow> bool option \<times> 'r World" where
  "offerToCreateCustomRules user lang w =
     (let result = offerAnswer user;
          w1 = emit (Dialog OfferCustomRules (result \<noteq> None)) w
      in if result = Some ''Create Custom Rules'' then (Some True, w1)
         else if result = Some ''Use Defaults'' then (Some False, w1)
         else (None, w1))"

definition commonExtensions :: "Language \<Rightarrow> (string \<times> string \<times> string) list" where
  "commonExtensions lang =
     (if lang = CPP then
        [(''.h / .cpp (Default)'', ''.h'', ''.cpp''),
         (''.hh / .cc (Alternative)'', ''.hh'', ''.cc''),
         (''.hpp / .cpp (Header Plus Plus)'', ''.hpp'', ''.cpp''),
         (''.hxx / .cxx (Extended)'', ''.hxx'', ''.cxx''),
         (''Custom Extensions'', '''', '''')]
      else
        [(''.h / .c (Default)'', ''.h'', ''.c''),
         (''Custom Extensions'', '''', '''')])"

text \<open>
  The second half of \<open>createCustomRules\<close>, once the two extensions are known: build the
  rule, ask for the scope, append the rule to that scope's rules and save them.
\<close>

definition saveCustomRule ::
  "Host \<Rightarrow> User \<Rightarrow> Language \<Rightarrow> string \<Rightarrow> string \<Rightarrow> PairingRule World \<Rightarrow>
   PairingRule option \<times> PairingRule World" where
  "saveCustomRule host user lang hExt sExt w =
     (let customRule =
            \<lparr>key = ''custom_'' @ languageName lang @ ''_'' @ dateNow host,
             label = ''$(new-file) '' @ (if lang = CPP then ''C++'' else ''C'') @
                     '' Pair ('' @ hExt @ ''/'' @ sExt @ '')'',
             description = ''Creates a '' @ hExt @ ''/'' @ sExt @
                           '' file pair with header guards.'',
             language = lang, headerExt = hExt, sourceExt = sExt,
             isClass = None, isStruct = None\<rparr>;
          saveLocation = saveLocationPick user;
          w1 = emit (Dialog SaveLocationPick (saveLocation \<noteq> None)) w
      in case saveLocation of
           None \<Rightarrow> (None, w1)
         | Some scope \<Rightarrow>
             let existingRules =
                   (case getRules scope (configuration w1) of None \<Rightarrow> [] | Some rs \<Rightarrow> rs);
                 updatedRules = existingRules @ [customRule]
             in case writeRules host updatedRules scope w1 of
                  (Inr _, w2) \<Rightarrow>
                    (Some customRule,
                     emit (InformationMessage
                            (''Custom pairing rule saved to '' @
                             (if scope = Workspace then ''workspace'' else ''global'') @
                             '' settings.'')) w2)
                | (Inl message, w2) \<Rightarrow>
                    (None, emit (ErrorMessage (''Failed to save custom rule: '' @ message)) w2))"

definition createCustomRules ::
  "Host \<Rightarrow> User \<Rightarrow> Language \<Rightarrow> PairingRule World \<Rightarrow>
   PairingRule option \<times> PairingRule World" where
  "createCustomRules host user lang w =
     (let selectedExtension = extensionPick user (commonExtensions lang);
          w1 = emit (Dialog (ExtensionPick (commonExtensions lang))
                       (selectedExtension \<noteq> None)) w
      in case selectedExtension of
           None \<Rightarrow> (None, w1)
         | Some (_, hExt, sExt) \<Rightarrow>
             if hExt = [] \<or> sExt = [] then
               (let inputHeaderExt = headerExtInput user;
                    w2 = emit (Dialog HeaderExtInput (inputHeaderExt \<noteq> None)) w1
                in case inputHeaderExt of
                     None \<Rightarrow> (None, w2)
                   | Some hExt' \<Rightarrow>
                       if hExt' = [] then (None, w2)
                       else
                         (let inputSourceExt = sourceExtInput user;
                              w3 = emit (Dialog SourceExtInput (inputSourceExt \<noteq> None)) w2
                          in case inputSourceExt of
                               None \<Rightarrow> (None, w3)
                             | Some sExt' \<Rightarrow>
                                 if sExt' = [] then (None, w3)
                                 else saveCustomRule host user lang hExt' sExt' w3))
             else saveCustomRule host user lang hExt sExt w1)"

text \<open>
  \<open>checkAndOfferCustomRules\<close>: \<open>Cancelled\<close> is the source's \<open>null\<close>, \<open>NoCustomRules\<close> its
  \<open>undefined\<close>.
\<close>

definition checkAndOfferCustomRules ::
  "Host \<Rightarrow> User \<Rightarrow> Language \<Rightarrow> bool \<Rightarrow> PairingRule World \<Rightarrow>
   CustomRulesResult \<times> PairingRule World" where
  "checkAndOfferCustomRules host user lang uncert w =
     (let workspaceRules = getRules Workspace (configuration w);
          globalRules = getRules User (configuration w);
          availableRules =
            (case workspaceRules of None \<Rightarrow> [] | Some rs \<Rightarrow> rs) @
            (case globalRules of None \<Rightarrow> [] | Some rs \<Rightarrow> rs);
          languageRules = filter (\<lambda>rule. language rule = lang) availableRules
      in if length languageRules > 0 then
           (case selectFromCustomRules user languageRules lang w of
              (None, w1) \<Rightarrow> (Cancelled, w1)
            | (Some result, w1) \<Rightarrow> (result, w1))
         else if \<not> uncert then
           (case offerToCreateCustomRules user lang w of
              (None, w1) \<Rightarrow> (Cancelled, w1)
            | (Some True, w1) \<Rightarrow>
                (case createCustomRules host user lang w1 of
                   (None, w2) \<Rightarrow> (Cancelled, w2)
                 | (Some rule, w2) \<Rightarrow> (Selected rule, w2))
            | (Some False, w1) \<Rightarrow> (NoCustomRules, w1))
         else (NoCustomRules, w))"

definition desiredOrder :: "Language \<Rightarrow> bool \<Rightarrow> string list" where
  "desiredOrder lang uncert =
     (if uncert then [''cpp_empty'', ''c_empty'', ''cpp_class'', ''cpp_struct'', ''c_struct'']
      else if lang = C
        then [''c_empty'', ''c_struct'', ''cpp_empty'', ''cpp_class'', ''cpp_struct'']
      else [''cpp_empty'', ''cpp_class'', ''cpp_struct'', ''c_empty'', ''c_struct''])"

text \<open>
  \<open>promptForPairingRule\<close>, first version: the built-in templates are sorted (stably) by
  their position in the desired order and offered; the pick is returned as it is.
\<close>

definition promptForPairingRule ::
  "Host \<Rightarrow> User \<Rightarrow> Language \<Rightarrow> bool \<Rightarrow> PairingRule World \<Rightarrow>
   PairingRule option \<times> PairingRule World" where
  "promptForPairingRule host user lang uncert w =
     (case checkAndOfferCustomRules host user lang uncert w of
        (Cancelled, w1) \<Rightarrow> (None, w1)
      | (Selected rule, w1) \<Rightarrow> (Some rule, w1)
      | (_, w1) \<Rightarrow>
          let choices =
                sort_key (\<lambda>rule. indexOf (desiredOrder lang uncert) (key rule)) TEMPLATE_RULES;
              result = templatePick user choices
          in (result, emit (Dialog (TemplatePick choices) (result \<noteq> None)) w1))"

text \<open>
  \<open>VALIDATION_PATTERNS.IDENTIFIER\<close>, the pattern \<open>^[a-zA-Z_][a-zA-Z0-9_]*$\<close> that the file
  name box tests on the trimmed input.
\<close>

definition identifierStart :: "char \<Rightarrow> bool" where
  "identifierStart c \<longleftrightarrow>
     c \<in> set ''abcdefghijklmnopqrstuvwxyzABCDEFGHIJKLMNOPQRSTUVWXYZ_''"

definition IDENTIFIER :: "string \<Rightarrow> bool" where
  "IDENTIFIER s \<longleftrightarrow>
     (case s of [] \<Rightarrow> False | c # cs \<Rightarrow> identifierStart c \<and> list_all wordChar cs)"

definition promptForFileName :: "User \<Rightarrow> PairingRule \<Rightarrow> 'r World \<Rightarrow> string option \<times> 'r World" where
  "promptForFileName user rule w =
     (fileNameInput user, emit (Dialog FileNameInput (fileNameInput user \<noteq> None)) w)"

text \<open>\<open>checkFileExistence\<close>: the first of the two paths whose \<open>stat\<close> fulfils.\<close>

definition checkFileExistence :: "Host \<Rightarrow> string \<Rightarrow> string \<Rightarrow> string option" where
  "checkFileExistence host headerPath sourcePath =
     (if stat host headerPath then Some headerPath
      else if stat host sourcePath then Some sourcePath
      else None)"

text \<open>
  \<open>writeFiles\<close>: both writes are started; if one rejects, the error
  \<open>Failed to create files: ...\<close> is thrown.
\<close>

definition writeFiles ::
  "Host \<Rightarrow> string \<Rightarrow> string \<Rightarrow> string \<Rightarrow> string \<Rightarrow> 'r World \<Rightarrow> (string + unit) \<times> 'r World" where
  "writeFiles host headerPath sourcePath headerContent sourceContent w =
     (let w1 = emit (WriteFile sourcePath sourceContent)
                 (emit (WriteFile headerPath headerContent) w)
      in case writeError host headerPath of
           Some message \<Rightarrow> (Inl (''Failed to create files: '' @ message @ ''.''), w1)
         | None \<Rightarrow>
             (case writeError host sourcePath of
                Some message \<Rightarrow> (Inl (''Failed to create files: '' @ message @ ''.''), w1)
              | None \<Rightarrow> (Inr (), w1)))"

definition finalizeCreation :: "PathApi \<Rightarrow> string \<Rightarrow> string \<Rightarrow> 'r World \<Rightarrow> 'r World" where
  "finalizeCreation path headerPath sourcePath w =
     emit (InformationMessage
             (''Successfully created '' @ basename path headerPath [] @ '' and '' @
              basename path sourcePath [] @ ''.''))
       (emit (ShowTextDocument headerPath) w)"

text \<open>
  The last steps of \<open>create\<close>: generate the two texts, write them, and either report
  the thrown error (\<open>error.message || 'An unexpected error occurred.'\<close>) or finish.
\<close>

definition createFiles ::
  "PathApi \<Rightarrow> Host \<Rightarrow> string \<Rightarrow> PairingRule \<Rightarrow> string \<Rightarrow> string \<Rightarrow> 'r World \<Rightarrow> 'r World" where
  "createFiles path host fileName rule headerPath sourcePath w =
     (let eol = getLineEnding host;
          (headerContent, sourceContent) = generateFileContent fileName eol rule
      in case writeFiles host headerPath sourcePath headerContent sourceContent w of
           (Inl message, w1) \<Rightarrow>
             emit (ErrorMessage
                     (if message = [] then ''An unexpected error occurred.'' else message)) w1
         | (Inr _, w1) \<Rightarrow> finalizeCreation path headerPath sourcePath w1)"

text \<open>\<open>PairCreator.create\<close>: the whole run, from the world before to the world after.\<close>

definition create :: "PathApi \<Rightarrow> Host \<Rightarrow> User \<Rightarrow> PairingRule World \<Rightarrow> PairingRule World" where
  "create path host user w =
     (case getTargetDirectory path host user w of
        (None, w1) \<Rightarrow>
          emit (ErrorMessage
            ''Cannot determine target directory. Please open a folder or a file first.'') w1
      | (Some targetDirectory, w1) \<Rightarrow>
          let detection = detectLanguage path host
          in case promptForPairingRule host user (detected detection) (uncertain detection) w1 of
               (None, w2) \<Rightarrow> w2
             | (Some rule, w2) \<Rightarrow>
                 (case promptForFileName user rule w2 of
                    (None, w3) \<Rightarrow> w3
                  | (Some fileName, w3) \<Rightarrow>
                      if fileName = [] then w3
                      else
                        let headerPath = join path targetDirectory (fileName @ headerExt rule);
                            sourcePath = join path targetDirectory (fileName @ sourceExt rule)
                        in case checkFileExistence host headerPath sourcePath of
                             Some existingFilePath \<Rightarrow>
                               if existingFilePath \<noteq> []
                               then emit (ErrorMessage
                                            (''File already exists: '' @ existingFilePath)) w3
                               else createFiles path host fileName rule headerPath sourcePath w3
                           | None \<Rightarrow>
                               createFiles path host fileName rule headerPath sourcePath w3))"

section \<open>The wizard of create-source-header-pair.ts (second version)\<close>

text \<open>
  The second \<open>PairCreator\<close> of the file differs in its rule texts, in adapting the built-in
  C++ templates to the extensions of the first custom C++ rule, in leaving C to the
  built-in templates, and in the warning of \<open>promptForPairingRule\<close>.
\<close>

definition TEMPLATE_RULES2 :: "PairingRule list" where
  "TEMPLATE_RULES2 =
    [\<lparr>key = ''cpp_empty'', label = ''$(new-file) C++ Pair'',
       description = ''Creates a basic Header/Source file pair with header guards.'',
       language = CPP, headerExt = ''.h'', sourceExt = ''.cpp'',
       isClass = None, isStruct = None\<rparr>,
     \<lparr>key = ''cpp_class'', label = ''$(symbol-class) C++ Class'',
       description = ''Creates a Header/Source file pair with a boilerplate class definition.'',
       language = CPP, headerExt = ''.h'', sourceExt = ''.cpp'',
       isClass = Some True, isStruct = None\<rparr>,
     \<lparr>key = ''cpp_struct'', label = ''$(symbol-struct) C++ Struct'',
       description = ''Creates a Header/Source file pair with a boilerplate struct definition.'',
       language = CPP, headerExt = ''.h'', sourceExt = ''.cpp'',
       isClass = None, isStruct = Some True\<rparr>,
     \<lparr>key = ''c_empty'', label = ''$(file-code) C Pair'',
       description = ''Creates a basic .h/.c file pair for function declarations.'',
       language = C, headerExt = ''.h'', sourceExt = ''.c'',
       isClass = None, isStruct = None\<rparr>,
     \<lparr>key = ''c_struct'', label = ''$(symbol-struct) C Struct'',
       description = ''Creates a .h/.c file pair with a boilerplate typedef struct.'',
       language = C, headerExt = ''.h'', sourceExt = ''.c'',
       isClass = None, isStruct = Some True\<rparr>]"

text \<open>
  \<open>s.replace(/pat/g, rep)\<close> for a literal, non-empty pattern: every occurrence, from the
  left, without overlap.
\<close>

function replaceAll :: "string \<Rightarrow> string \<Rightarrow> string \<Rightarrow> string" where
  "replaceAll pat rep [] = []"
| "replaceAll pat rep (c # cs) =
     (if pat \<noteq> [] \<and> prefix pat (c # cs)
      then rep @ replaceAll pat rep (drop (length pat) (c # cs))
      else c # replaceAll pat rep cs)"
  by pat_completeness auto
termination
  by (relation "measure (\<lambda>(pat, rep, s). length s)") auto

definition allRules :: "'r Configuration \<Rightarrow> 'r list" where
  "allRules config =
     (case getRules Workspace config of None \<Rightarrow> [] | Some rs \<Rightarrow> rs) @
     (case getRules User config of None \<Rightarrow> [] | Some rs \<Rightarrow> rs)"

definition adaptRuleForCurrentExtensions ::
  "PairingRule Configuration \<Rightarrow> PairingRule \<Rightarrow> Language \<Rightarrow> PairingRule" where
  "adaptRuleForCurrentExtensions config rule detectedLanguage =
     (if language rule \<noteq> CPP then rule
      else
        case filter (\<lambda>r. language r = CPP) (allRules config) of
          [] \<Rightarrow> rule
        | first # _ \<Rightarrow>
            let target = headerExt first @ ''/'' @ sourceExt first;
                newDescription =
                  replaceAll ''.hxx/.cxx'' target
                    (replaceAll ''.hpp/.cpp'' target
                       (replaceAll ''.hh/.cc'' target
                          (replaceAll ''.h/.cpp'' target
                             (replaceAll ''Header/Source'' target (description rule)))))
            in rule\<lparr>description := newDescription,
                    headerExt := headerExt first, sourceExt := sourceExt first\<rparr>)"

definition adaptedDefaultTemplates2 ::
  "PairingRule Configuration \<Rightarrow> PairingRule list \<Rightarrow> Language \<Rightarrow> PairingRule list" where
  "adaptedDefaultTemplates2 config languageRules lang =
     (case languageRules of
        customExt # _ \<Rightarrow>
          if lang = CPP then
            map (\<lambda>template. template
                   \<lparr>key := key template @ ''_adapted'',
                    description :=
                      replaceAll ''Creates a .h/.cpp''
                        (''Creates a '' @ headerExt customExt @ ''/'' @ sourceExt customExt)
                        (replaceAll ''basic .h/.cpp''
                           (''basic '' @ headerExt customExt @ ''/'' @ sourceExt customExt)
                           (replaceAll ''.h/.cpp''
                              (headerExt customExt @ ''/'' @ sourceExt customExt)
                              (replaceAll ''Header/Source''
                                 (headerExt customExt @ ''/'' @ sourceExt customExt)
                                 (description template)))),
                    headerExt := headerExt customExt,
                    sourceExt := sourceExt customExt\<rparr>)
              (filter (\<lambda>template.
                   language template = CPP \<and>
                   \<not> list_ex (\<lambda>customRule.
                        isClass customRule = isClass template \<and>
                        isStruct customRule = isStruct template \<and>
                        (truthy (isClass customRule) \<or> truthy (isStruct customRule) \<or>
                         (\<not> truthy (isClass customRule) \<and> \<not> truthy (isStruct customRule) \<and>
                          \<not> truthy (isClass template) \<and> \<not> truthy (isStruct template))))
                      languageRules)
                 TEMPLATE_RULES2)
          else
            map (\<lambda>template. adaptRuleForCurrentExtensions config template lang)
              (filter (\<lambda>template.
                   language template = lang \<and>
                   \<not> list_ex (\<lambda>customRule.
                        headerExt customRule = headerExt template \<and>
                        sourceExt customRule = sourceExt template \<and>
                        isClass customRule = isClass template \<and>
                        isStruct customRule = isStruct template)
                      languageRules)
                 TEMPLATE_RULES2)
      | [] \<Rightarrow>
          map (\<lambda>template. adaptRuleForCurrentExtensions config template lang)
            (filter (\<lambda>template. language template = lang) TEMPLATE_RULES2))"

definition selectFromCustomRules2 ::
  "User \<Rightarrow> PairingRule list \<Rightarrow> Language \<Rightarrow> PairingRule World \<Rightarrow>
   CustomRulesResult option \<times> PairingRule World" where
  "selectFromCustomRules2 user rules lang w =
     (let languageRules = filter (\<lambda>rule. language rule = lang) rules;
          otherLanguageTemplates =
            map (\<lambda>template. adaptRuleForCurrentExtensions (configuration w) template lang)
              (filter (\<lambda>template. language template \<noteq> lang) TEMPLATE_RULES2);
          choices =
            map RuleItem
              (cleanedCustomRules rules @
               adaptedDefaultTemplates2 (configuration w) languageRules lang @
               otherLanguageTemplates) @
            [UseDefaultItem];
          result = customRulePick user choices;
          w1 = emit (Dialog (CustomRulePick choices) (result \<noteq> None)) w
      in case result of
           None \<Rightarrow> (None, w1)
         | Some UseDefaultItem \<Rightarrow> (Some UseDefault, w1)
         | Some (RuleItem rule) \<Rightarrow> (Some (Selected rule), w1))"

definition offerToCreateCustomRules2 ::
  "User \<Rightarrow> Language \<Rightarrow> 'r World \<Rightarrow> bool option \<times> 'r World" where
  "offerToCreateCustomRules2 user lang w =
     (if lang = C then (Some False, w)
      else
        let result = offerAnswer user;
            w1 = emit (Dialog OfferCustomRules (result \<noteq> None)) w
        in if result = Some ''Create Custom Rules'' then (Some True, w1)
           else if result = Some ''Dismiss'' then (Some False, w1)
           else (None, w1))"

definition createCustomRules2 ::
  "Host \<Rightarrow> User \<Rightarrow> Language \<Rightarrow> PairingRule World \<Rightarrow>
   PairingRule option \<times> PairingRule World" where
  "createCustomRules2 host user lang w =
     (if lang = C then (None, w)
      else
        let selectedExtension = extensionPick user (commonExtensions CPP);
            w1 = emit (Dialog (ExtensionPick (commonExtensions CPP))
                         (selectedExtension \<noteq> None)) w
        in case selectedExtension of
             None \<Rightarrow> (None, w1)
           | Some (_, hExt, sExt) \<Rightarrow>
               if hExt = [] \<or> sExt = [] then
                 (let inputHeaderExt = headerExtInput user;
                      w2 = emit (Dialog HeaderExtInput (inputHeaderExt \<noteq> None)) w1
                  in case inputHeaderExt of
                       None \<Rightarrow> (None, w2)
                     | Some hExt' \<Rightarrow>
                         if hExt' = [] then (None, w2)
                         else
                           (let inputSourceExt = sourceExtInput user;
                                w3 = emit (Dialog SourceExtInput (inputSourceExt \<noteq> None)) w2
                            in case inputSourceExt of
                                 None \<Rightarrow> (None, w3)
                               | Some sExt' \<Rightarrow>
                                   if sExt' = [] then (None, w3)
                                   else saveCustomRule host user CPP hExt' sExt' w3))
               else saveCustomRule host user CPP hExt sExt w1)"

definition checkAndOfferCustomRules2 ::
  "Host \<Rightarrow> User \<Rightarrow> Language \<Rightarrow> bool \<Rightarrow> PairingRule World \<Rightarrow>
   CustomRulesResult \<times> PairingRule World" where
  "checkAndOfferCustomRules2 host user lang uncert w =
     (if lang = C then (NoCustomRules, w)
      else
        let languageRules =
              filter (\<lambda>rule. language rule = lang) (allRules (configuration w))
        in if length languageRules > 0 then
             (case selectFromCustomRules2 user languageRules lang w of
                (None, w1) \<Rightarrow> (Cancelled, w1)
              | (Some result, w1) \<Rightarrow> (result, w1))
           else if \<not> uncert then
             (case offerToCreateCustomRules2 user lang w of
                (None, w1) \<Rightarrow> (Cancelled, w1)
              | (Some True, w1) \<Rightarrow>
                  (case createCustomRules2 host user lang w1 of
                     (None, w2) \<Rightarrow> (Cancelled, w2)
                   | (Some rule, w2) \<Rightarrow> (Selected rule, w2))
              | (Some False, w1) \<Rightarrow> (NoCustomRules, w1))
           else (NoCustomRules, w))"

text \<open>
  \<open>promptForPairingRule\<close>, second version: after the pick from the built-in templates, a
  rule of another language than the one detected with certainty brings up the warning,
  and only the answer \<open>Continue Anyway\<close> lets the rule through.
\<close>

definition promptForPairingRule2 ::
  "Host \<Rightarrow> User \<Rightarrow> Language \<Rightarrow> bool \<Rightarrow> PairingRule World \<Rightarrow>
   PairingRule option \<times> PairingRule World" where
  "promptForPairingRule2 host user lang uncert w =
     (case checkAndOfferCustomRules2 host user lang uncert w of
        (Cancelled, w1) \<Rightarrow> (None, w1)
      | (Selected rule, w1) \<Rightarrow> (Some rule, w1)
      | (_, w1) \<Rightarrow>
          let choices =
                map (\<lambda>rule. adaptRuleForCurrentExtensions (configuration w1) rule lang)
                  (sort_key (\<lambda>rule. indexOf (desiredOrder lang uncert) (key rule))
                     TEMPLATE_RULES2);
              result = templatePick user choices;
              w2 = emit (Dialog (TemplatePick choices) (result \<noteq> None)) w1
          in case result of
               None \<Rightarrow> (None, w2)
             | Some rule \<Rightarrow>
                 if \<not> uncert \<and> lang \<noteq> language rule then
                   (let shouldContinue = mismatchAnswer user;
                        w3 = emit (Dialog MismatchWarning (shouldContinue \<noteq> None)) w2
                    in if shouldContinue \<noteq> Some ''Continue Anyway'' then (None, w3)
                       else (Some rule, w3))
                 else (Some rule, w2))"

section \<open>PairingRuleService with validation (the namespace variant)\<close>

text \<open>
  A rule object as \<open>validateRule\<close> may meet it at run time: each of the four properties
  it tests can be missing (\<^const>\<open>None\<close>) or an empty text, and either is falsy.
\<close>

record RuleObject =
  key_of :: "string option"
  language_of :: "string option"
  headerExt_of :: "string option"
  sourceExt_of :: "string option"

datatype Error =
    InvalidRule RuleObject
  | UpdateRejected string

text \<open>\<open>validateRule\<close> throws \<open>Invalid rule: ...\<close> when one of the four properties is falsy.\<close>

definition validateRule :: "RuleObject \<Rightarrow> Error + unit" where
  "validateRule rule =
     (if falsy (key_of rule) \<or> falsy (language_of rule) \<or>
         falsy (headerExt_of rule) \<or> falsy (sourceExt_of rule)
      then Inl (InvalidRule rule)
      else Inr ())"

text \<open>\<open>rules.forEach(validateRule)\<close>: the first throw ends the loop.\<close>

fun forEach_validateRule :: "RuleObject list \<Rightarrow> Error + unit" where
  "forEach_validateRule [] = Inr ()"
| "forEach_validateRule (rule # rules) =
     (case validateRule rule of
        Inl e \<Rightarrow> Inl e
      | Inr _ \<Rightarrow> forEach_validateRule rules)"

text \<open>
  The message of an error; \<open>stringify\<close> stands for \<open>JSON.stringify\<close>.
\<close>

definition errorMessage :: "(RuleObject \<Rightarrow> string) \<Rightarrow> Error \<Rightarrow> string" where
  "errorMessage stringify e =
     (case e of
        InvalidRule rule \<Rightarrow> ''Invalid rule: '' @ stringify rule
      | UpdateRejected message \<Rightarrow> message)"

text \<open>\<open>handleError\<close> shows the message and throws the error again.\<close>

definition handleError ::
  "(RuleObject \<Rightarrow> string) \<Rightarrow> Error \<Rightarrow> string \<Rightarrow> Scope \<Rightarrow> RuleObject World \<Rightarrow>
   (Error + unit) \<times> RuleObject World" where
  "handleError stringify e operation scope w =
     (Inl e,
      emit (ErrorMessage
              (''Failed to '' @ operation @ '' pairing rules for '' @
               (if scope = Workspace then ''workspace'' else ''user'') @ '': '' @
               errorMessage stringify e)) w)"

text \<open>
  \<open>PairingRuleService.writeRules\<close> of the namespace: validate every rule, then update the
  setting; any error goes through \<open>handleError\<close>. The argument is a list, so the test
  \<open>Array.isArray(rules)\<close> holds.
\<close>

definition writeRules_validated ::
  "(RuleObject \<Rightarrow> string) \<Rightarrow> Host \<Rightarrow> RuleObject list \<Rightarrow> Scope \<Rightarrow> RuleObject World \<Rightarrow>
   (Error + unit) \<times> RuleObject World" where
  "writeRules_validated stringify host rules scope w =
     (case forEach_validateRule rules of
        Inl e \<Rightarrow> handleError stringify e ''save'' scope w
      | Inr _ \<Rightarrow>
          (case writeRules host rules scope w of
             (Inl message, w1) \<Rightarrow> handleError stringify (UpdateRejected message) ''save'' scope w1
           | (Inr _, w1) \<Rightarrow> (Inr (), w1)))"

text \<open>
  A user and a starting world for worked examples: the user declines the offer to create
  custom rules, picks the first entry of every list of rules, confirms the warning and
  names the pair \<open>Foo\<close>; the world has no custom rules and no effects yet.
\<close>

definition exampleUser :: User where
  "exampleUser =
     \<lparr>folderPick = None,
      customRulePick = (\<lambda>choices. case choices of [] \<Rightarrow> None | c # _ \<Rightarrow> Some c),
      offerAnswer = Some ''Use Defaults'',
      extensionPick = (\<lambda>choices. case choices of [] \<Rightarrow> None | c # _ \<Rightarrow> Some c),
      headerExtInput = None,
      sourceExtInput = None,
      saveLocationPick = Some Workspace,
      templatePick = (\<lambda>choices. case choices of [] \<Rightarrow> None | c # _ \<Rightarrow> Some c),
      mismatchAnswer = Some ''Continue Anyway'',
      fileNameInput = Some ''Foo''\<rparr>"

definition emptyWorld :: "'r World" where
  "emptyWorld = \<lparr>configuration = \<lparr>workspaceValue = None, globalValue = None\<rparr>, events = []\<rparr>"

text \<open>A well-formed rule object for worked examples.\<close>

definition okRule :: RuleObject where
  "okRule = \<lparr>key_of = Some ''custom_cpp_0'', language_of = Some ''cpp'',
              headerExt_of = Some ''.hh'', sourceExt_of = Some ''.cc''\<rparr>"

section \<open>Properties of the template substitution\<close>

declare replacePlaceholders.simps(2) [simp del]
declare placeholders.simps(2) [simp del]

lemma wordChar_brace [simp]: "\<not> wordChar (CHR ''{'')" "\<not> wordChar (CHR ''}'')"
  by (simp_all add: wordChar_def)

lemma replacePlaceholders_copy:
  "c \<noteq> CHR ''{'' \<Longrightarrow> replacePlaceholders f (c # cs) = c # replacePlaceholders f cs"
  by (cases cs) (simp_all add: replacePlaceholders.simps(2))

lemma replacePlaceholders_brace:
  "c \<noteq> CHR ''{'' \<Longrightarrow>
   replacePlaceholders f (CHR ''{'' # c # cs) = CHR ''{'' # replacePlaceholders f (c # cs)"
  by (cases cs) (simp_all add: replacePlaceholders.simps(2))

lemma replacePlaceholders_last_brace:
  "replacePlaceholders f [CHR ''{''] = [CHR ''{'']"
  by (simp add: replacePlaceholders.simps(2))

lemma replacePlaceholders_plain:
  "CHR ''{'' \<notin> set xs \<Longrightarrow> replacePlaceholders f (xs @ ys) = xs @ replacePlaceholders f ys"
proof (induction xs)
  case Nil
  show ?case by simp
next
  case (Cons a xs)
  then have "a \<noteq> CHR ''{''" and "CHR ''{'' \<notin> set xs" by auto
  with Cons.IH show ?case by (simp add: replacePlaceholders_copy)
qed

lemma matchPlaceholder_key:
  assumes "k \<noteq> []" and "\<forall>c\<in>set k. wordChar c"
  shows "matchPlaceholder (''{{'' @ k @ ''}}'' @ rest) = Some (k, rest)"
proof -
  have t: "takeWhile wordChar (k @ ''}}'' @ rest) = k"
    using assms(2) by (simp add: takeWhile_append2)
  have d: "dropWhile wordChar (k @ ''}}'' @ rest) = ''}}'' @ rest"
    using assms(2) by (simp add: dropWhile_append2)
  show ?thesis using assms(1) t d by simp
qed

lemma replacePlaceholders_key:
  assumes "k \<noteq> []" and "\<forall>c\<in>set k. wordChar c"
  shows "replacePlaceholders f (''{{'' @ k @ ''}}'' @ rest) =
         f (''{{'' @ k @ ''}}'') k @ replacePlaceholders f rest"
proof -
  have "replacePlaceholders f (CHR ''{'' # (CHR ''{'' # k @ ''}}'' @ rest)) =
        (case matchPlaceholder (''{{'' @ k @ ''}}'' @ rest) of
           Some (k, rest) \<Rightarrow> f (''{{'' @ k @ ''}}'') k @ replacePlaceholders f rest
         | None \<Rightarrow> CHR ''{'' # replacePlaceholders f (CHR ''{'' # k @ ''}}'' @ rest))"
    by (simp add: replacePlaceholders.simps(2))
  then show ?thesis
    using matchPlaceholder_key [OF assms] by simp
qed

lemma placeholders_copy:
  "c \<noteq> CHR ''{'' \<Longrightarrow> placeholders (c # cs) = placeholders cs"
  by (cases cs) (simp_all add: placeholders.simps(2))

lemma placeholders_brace:
  "c \<noteq> CHR ''{'' \<Longrightarrow> placeholders (CHR ''{'' # c # cs) = placeholders (c # cs)"
  by (cases cs) (simp_all add: placeholders.simps(2))

lemma placeholders_last_brace: "placeholders [CHR ''{''] = []"
  by (simp add: placeholders.simps(2))

lemma placeholders_key:
  assumes "k \<noteq> []" and "\<forall>c\<in>set k. wordChar c"
  shows "placeholders (''{{'' @ k @ ''}}'' @ rest) = k # placeholders rest"
proof -
  have "placeholders (CHR ''{'' # (CHR ''{'' # k @ ''}}'' @ rest)) =
        (case matchPlaceholder (''{{'' @ k @ ''}}'' @ rest) of
           Some (k, rest) \<Rightarrow> k # placeholders rest
         | None \<Rightarrow> placeholders (CHR ''{'' # k @ ''}}'' @ rest))"
    by (simp add: placeholders.simps(2))
  then show ?thesis
    using matchPlaceholder_key [OF assms] by simp
qed

text \<open>The three placeholders of the built-in templates, as rewrite rules on literals.\<close>

lemma replacePlaceholders_fileName:
  "replacePlaceholders f (''{{fileName}}'' @ rest) =
   f ''{{fileName}}'' ''fileName'' @ replacePlaceholders f rest"
  using replacePlaceholders_key [of "''fileName''" f rest]
  by (simp add: wordChar_def)

lemma replacePlaceholders_headerGuard:
  "replacePlaceholders f (''{{headerGuard}}'' @ rest) =
   f ''{{headerGuard}}'' ''headerGuard'' @ replacePlaceholders f rest"
  using replacePlaceholders_key [of "''headerGuard''" f rest]
  by (simp add: wordChar_def)

lemma replacePlaceholders_includeLine:
  "replacePlaceholders f (''{{includeLine}}'' @ rest) =
   f ''{{includeLine}}'' ''includeLine'' @ replacePlaceholders f rest"
  using replacePlaceholders_key [of "''includeLine''" f rest]
  by (simp add: wordChar_def)

lemma placeholders_fileName:
  "placeholders (''{{fileName}}'' @ rest) = ''fileName'' # placeholders rest"
  using placeholders_key [of "''fileName''" rest]
  by (simp add: wordChar_def)

lemma placeholders_headerGuard:
  "placeholders (''{{headerGuard}}'' @ rest) = ''headerGuard'' # placeholders rest"
  using placeholders_key [of "''headerGuard''" rest]
  by (simp add: wordChar_def)

lemma placeholders_includeLine:
  "placeholders (''{{includeLine}}'' @ rest) = ''includeLine'' # placeholders rest"
  using placeholders_key [of "''includeLine''" rest]
  by (simp add: wordChar_def)

lemmas replacePlaceholders_eval =
  replacePlaceholders_copy replacePlaceholders_brace replacePlaceholders_last_brace
  replacePlaceholders_fileName [simplified] replacePlaceholders_headerGuard [simplified]
  replacePlaceholders_includeLine [simplified]

lemmas placeholders_eval =
  placeholders_copy placeholders_brace placeholders_last_brace
  placeholders_fileName [simplified] placeholders_headerGuard [simplified]
  placeholders_includeLine [simplified]

subsection \<open>The two callbacks\<close>

lemma applyTemplate_variants_agree_if:
  "\<forall>k\<in>set (placeholders t). \<exists>v. c k = Some v \<and> v \<noteq> [] \<Longrightarrow>
   applyTemplate t c = applyTemplate_service t c"
proof (induction t rule: placeholders.induct)
  case 1
  show ?case by (simp add: applyTemplate_def applyTemplate_service_def)
next
  case (2 a cs)
  show ?case
  proof (cases "matchPlaceholder (a # cs)")
    case None
    with 2 show ?thesis
      by (simp add: applyTemplate_def applyTemplate_service_def replacePlaceholders.simps(2)
                    placeholders.simps(2))
  next
    case (Some kr)
    obtain k rest where kr: "kr = (k, rest)" by (cases kr)
    from "2.prems" Some kr have k: "\<exists>v. c k = Some v \<and> v \<noteq> []"
      and r: "\<forall>k\<in>set (placeholders rest). \<exists>v. c k = Some v \<and> v \<noteq> []"
      by (auto simp: placeholders.simps(2))
    from "2.IH"(2) [OF Some kr [symmetric] r] k Some kr show ?thesis
      by (auto simp: applyTemplate_def applyTemplate_service_def replacePlaceholders.simps(2))
  qed
qed

text \<open>
  C9. The two \<open>applyTemplate\<close> implementations (\<open>context[key] || match\<close> and
  \<open>context[key] ?? ''\<close>) return the same text for every template whose placeholder names
  are all bound to non-empty strings in the context. They are not equal in general: on
  the template \<open>{{name}}\<close> in the empty context, where the placeholder is unbound, the
  first leaves the placeholder as it is and the second returns the empty text.
\<close>

theorem applyTemplate_variants_agree:
  "((\<forall>k\<in>set (placeholders template). \<exists>v. context k = Some v \<and> v \<noteq> []) \<longrightarrow>
      applyTemplate template context = applyTemplate_service template context) \<and>
   placeholders ''{{name}}'' = [''name''] \<and>
   applyTemplate ''{{name}}'' Map.empty = ''{{name}}'' \<and>
   applyTemplate_service ''{{name}}'' Map.empty = []"
proof -
  have "replacePlaceholders f (''{{name}}'' @ []) = f ''{{name}}'' ''name''" for f
    using replacePlaceholders_key [of "''name''" f "[]"] by (simp add: wordChar_def)
  then have "applyTemplate ''{{name}}'' Map.empty = ''{{name}}''"
    and "applyTemplate_service ''{{name}}'' Map.empty = []"
    by (simp_all add: applyTemplate_def applyTemplate_service_def)
  moreover have "placeholders ''{{name}}'' = [''name'']"
    using placeholders_key [of "''name''" "[]"] by (simp add: wordChar_def)
  ultimately show ?thesis
    using applyTemplate_variants_agree_if [of template "context"] by blast
qed

theorem applyTemplate_variants_agree_witness:
  "placeholders ''class {{fileName}} {'' = [''fileName''] \<and>
   [''fileName'' \<mapsto> ''Foo''] ''fileName'' = Some ''Foo'' \<and>
   applyTemplate ''class {{fileName}} {'' [''fileName'' \<mapsto> ''Foo''] =
   applyTemplate_service ''class {{fileName}} {'' [''fileName'' \<mapsto> ''Foo'']"
proof -
  have p: "placeholders ''class {{fileName}} {'' = [''fileName'']"
    by (simp add: placeholders_eval)
  then have "\<forall>k\<in>set (placeholders ''class {{fileName}} {'').
               \<exists>v. [''fileName'' \<mapsto> ''Foo''] k = Some v \<and> v \<noteq> []"
    by simp
  with applyTemplate_variants_agree
         [of "''class {{fileName}} {''" "[''fileName'' \<mapsto> ''Foo'']"] p
  show ?thesis by simp
qed

subsection \<open>Applying the substitution again\<close>

lemma replacePlaceholders_no_open:
  "\<not> sublist ''{{'' s \<Longrightarrow> replacePlaceholders f s = s"
proof (induction s)
  case Nil
  show ?case by simp
next
  case (Cons c cs)
  from Cons.prems have tl: "\<not> sublist ''{{'' cs"
    by (meson sublist_Cons_right)
  show ?case
  proof (cases "c = CHR ''{''")
    case False
    with Cons.IH [OF tl] show ?thesis by (simp add: replacePlaceholders_copy)
  next
    case True
    show ?thesis
    proof (cases cs)
      case Nil
      with True show ?thesis by (simp add: replacePlaceholders_last_brace)
    next
      case (Cons d ds)
      with True Cons.prems have "d \<noteq> CHR ''{''"
        by (auto simp: sublist_Cons_right)
      with True Cons Cons.IH [OF tl] show ?thesis
        by (simp add: replacePlaceholders_brace)
    qed
  qed
qed

lemma upperChar_brace: "upperChar c = CHR ''{'' \<longleftrightarrow> c = CHR ''{''"
proof
  assume u: "upperChar c = CHR ''{''"
  show "c = CHR ''{''"
  proof (cases "map_of (zip ''abcdefghijklmnopqrstuvwxyz'' ''ABCDEFGHIJKLMNOPQRSTUVWXYZ'') c")
    case None
    with u show ?thesis by (simp add: upperChar_def)
  next
    case (Some v)
    with u have
      "map_of (zip ''abcdefghijklmnopqrstuvwxyz'' ''ABCDEFGHIJKLMNOPQRSTUVWXYZ'') c =
       Some (CHR ''{'')"
      by (simp add: upperChar_def)
    then have
      "(c, CHR ''{'') \<in> set (zip ''abcdefghijklmnopqrstuvwxyz'' ''ABCDEFGHIJKLMNOPQRSTUVWXYZ'')"
      by (rule map_of_SomeD)
    then show ?thesis by simp
  qed
next
  assume "c = CHR ''{''"
  then show "upperChar c = CHR ''{''" by (simp add: upperChar_def)
qed

lemma IDENTIFIER_plain:
  assumes "IDENTIFIER s"
  shows "s \<noteq> []" and "CHR ''{'' \<notin> set s" and "CHR ''{'' \<notin> set (toUpperCase s)"
proof -
  from assms obtain c cs where s: "s = c # cs" and c: "identifierStart c"
    and cs: "list_all wordChar cs"
    by (auto simp: IDENTIFIER_def split: list.splits)
  show "s \<noteq> []" using s by simp
  have "c \<noteq> CHR ''{''" using c by (auto simp: identifierStart_def)
  moreover have "CHR ''{'' \<notin> set cs" using cs by (auto simp: list_all_iff)
  ultimately show b: "CHR ''{'' \<notin> set s" using s by simp
  have "upperChar x \<noteq> CHR ''{''" if "x \<in> set s" for x
    using that b by (auto simp: upperChar_brace)
  then show "CHR ''{'' \<notin> set (toUpperCase s)"
    unfolding toUpperCase_def by (metis imageE list.set_map)
qed

lemma templateContext_values:
  "templateContext fileName rule ''fileName'' = Some fileName"
  "templateContext fileName rule ''headerGuard'' = Some (toUpperCase fileName @ ''_H_'')"
  "templateContext fileName rule ''includeLine'' =
     Some (''#include '' @ [CHR 0x22] @ fileName @ headerExt rule @ [CHR 0x22])"
  by (simp_all add: templateContext_def)

lemma getTemplatesByRule_cases:
  "getTemplatesByRule rule \<in> {CPP_CLASS, CPP_STRUCT, C_STRUCT, C_EMPTY, CPP_EMPTY}"
  by (simp add: getTemplatesByRule_def)

lemmas builtin_templates = CPP_CLASS_def CPP_STRUCT_def C_STRUCT_def C_EMPTY_def CPP_EMPTY_def

lemma builtin_idempotent:
  assumes "IDENTIFIER fileName" and "CHR ''{'' \<notin> set (headerExt rule)"
    and "templates \<in> {CPP_CLASS, CPP_STRUCT, C_STRUCT, C_EMPTY, CPP_EMPTY}"
  shows "applyTemplate (applyTemplate (fst templates) (templateContext fileName rule))
           (templateContext fileName rule) =
         applyTemplate (fst templates) (templateContext fileName rule)"
    and "applyTemplate (applyTemplate (snd templates) (templateContext fileName rule))
           (templateContext fileName rule) =
         applyTemplate (snd templates) (templateContext fileName rule)"
  using IDENTIFIER_plain [OF assms(1)] assms(2,3)
  by (auto simp: applyTemplate_def builtin_templates replacePlaceholders_eval
        templateContext_values replacePlaceholders_plain)

lemma builtin_idempotent_service:
  assumes "IDENTIFIER fileName" and "CHR ''{'' \<notin> set (headerExt rule)"
    and "templates \<in> {CPP_CLASS, CPP_STRUCT, C_STRUCT, C_EMPTY, CPP_EMPTY}"
  shows "applyTemplate_service
           (applyTemplate_service (fst templates) (templateContext fileName rule))
           (templateContext fileName rule) =
         applyTemplate_service (fst templates) (templateContext fileName rule)"
    and "applyTemplate_service
           (applyTemplate_service (snd templates) (templateContext fileName rule))
           (templateContext fileName rule) =
         applyTemplate_service (snd templates) (templateContext fileName rule)"
  using IDENTIFIER_plain [OF assms(1)] assms(2,3)
  by (auto simp: applyTemplate_service_def builtin_templates replacePlaceholders_eval
        templateContext_values replacePlaceholders_plain)

text \<open>
  C8, as stated, fails: a template may wrap a placeholder in further braces. With the
  context built from the identifier \<open>fileName\<close>, the template \<open>{{{{fileName}}}}\<close> becomes
  \<open>{{fileName}}\<close>, and a second application turns that into \<open>fileName\<close>, for both
  implementations.
\<close>

theorem applyTemplate_not_idempotent:
  "IDENTIFIER ''fileName'' \<and>
   applyTemplate
     (applyTemplate ''{{{{fileName}}}}'' (templateContext ''fileName'' (hd TEMPLATE_RULES)))
     (templateContext ''fileName'' (hd TEMPLATE_RULES)) \<noteq>
   applyTemplate ''{{{{fileName}}}}'' (templateContext ''fileName'' (hd TEMPLATE_RULES)) \<and>
   applyTemplate_service
     (applyTemplate_service ''{{{{fileName}}}}''
        (templateContext ''fileName'' (hd TEMPLATE_RULES)))
     (templateContext ''fileName'' (hd TEMPLATE_RULES)) \<noteq>
   applyTemplate_service ''{{{{fileName}}}}'' (templateContext ''fileName'' (hd TEMPLATE_RULES))"
proof -
  have i: "IDENTIFIER ''fileName''"
    by (simp add: IDENTIFIER_def identifierStart_def wordChar_def)
  have a1: "applyTemplate ''{{{{fileName}}}}'' (templateContext ''fileName'' (hd TEMPLATE_RULES)) =
            ''{{fileName}}''"
    by (simp add: applyTemplate_def replacePlaceholders.simps(2) wordChar_def
          templateContext_def)
  have a2: "applyTemplate ''{{fileName}}'' (templateContext ''fileName'' (hd TEMPLATE_RULES)) =
            ''fileName''"
    by (simp add: applyTemplate_def replacePlaceholders.simps(2) wordChar_def
          templateContext_def)
  have s1: "applyTemplate_service ''{{{{fileName}}}}''
              (templateContext ''fileName'' (hd TEMPLATE_RULES)) = ''{{fileName}}''"
    by (simp add: applyTemplate_service_def replacePlaceholders.simps(2) wordChar_def
          templateContext_def)
  have s2: "applyTemplate_service ''{{fileName}}''
              (templateContext ''fileName'' (hd TEMPLATE_RULES)) = ''fileName''"
    by (simp add: applyTemplate_service_def replacePlaceholders.simps(2) wordChar_def
          templateContext_def)
  show ?thesis by (simp add: i a1 a2 s1 s2)
qed

text \<open>
  C8, amended. Applying the substitution to a text that was already substituted changes
  nothing whenever that text contains no \<open>{{\<close>; in particular for the header and the
  source template of every pairing rule (the five built-in pairs), with the context
  that \<open>generateFileContent\<close> builds from a file name matching the identifier pattern and
  a header extension without an opening brace. This holds for both implementations.
\<close>

theorem applyTemplate_idempotent_builtin:
  "(\<not> sublist ''{{'' (applyTemplate template context) \<longrightarrow>
      applyTemplate (applyTemplate template context) context =
      applyTemplate template context) \<and>
   (\<not> sublist ''{{'' (applyTemplate_service template context) \<longrightarrow>
      applyTemplate_service (applyTemplate_service template context) context =
      applyTemplate_service template context) \<and>
   (IDENTIFIER fileName \<and> CHR ''{'' \<notin> set (headerExt rule) \<longrightarrow>
      (\<forall>t \<in> {fst (getTemplatesByRule rule), snd (getTemplatesByRule rule)}.
         applyTemplate (applyTemplate t (templateContext fileName rule))
           (templateContext fileName rule) =
         applyTemplate t (templateContext fileName rule) \<and>
         applyTemplate_service (applyTemplate_service t (templateContext fileName rule))
           (templateContext fileName rule) =
         applyTemplate_service t (templateContext fileName rule)))"
proof (intro conjI impI)
  assume "\<not> sublist ''{{'' (applyTemplate template context)"
  then show "applyTemplate (applyTemplate template context) context =
             applyTemplate template context"
    unfolding applyTemplate_def by (rule replacePlaceholders_no_open)
next
  assume "\<not> sublist ''{{'' (applyTemplate_service template context)"
  then show "applyTemplate_service (applyTemplate_service template context) context =
             applyTemplate_service template context"
    unfolding applyTemplate_service_def by (rule replacePlaceholders_no_open)
next
  assume a: "IDENTIFIER fileName \<and> CHR ''{'' \<notin> set (headerExt rule)"
  note t = getTemplatesByRule_cases [of rule]
  from a builtin_idempotent [OF _ _ t] builtin_idempotent_service [OF _ _ t]
  show "\<forall>t \<in> {fst (getTemplatesByRule rule), snd (getTemplatesByRule rule)}.
         applyTemplate (applyTemplate t (templateContext fileName rule))
           (templateContext fileName rule) =
         applyTemplate t (templateContext fileName rule) \<and>
         applyTemplate_service (applyTemplate_service t (templateContext fileName rule))
           (templateContext fileName rule) =
         applyTemplate_service t (templateContext fileName rule)"
    by blast
qed

theorem applyTemplate_idempotent_builtin_witness:
  "applyTemplate ''class {{fileName}} {'' [''fileName'' \<mapsto> ''Foo''] = ''class Foo {'' \<and>
   \<not> sublist ''{{'' ''class Foo {'' \<and>
   applyTemplate ''class Foo {'' [''fileName'' \<mapsto> ''Foo''] = ''class Foo {'' \<and>
   IDENTIFIER ''Foo'' \<and>
   CHR ''{'' \<notin> set (headerExt (TEMPLATE_RULES ! 1)) \<and>
   applyTemplate
     (applyTemplate (snd (getTemplatesByRule (TEMPLATE_RULES ! 1)))
        (templateContext ''Foo'' (TEMPLATE_RULES ! 1)))
     (templateContext ''Foo'' (TEMPLATE_RULES ! 1)) =
   applyTemplate (snd (getTemplatesByRule (TEMPLATE_RULES ! 1)))
     (templateContext ''Foo'' (TEMPLATE_RULES ! 1))"
proof -
  have v: "applyTemplate ''class {{fileName}} {'' [''fileName'' \<mapsto> ''Foo''] = ''class Foo {''"
    by (simp add: applyTemplate_def replacePlaceholders_eval)
  have n: "\<not> sublist ''{{'' ''class Foo {''"
    by (simp add: sublist_Cons_right)
  have i: "IDENTIFIER ''Foo''"
    by (simp add: IDENTIFIER_def identifierStart_def wordChar_def)
  have h: "CHR ''{'' \<notin> set (headerExt (TEMPLATE_RULES ! 1))"
    by (simp add: TEMPLATE_RULES_def)
  from applyTemplate_idempotent_builtin
         [of "''class {{fileName}} {''" "[''fileName'' \<mapsto> ''Foo'']" "''Foo''"
             "TEMPLATE_RULES ! 1"]
    v n i h
  show ?thesis by simp
qed

subsection \<open>Generated content\<close>

lemma sublist_between: "ys = ps @ xs @ ss \<Longrightarrow> sublist xs ys"
  by simp

lemma templateContext_dom:
  "dom (templateContext fileName rule) = {''fileName'', ''headerGuard'', ''includeLine''}"
  by (auto simp: templateContext_def split: if_splits)

lemma builtin_placeholders:
  "set (placeholders (fst (getTemplatesByRule rule))) \<union>
   set (placeholders (snd (getTemplatesByRule rule))) \<subseteq>
   {''fileName'', ''headerGuard'', ''includeLine''}"
  by (simp add: getTemplatesByRule_def builtin_templates placeholders_eval)

lemma toUpperCase_Foo: "toUpperCase ''Foo'' = ''FOO''"
  by (simp add: toUpperCase_def upperChar_def)

lemma class_content:
  assumes "fileName \<noteq> []" and "truthy (isClass rule)"
  shows "generateFileContent fileName eol rule =
    (replaceNewlines eol
       (''#ifndef '' @ toUpperCase fileName @ ''_H_\<newline>#define '' @ toUpperCase fileName @
        ''_H_\<newline>\<newline>class '' @ fileName @ '' {\<newline>public:\<newline>  '' @ fileName @
        ''();\<newline>  ~'' @ fileName @
        ''();\<newline>\<newline>private:\<newline>  // Add private members here\<newline>};\<newline>\<newline>#endif  // '' @
        toUpperCase fileName @ ''_H_\<newline>''),
     replaceNewlines eol
       (''#include '' @ [CHR 0x22] @ fileName @ headerExt rule @ [CHR 0x22] @
        ''\<newline>\<newline>'' @ fileName @ ''::'' @ fileName @
        ''() {\<newline>  // Constructor implementation\<newline>}\<newline>\<newline>'' @ fileName @ ''::~'' @
        fileName @ ''() {\<newline>  // Destructor implementation\<newline>}\<newline>''))"
  using assms
  by (simp add: generateFileContent_def getTemplatesByRule_def CPP_CLASS_def applyTemplate_def
        replacePlaceholders_eval templateContext_values)

lemma Foo_class_header:
  assumes "truthy (isClass rule)"
  shows "fst (generateFileContent ''Foo'' eol rule) =
     ''#ifndef FOO_H_'' @ eol @ ''#define FOO_H_'' @ eol @ eol @ ''class Foo {'' @ eol @
     ''public:'' @ eol @ ''  Foo();'' @ eol @ ''  ~Foo();'' @ eol @ eol @ ''private:'' @ eol @
     ''  // Add private members here'' @ eol @ ''};'' @ eol @ eol @ ''#endif  // FOO_H_'' @ eol"
  using assms by (simp add: class_content toUpperCase_Foo replaceNewlines_def)

lemma Foo_class_source:
  assumes "truthy (isClass rule)" and "headerExt rule = ''.h''"
  shows "snd (generateFileContent ''Foo'' eol rule) =
     ''#include '' @ [CHR 0x22] @ ''Foo.h'' @ [CHR 0x22] @ eol @ eol @ ''Foo::Foo() {'' @ eol @
     ''  // Constructor implementation'' @ eol @ ''}'' @ eol @ eol @ ''Foo::~Foo() {'' @ eol @
     ''  // Destructor implementation'' @ eol @ ''}'' @ eol"
  using assms by (simp add: class_content replaceNewlines_def)

lemma Foo_class_contains:
  assumes "truthy (isClass rule)" and "headerExt rule = ''.h''"
  shows "sublist ''#ifndef FOO_H_'' (fst (generateFileContent ''Foo'' eol rule))"
    and "sublist ''#define FOO_H_'' (fst (generateFileContent ''Foo'' eol rule))"
    and "sublist ''class Foo {'' (fst (generateFileContent ''Foo'' eol rule))"
    and "sublist (''#include '' @ [CHR 0x22] @ ''Foo.h'' @ [CHR 0x22])
           (snd (generateFileContent ''Foo'' eol rule))"
    and "sublist ''Foo::Foo()'' (snd (generateFileContent ''Foo'' eol rule))"
proof -
  note h = Foo_class_header [OF assms(1), of eol]
  note s = Foo_class_source [OF assms, of eol]
  show "sublist ''#ifndef FOO_H_'' (fst (generateFileContent ''Foo'' eol rule))"
    by (rule sublist_between [where ps = "[]"]) (simp add: h)
  show "sublist ''#define FOO_H_'' (fst (generateFileContent ''Foo'' eol rule))"
    by (rule sublist_between [where ps = "''#ifndef FOO_H_'' @ eol"]) (simp add: h)
  show "sublist ''class Foo {'' (fst (generateFileContent ''Foo'' eol rule))"
    by (rule sublist_between
          [where ps = "''#ifndef FOO_H_'' @ eol @ ''#define FOO_H_'' @ eol @ eol"])
       (simp add: h)
  show "sublist (''#include '' @ [CHR 0x22] @ ''Foo.h'' @ [CHR 0x22])
          (snd (generateFileContent ''Foo'' eol rule))"
    by (rule sublist_between [where ps = "[]"]) (simp add: s)
  show "sublist ''Foo::Foo()'' (snd (generateFileContent ''Foo'' eol rule))"
    by (rule sublist_between
          [where ps = "''#include '' @ [CHR 0x22] @ ''Foo.h'' @ [CHR 0x22] @ eol @ eol"])
       (simp add: s)
qed

lemma getTemplatesByRule_selection:
  "truthy (isClass rule) \<Longrightarrow> getTemplatesByRule rule = CPP_CLASS"
  "\<not> truthy (isClass rule) \<Longrightarrow> truthy (isStruct rule) \<Longrightarrow> language rule = CPP \<Longrightarrow>
     getTemplatesByRule rule = CPP_STRUCT"
  "\<not> truthy (isClass rule) \<Longrightarrow> truthy (isStruct rule) \<Longrightarrow> language rule = C \<Longrightarrow>
     getTemplatesByRule rule = C_STRUCT"
  "\<not> truthy (isClass rule) \<Longrightarrow> \<not> truthy (isStruct rule) \<Longrightarrow> language rule = C \<Longrightarrow>
     getTemplatesByRule rule = C_EMPTY"
  "\<not> truthy (isClass rule) \<Longrightarrow> \<not> truthy (isStruct rule) \<Longrightarrow> language rule = CPP \<Longrightarrow>
     getTemplatesByRule rule = CPP_EMPTY"
  by (simp_all add: getTemplatesByRule_def)

lemma getTemplatesByRule_builtin:
  "map (\<lambda>rule. (key rule, getTemplatesByRule rule)) TEMPLATE_RULES =
     [(''cpp_empty'', CPP_EMPTY), (''cpp_class'', CPP_CLASS), (''cpp_struct'', CPP_STRUCT),
      (''c_empty'', C_EMPTY), (''c_struct'', C_STRUCT)]"
  by (simp add: TEMPLATE_RULES_def getTemplatesByRule_def truthy_def)

lemma builtin_pairs_distinct:
  "distinct [CPP_CLASS, CPP_STRUCT, C_STRUCT, C_EMPTY, CPP_EMPTY]"
  by (simp add: CPP_CLASS_def CPP_STRUCT_def C_STRUCT_def C_EMPTY_def CPP_EMPTY_def)

lemma cpp_struct_content:
  assumes "fileName \<noteq> []" and "\<not> truthy (isClass rule)" and "truthy (isStruct rule)"
    and "language rule = CPP"
  shows "generateFileContent fileName eol rule =
    (replaceNewlines eol
       (''#ifndef '' @ toUpperCase fileName @ ''_H_\<newline>#define '' @ toUpperCase fileName @
        ''_H_\<newline>\<newline>struct '' @ fileName @ '' {\<newline>  // Struct members\<newline>};\<newline>\<newline>#endif  // '' @
        toUpperCase fileName @ ''_H_\<newline>''),
     replaceNewlines eol
       (''#include '' @ [CHR 0x22] @ fileName @ headerExt rule @ [CHR 0x22]))"
  using assms
  by (simp add: generateFileContent_def getTemplatesByRule_def CPP_STRUCT_def applyTemplate_def
        replacePlaceholders_eval templateContext_values)

lemma c_struct_content:
  assumes "fileName \<noteq> []" and "\<not> truthy (isClass rule)" and "truthy (isStruct rule)"
    and "language rule = C"
  shows "generateFileContent fileName eol rule =
    (replaceNewlines eol
       (''#ifndef '' @ toUpperCase fileName @ ''_H_\<newline>#define '' @ toUpperCase fileName @
        ''_H_\<newline>\<newline>typedef struct {\<newline>  // Struct members\<newline>} '' @ fileName @
        '';\<newline>\<newline>#endif  // '' @ toUpperCase fileName @ ''_H_\<newline>''),
     replaceNewlines eol
       (''#include '' @ [CHR 0x22] @ fileName @ headerExt rule @ [CHR 0x22]))"
  using assms
  by (simp add: generateFileContent_def getTemplatesByRule_def C_STRUCT_def applyTemplate_def
        replacePlaceholders_eval templateContext_values)

lemma c_empty_content:
  assumes "fileName \<noteq> []" and "\<not> truthy (isClass rule)" and "\<not> truthy (isStruct rule)"
    and "language rule = C"
  shows "generateFileContent fileName eol rule =
    (replaceNewlines eol
       (''#ifndef '' @ toUpperCase fileName @ ''_H_\<newline>#define '' @ toUpperCase fileName @
        ''_H_\<newline>\<newline>// Declarations for '' @ fileName @ ''.c\<newline>\<newline>#endif  // '' @
        toUpperCase fileName @ ''_H_\<newline>''),
     replaceNewlines eol
       (''#include '' @ [CHR 0x22] @ fileName @ headerExt rule @ [CHR 0x22] @
        ''\<newline>\<newline>// Implementations for '' @ fileName @ ''.c\<newline>''))"
  using assms
  by (simp add: generateFileContent_def getTemplatesByRule_def C_EMPTY_def applyTemplate_def
        replacePlaceholders_eval templateContext_values)

lemma cpp_empty_content:
  assumes "fileName \<noteq> []" and "\<not> truthy (isClass rule)" and "\<not> truthy (isStruct rule)"
    and "language rule = CPP"
  shows "generateFileContent fileName eol rule =
    (replaceNewlines eol
       (''#ifndef '' @ toUpperCase fileName @ ''_H_\<newline>#define '' @ toUpperCase fileName @
        ''_H_\<newline>\<newline>// Declarations for '' @ fileName @ ''.cpp\<newline>\<newline>#endif  // '' @
        toUpperCase fileName @ ''_H_\<newline>''),
     replaceNewlines eol
       (''#include '' @ [CHR 0x22] @ fileName @ headerExt rule @ [CHR 0x22]))"
  using assms
  by (simp add: generateFileContent_def getTemplatesByRule_def CPP_EMPTY_def applyTemplate_def
        replacePlaceholders_eval templateContext_values)

text \<open>
  C5. \<open>generateFileContent\<close> builds a context of exactly three variables: \<open>fileName\<close>,
  \<open>headerGuard\<close> (the upper-cased file name followed by \<open>_H_\<close>) and \<open>includeLine\<close>
  (\<open>#include\<close> of the file name with the rule's header extension). It picks one of the
  five fixed template pairs, which differ from each other and whose placeholders are
  among these three names, and the content is that pair with the context substituted and
  the line ending put in. The pair is the one of the rule's kind and language: the C++
  class for a rule with \<open>isClass\<close>, else the C++ or the C struct for a rule with
  \<open>isStruct\<close>, else the empty C or C++ pair; the five built-in rules \<open>cpp_empty\<close>,
  \<open>cpp_class\<close>, \<open>cpp_struct\<close>, \<open>c_empty\<close> and \<open>c_struct\<close> get the pair of their name. For
  each of the five cases the two texts are spelt out for every non-empty file name; for
  the file name \<open>Foo\<close>, a rule with \<open>isClass\<close> and the header extension \<open>.h\<close> the header
  contains \<open>#ifndef FOO_H_\<close>, \<open>#define FOO_H_\<close> and \<open>class Foo {\<close>, and the source contains
  \<open>#include "Foo.h"\<close> and \<open>Foo::Foo()\<close>, whatever the line ending.
\<close>

theorem generateFileContent_substitution:
  "dom (templateContext fileName rule) = {''fileName'', ''headerGuard'', ''includeLine''} \<and>
   templateContext fileName rule ''fileName'' = Some fileName \<and>
   templateContext fileName rule ''headerGuard'' = Some (toUpperCase fileName @ ''_H_'') \<and>
   templateContext fileName rule ''includeLine'' =
     Some (''#include '' @ [CHR 0x22] @ fileName @ headerExt rule @ [CHR 0x22]) \<and>
   getTemplatesByRule rule \<in> {CPP_CLASS, CPP_STRUCT, C_STRUCT, C_EMPTY, CPP_EMPTY} \<and>
   set (placeholders (fst (getTemplatesByRule rule))) \<union>
     set (placeholders (snd (getTemplatesByRule rule))) \<subseteq>
     {''fileName'', ''headerGuard'', ''includeLine''} \<and>
   generateFileContent fileName eol rule =
     (replaceNewlines eol
        (applyTemplate (fst (getTemplatesByRule rule)) (templateContext fileName rule)),
      replaceNewlines eol
        (applyTemplate (snd (getTemplatesByRule rule)) (templateContext fileName rule))) \<and>
   (fileName \<noteq> [] \<and> truthy (isClass rule) \<longrightarrow>
      generateFileContent fileName eol rule =
        (replaceNewlines eol
           (''#ifndef '' @ toUpperCase fileName @ ''_H_\<newline>#define '' @ toUpperCase fileName @
            ''_H_\<newline>\<newline>class '' @ fileName @ '' {\<newline>public:\<newline>  '' @ fileName @
            ''();\<newline>  ~'' @ fileName @
            ''();\<newline>\<newline>private:\<newline>  // Add private members here\<newline>};\<newline>\<newline>#endif  // '' @
            toUpperCase fileName @ ''_H_\<newline>''),
         replaceNewlines eol
           (''#include '' @ [CHR 0x22] @ fileName @ headerExt rule @ [CHR 0x22] @
            ''\<newline>\<newline>'' @ fileName @ ''::'' @ fileName @
            ''() {\<newline>  // Constructor implementation\<newline>}\<newline>\<newline>'' @ fileName @ ''::~'' @
            fileName @ ''() {\<newline>  // Destructor implementation\<newline>}\<newline>''))) \<and>
   (truthy (isClass rule) \<and> headerExt rule = ''.h'' \<longrightarrow>
      sublist ''#ifndef FOO_H_'' (fst (generateFileContent ''Foo'' eol rule)) \<and>
      sublist ''#define FOO_H_'' (fst (generateFileContent ''Foo'' eol rule)) \<and>
      sublist ''class Foo {'' (fst (generateFileContent ''Foo'' eol rule)) \<and>
      sublist (''#include '' @ [CHR 0x22] @ ''Foo.h'' @ [CHR 0x22])
        (snd (generateFileContent ''Foo'' eol rule)) \<and>
      sublist ''Foo::Foo()'' (snd (generateFileContent ''Foo'' eol rule))) \<and>
   distinct [CPP_CLASS, CPP_STRUCT, C_STRUCT, C_EMPTY, CPP_EMPTY] \<and>
   map (\<lambda>rule. (key rule, getTemplatesByRule rule)) TEMPLATE_RULES =
     [(''cpp_empty'', CPP_EMPTY), (''cpp_class'', CPP_CLASS), (''cpp_struct'', CPP_STRUCT),
      (''c_empty'', C_EMPTY), (''c_struct'', C_STRUCT)] \<and>
   (truthy (isClass rule) \<longrightarrow> getTemplatesByRule rule = CPP_CLASS) \<and>
   (\<not> truthy (isClass rule) \<and> truthy (isStruct rule) \<and> language rule = CPP \<longrightarrow>
      getTemplatesByRule rule = CPP_STRUCT \<and>
      (fileName \<noteq> [] \<longrightarrow>
         generateFileContent fileName eol rule =
           (replaceNewlines eol
              (''#ifndef '' @ toUpperCase fileName @ ''_H_\<newline>#define '' @
               toUpperCase fileName @ ''_H_\<newline>\<newline>struct '' @ fileName @
               '' {\<newline>  // Struct members\<newline>};\<newline>\<newline>#endif  // '' @
               toUpperCase fileName @ ''_H_\<newline>''),
            replaceNewlines eol
              (''#include '' @ [CHR 0x22] @ fileName @ headerExt rule @ [CHR 0x22])))) \<and>
   (\<not> truthy (isClass rule) \<and> truthy (isStruct rule) \<and> language rule = C \<longrightarrow>
      getTemplatesByRule rule = C_STRUCT \<and>
      (fileName \<noteq> [] \<longrightarrow>
         generateFileContent fileName eol rule =
           (replaceNewlines eol
              (''#ifndef '' @ toUpperCase fileName @ ''_H_\<newline>#define '' @
               toUpperCase fileName @
               ''_H_\<newline>\<newline>typedef struct {\<newline>  // Struct members\<newline>} '' @ fileName @
               '';\<newline>\<newline>#endif  // '' @ toUpperCase fileName @ ''_H_\<newline>''),
            replaceNewlines eol
              (''#include '' @ [CHR 0x22] @ fileName @ headerExt rule @ [CHR 0x22])))) \<and>
   (\<not> truthy (isClass rule) \<and> \<not> truthy (isStruct rule) \<and> language rule = C \<longrightarrow>
      getTemplatesByRule rule = C_EMPTY \<and>
      (fileName \<noteq> [] \<longrightarrow>
         generateFileContent fileName eol rule =
           (replaceNewlines eol
              (''#ifndef '' @ toUpperCase fileName @ ''_H_\<newline>#define '' @
               toUpperCase fileName @ ''_H_\<newline>\<newline>// Declarations for '' @ fileName @
               ''.c\<newline>\<newline>#endif  // '' @ toUpperCase fileName @ ''_H_\<newline>''),
            replaceNewlines eol
              (''#include '' @ [CHR 0x22] @ fileName @ headerExt rule @ [CHR 0x22] @
               ''\<newline>\<newline>// Implementations for '' @ fileName @ ''.c\<newline>'')))) \<and>
   (\<not> truthy (isClass rule) \<and> \<not> truthy (isStruct rule) \<and> language rule = CPP \<longrightarrow>
      getTemplatesByRule rule = CPP_EMPTY \<and>
      (fileName \<noteq> [] \<longrightarrow>
         generateFileContent fileName eol rule =
           (replaceNewlines eol
              (''#ifndef '' @ toUpperCase fileName @ ''_H_\<newline>#define '' @
               toUpperCase fileName @ ''_H_\<newline>\<newline>// Declarations for '' @ fileName @
               ''.cpp\<newline>\<newline>#endif  // '' @ toUpperCase fileName @ ''_H_\<newline>''),
            replaceNewlines eol
              (''#include '' @ [CHR 0x22] @ fileName @ headerExt rule @ [CHR 0x22]))))"
proof (intro conjI impI; (elim conjE)?)
  show "dom (templateContext fileName rule) = {''fileName'', ''headerGuard'', ''includeLine''}"
    by (rule templateContext_dom)
  show "templateContext fileName rule ''fileName'' = Some fileName"
    by (rule templateContext_values)
  show "templateContext fileName rule ''headerGuard'' = Some (toUpperCase fileName @ ''_H_'')"
    by (rule templateContext_values)
  show "templateContext fileName rule ''includeLine'' =
     Some (''#include '' @ [CHR 0x22] @ fileName @ headerExt rule @ [CHR 0x22])"
    by (rule templateContext_values)
  show "getTemplatesByRule rule \<in> {CPP_CLASS, CPP_STRUCT, C_STRUCT, C_EMPTY, CPP_EMPTY}"
    by (rule getTemplatesByRule_cases)
  show "set (placeholders (fst (getTemplatesByRule rule))) \<union>
     set (placeholders (snd (getTemplatesByRule rule))) \<subseteq>
     {''fileName'', ''headerGuard'', ''includeLine''}"
    by (rule builtin_placeholders)
  show "generateFileContent fileName eol rule =
     (replaceNewlines eol
        (applyTemplate (fst (getTemplatesByRule rule)) (templateContext fileName rule)),
      replaceNewlines eol
        (applyTemplate (snd (getTemplatesByRule rule)) (templateContext fileName rule)))"
    by (simp add: generateFileContent_def Let_def)
  show "distinct [CPP_CLASS, CPP_STRUCT, C_STRUCT, C_EMPTY, CPP_EMPTY]"
    by (rule builtin_pairs_distinct)
  show "map (\<lambda>rule. (key rule, getTemplatesByRule rule)) TEMPLATE_RULES =
     [(''cpp_empty'', CPP_EMPTY), (''cpp_class'', CPP_CLASS), (''cpp_struct'', CPP_STRUCT),
      (''c_empty'', C_EMPTY), (''c_struct'', C_STRUCT)]"
    by (rule getTemplatesByRule_builtin)
qed (fact class_content Foo_class_contains getTemplatesByRule_selection cpp_struct_content
       c_struct_content c_empty_content cpp_empty_content)+

theorem generateFileContent_substitution_witness:
  "truthy (isClass (TEMPLATE_RULES ! 1)) \<and> headerExt (TEMPLATE_RULES ! 1) = ''.h'' \<and>
   sublist ''#ifndef FOO_H_'' (fst (generateFileContent ''Foo'' ''\<newline>'' (TEMPLATE_RULES ! 1))) \<and>
   sublist ''#define FOO_H_'' (fst (generateFileContent ''Foo'' ''\<newline>'' (TEMPLATE_RULES ! 1))) \<and>
   sublist ''class Foo {'' (fst (generateFileContent ''Foo'' ''\<newline>'' (TEMPLATE_RULES ! 1))) \<and>
   sublist (''#include '' @ [CHR 0x22] @ ''Foo.h'' @ [CHR 0x22])
     (snd (generateFileContent ''Foo'' ''\<newline>'' (TEMPLATE_RULES ! 1))) \<and>
   sublist ''Foo::Foo()'' (snd (generateFileContent ''Foo'' ''\<newline>'' (TEMPLATE_RULES ! 1))) \<and>
   \<not> truthy (isClass (TEMPLATE_RULES ! 4)) \<and> truthy (isStruct (TEMPLATE_RULES ! 4)) \<and>
   language (TEMPLATE_RULES ! 4) = C \<and>
   generateFileContent ''Foo'' ''\<newline>'' (TEMPLATE_RULES ! 4) =
     (''#ifndef FOO_H_\<newline>#define FOO_H_\<newline>\<newline>typedef struct {\<newline>  // Struct members\<newline>} Foo;\<newline>\<newline>#endif  // FOO_H_\<newline>'',
      ''#include '' @ [CHR 0x22] @ ''Foo.h'' @ [CHR 0x22]) \<and>
   \<not> truthy (isClass (TEMPLATE_RULES ! 2)) \<and> truthy (isStruct (TEMPLATE_RULES ! 2)) \<and>
   language (TEMPLATE_RULES ! 2) = CPP \<and>
   generateFileContent ''Foo'' ''\<newline>'' (TEMPLATE_RULES ! 2) =
     (''#ifndef FOO_H_\<newline>#define FOO_H_\<newline>\<newline>struct Foo {\<newline>  // Struct members\<newline>};\<newline>\<newline>#endif  // FOO_H_\<newline>'',
      ''#include '' @ [CHR 0x22] @ ''Foo.h'' @ [CHR 0x22]) \<and>
   \<not> truthy (isClass (TEMPLATE_RULES ! 3)) \<and> \<not> truthy (isStruct (TEMPLATE_RULES ! 3)) \<and>
   language (TEMPLATE_RULES ! 3) = C \<and>
   generateFileContent ''Foo'' ''\<newline>'' (TEMPLATE_RULES ! 3) =
     (''#ifndef FOO_H_\<newline>#define FOO_H_\<newline>\<newline>// Declarations for Foo.c\<newline>\<newline>#endif  // FOO_H_\<newline>'',
      ''#include '' @ [CHR 0x22] @ ''Foo.h'' @ [CHR 0x22] @
      ''\<newline>\<newline>// Implementations for Foo.c\<newline>'') \<and>
   \<not> truthy (isClass (TEMPLATE_RULES ! 0)) \<and> \<not> truthy (isStruct (TEMPLATE_RULES ! 0)) \<and>
   language (TEMPLATE_RULES ! 0) = CPP \<and>
   generateFileContent ''Foo'' ''\<newline>'' (TEMPLATE_RULES ! 0) =
     (''#ifndef FOO_H_\<newline>#define FOO_H_\<newline>\<newline>// Declarations for Foo.cpp\<newline>\<newline>#endif  // FOO_H_\<newline>'',
      ''#include '' @ [CHR 0x22] @ ''Foo.h'' @ [CHR 0x22])"
proof -
  have f: "truthy (isClass (TEMPLATE_RULES ! 1))" "headerExt (TEMPLATE_RULES ! 1) = ''.h''"
    "\<not> truthy (isClass (TEMPLATE_RULES ! 4))" "truthy (isStruct (TEMPLATE_RULES ! 4))"
    "language (TEMPLATE_RULES ! 4) = C" "headerExt (TEMPLATE_RULES ! 4) = ''.h''"
    "\<not> truthy (isClass (TEMPLATE_RULES ! 2))" "truthy (isStruct (TEMPLATE_RULES ! 2))"
    "language (TEMPLATE_RULES ! 2) = CPP" "headerExt (TEMPLATE_RULES ! 2) = ''.h''"
    "\<not> truthy (isClass (TEMPLATE_RULES ! 3))" "\<not> truthy (isStruct (TEMPLATE_RULES ! 3))"
    "language (TEMPLATE_RULES ! 3) = C" "headerExt (TEMPLATE_RULES ! 3) = ''.h''"
    "\<not> truthy (isClass (TEMPLATE_RULES ! 0))" "\<not> truthy (isStruct (TEMPLATE_RULES ! 0))"
    "language (TEMPLATE_RULES ! 0) = CPP" "headerExt (TEMPLATE_RULES ! 0) = ''.h''"
    by (simp_all add: TEMPLATE_RULES_def truthy_def)
  have n: "(''Foo'' :: string) \<noteq> []" by simp
  note t = generateFileContent_substitution [where fileName = "''Foo''" and eol = "''\<newline>''"]
  have c1: "sublist ''#ifndef FOO_H_'' (fst (generateFileContent ''Foo'' ''\<newline>'' (TEMPLATE_RULES ! 1))) \<and>
   sublist ''#define FOO_H_'' (fst (generateFileContent ''Foo'' ''\<newline>'' (TEMPLATE_RULES ! 1))) \<and>
   sublist ''class Foo {'' (fst (generateFileContent ''Foo'' ''\<newline>'' (TEMPLATE_RULES ! 1))) \<and>
   sublist (''#include '' @ [CHR 0x22] @ ''Foo.h'' @ [CHR 0x22])
     (snd (generateFileContent ''Foo'' ''\<newline>'' (TEMPLATE_RULES ! 1))) \<and>
   sublist ''Foo::Foo()'' (snd (generateFileContent ''Foo'' ''\<newline>'' (TEMPLATE_RULES ! 1)))"
    using t [of "TEMPLATE_RULES ! 1"] f(1,2) by blast
  have "generateFileContent ''Foo'' ''\<newline>'' (TEMPLATE_RULES ! 4) =
           (replaceNewlines ''\<newline>''
              (''#ifndef '' @ toUpperCase ''Foo'' @ ''_H_\<newline>#define '' @
               toUpperCase ''Foo'' @
               ''_H_\<newline>\<newline>typedef struct {\<newline>  // Struct members\<newline>} '' @ ''Foo'' @
               '';\<newline>\<newline>#endif  // '' @ toUpperCase ''Foo'' @ ''_H_\<newline>''),
            replaceNewlines ''\<newline>''
              (''#include '' @ [CHR 0x22] @ ''Foo'' @ headerExt (TEMPLATE_RULES ! 4) @ [CHR 0x22]))"
    using t [of "TEMPLATE_RULES ! 4"] f(3,4,5) n by blast
  then have c4: "generateFileContent ''Foo'' ''\<newline>'' (TEMPLATE_RULES ! 4) =
     (''#ifndef FOO_H_\<newline>#define FOO_H_\<newline>\<newline>typedef struct {\<newline>  // Struct members\<newline>} Foo;\<newline>\<newline>#endif  // FOO_H_\<newline>'',
      ''#include '' @ [CHR 0x22] @ ''Foo.h'' @ [CHR 0x22])"
    by (simp add: f(6) toUpperCase_Foo replaceNewlines_def)
  have "generateFileContent ''Foo'' ''\<newline>'' (TEMPLATE_RULES ! 2) =
           (replaceNewlines ''\<newline>''
              (''#ifndef '' @ toUpperCase ''Foo'' @ ''_H_\<newline>#define '' @
               toUpperCase ''Foo'' @ ''_H_\<newline>\<newline>struct '' @ ''Foo'' @
               '' {\<newline>  // Struct members\<newline>};\<newline>\<newline>#endif  // '' @
               toUpperCase ''Foo'' @ ''_H_\<newline>''),
            replaceNewlines ''\<newline>''
              (''#include '' @ [CHR 0x22] @ ''Foo'' @ headerExt (TEMPLATE_RULES ! 2) @ [CHR 0x22]))"
    using t [of "TEMPLATE_RULES ! 2"] f(7,8,9) n by blast
  then have c2: "generateFileContent ''Foo'' ''\<newline>'' (TEMPLATE_RULES ! 2) =
     (''#ifndef FOO_H_\<newline>#define FOO_H_\<newline>\<newline>struct Foo {\<newline>  // Struct members\<newline>};\<newline>\<newline>#endif  // FOO_H_\<newline>'',
      ''#include '' @ [CHR 0x22] @ ''Foo.h'' @ [CHR 0x22])"
    by (simp add: f(10) toUpperCase_Foo replaceNewlines_def)
  have "generateFileContent ''Foo'' ''\<newline>'' (TEMPLATE_RULES ! 3) =
           (replaceNewlines ''\<newline>''
              (''#ifndef '' @ toUpperCase ''Foo'' @ ''_H_\<newline>#define '' @
               toUpperCase ''Foo'' @ ''_H_\<newline>\<newline>// Declarations for '' @ ''Foo'' @
               ''.c\<newline>\<newline>#endif  // '' @ toUpperCase ''Foo'' @ ''_H_\<newline>''),
            replaceNewlines ''\<newline>''
              (''#include '' @ [CHR 0x22] @ ''Foo'' @ headerExt (TEMPLATE_RULES ! 3) @ [CHR 0x22] @
               ''\<newline>\<newline>// Implementations for '' @ ''Foo'' @ ''.c\<newline>''))"
    using t [of "TEMPLATE_RULES ! 3"] f(11,12,13) n by blast
  then have c3: "generateFileContent ''Foo'' ''\<newline>'' (TEMPLATE_RULES ! 3) =
     (''#ifndef FOO_H_\<newline>#define FOO_H_\<newline>\<newline>// Declarations for Foo.c\<newline>\<newline>#endif  // FOO_H_\<newline>'',
      ''#include '' @ [CHR 0x22] @ ''Foo.h'' @ [CHR 0x22] @
      ''\<newline>\<newline>// Implementations for Foo.c\<newline>'')"
    by (simp add: f(14) toUpperCase_Foo replaceNewlines_def)
  have "generateFileContent ''Foo'' ''\<newline>'' (TEMPLATE_RULES ! 0) =
           (replaceNewlines ''\<newline>''
              (''#ifndef '' @ toUpperCase ''Foo'' @ ''_H_\<newline>#define '' @
               toUpperCase ''Foo'' @ ''_H_\<newline>\<newline>// Declarations for '' @ ''Foo'' @
               ''.cpp\<newline>\<newline>#endif  // '' @ toUpperCase ''Foo'' @ ''_H_\<newline>''),
            replaceNewlines ''\<newline>''
              (''#include '' @ [CHR 0x22] @ ''Foo'' @ headerExt (TEMPLATE_RULES ! 0) @ [CHR 0x22]))"
    using t [of "TEMPLATE_RULES ! 0"] f(15,16,17) n by blast
  then have c0: "generateFileContent ''Foo'' ''\<newline>'' (TEMPLATE_RULES ! 0) =
     (''#ifndef FOO_H_\<newline>#define FOO_H_\<newline>\<newline>// Declarations for Foo.cpp\<newline>\<newline>#endif  // FOO_H_\<newline>'',
      ''#include '' @ [CHR 0x22] @ ''Foo.h'' @ [CHR 0x22])"
    by (simp add: f(18) toUpperCase_Foo replaceNewlines_def)
  from f c1 c4 c2 c3 c0 show ?thesis by blast
qed

section \<open>Properties of the language detection\<close>

lemma posix_foo_h:
  "extname posixPath ''/proj/foo.h'' = ''.h''"
  "companionFile posixPath ''/proj/foo.h'' ''.c'' = ''/proj/foo.c''"
  "companionFile posixPath ''/proj/foo.h'' ''.cpp'' = ''/proj/foo.cpp''"
  "companionFile posixPath ''/proj/foo.h'' ''.cc'' = ''/proj/foo.cc''"
  "companionFile posixPath ''/proj/foo.h'' ''.cxx'' = ''/proj/foo.cxx''"
  by (simp_all add: posixPath_def posix_extname_def posix_basename_def posix_dirname_def
        posix_join_def lastComponent_def companionFile_def)

lemma fileExists_stable:
  "fst (fileExists host p (snd (fileExists host q cache))) = fst (fileExists host p cache)"
  by (simp add: fileExists_def split: option.splits)

lemma fileExistsAll_results:
  "(\<And>p. fst (fileExists host p cache') = fst (fileExists host p cache)) \<Longrightarrow>
   fst (fileExistsAll host ps cache') = map (\<lambda>p. fst (fileExists host p cache)) ps"
proof (induction ps arbitrary: cache')
  case Nil
  show ?case by simp
next
  case (Cons q qs)
  have "fst (fileExists host p (snd (fileExists host q cache'))) = fst (fileExists host p cache)"
    for p
    using Cons.prems by (simp add: fileExists_stable)
  from Cons.IH [OF this] Cons.prems [of q] show ?case
    by (simp add: split_beta Let_def)
qed

lemma detectLanguageForHeaderFile_result:
  "fst (detectLanguageForHeaderFile path host filePath cache) =
     Some (if fst (fileExists host (companionFile path filePath ''.c'') cache)
             then \<lparr>detected = C, uncertain = False\<rparr>
           else if fst (fileExists host (companionFile path filePath ''.cpp'') cache) \<or>
                   fst (fileExists host (companionFile path filePath ''.cc'') cache) \<or>
                   fst (fileExists host (companionFile path filePath ''.cxx'') cache)
             then \<lparr>detected = CPP, uncertain = False\<rparr>
           else \<lparr>detected = CPP, uncertain = True\<rparr>)"
proof -
  let ?c = "companionFile path filePath ''.c''"
  let ?ps = "map (\<lambda>ext. join path (dirname path filePath) (basename path filePath ''.h'' @ ext))
               [''.cpp'', ''.cc'', ''.cxx'']"
  have "fst (fileExistsAll host ?ps (snd (fileExists host ?c cache))) =
        map (\<lambda>p. fst (fileExists host p cache)) ?ps"
    by (rule fileExistsAll_results) (rule fileExists_stable)
  then show ?thesis
    by (simp add: detectLanguageForHeaderFile_def companionFile_def split_beta Let_def)
qed

lemma detectLanguage_header:
  assumes "activeTextEditor host = Some document" and "\<not> isUntitled document"
    and "extname path (fsPath document) = ''.h''"
  shows "detectLanguage path host =
     (if stat host (companionFile path (fsPath document) ''.c'')
        then \<lparr>detected = C, uncertain = False\<rparr>
      else if stat host (companionFile path (fsPath document) ''.cpp'') \<or>
              stat host (companionFile path (fsPath document) ''.cc'') \<or>
              stat host (companionFile path (fsPath document) ''.cxx'')
        then \<lparr>detected = CPP, uncertain = False\<rparr>
      else \<lparr>detected = CPP, uncertain = True\<rparr>)"
  using assms by (simp add: detectLanguage_def companionFile_def Let_def)

lemma detectLanguage_cached_header:
  assumes "activeTextEditor host = Some document" and "\<not> isUntitled document"
    and "extname path (fsPath document) = ''.h''"
  shows "fst (detectLanguage_cached path host cache) =
     (if fst (fileExists host (companionFile path (fsPath document) ''.c'') cache)
        then \<lparr>detected = C, uncertain = False\<rparr>
      else if fst (fileExists host (companionFile path (fsPath document) ''.cpp'') cache) \<or>
              fst (fileExists host (companionFile path (fsPath document) ''.cc'') cache) \<or>
              fst (fileExists host (companionFile path (fsPath document) ''.cxx'') cache)
        then \<lparr>detected = CPP, uncertain = False\<rparr>
      else \<lparr>detected = CPP, uncertain = True\<rparr>)"
proof -
  obtain r cache1 where d:
    "detectLanguageForHeaderFile path host (fsPath document) cache = (r, cache1)"
    by (cases "detectLanguageForHeaderFile path host (fsPath document) cache")
  with detectLanguageForHeaderFile_result [of path host "fsPath document" cache]
  have "r = Some (if fst (fileExists host (companionFile path (fsPath document) ''.c'') cache)
        then \<lparr>detected = C, uncertain = False\<rparr>
      else if fst (fileExists host (companionFile path (fsPath document) ''.cpp'') cache) \<or>
              fst (fileExists host (companionFile path (fsPath document) ''.cc'') cache) \<or>
              fst (fileExists host (companionFile path (fsPath document) ''.cxx'') cache)
        then \<lparr>detected = CPP, uncertain = False\<rparr>
      else \<lparr>detected = CPP, uncertain = True\<rparr>)"
    by simp
  with assms d show ?thesis
    by (simp add: detectLanguage_cached_def DEFINITIVE_EXTENSIONS_c_def
          DEFINITIVE_EXTENSIONS_cpp_def Let_def)
qed

lemma fileExists_fresh:
  "cache p = None \<Longrightarrow> fst (fileExists host p cache) = stat host p"
  by (simp add: fileExists_def)

text \<open>
  C1, as stated, fails on \<open>PairCreatorService\<close>: its existence check is memoised. A first
  run on \<open>/proj/foo.h\<close> while \<open>/proj/foo.c\<close> is absent leaves the answer "absent" in the
  cache; a second run (before the entry's timer fires) while \<open>/proj/foo.c\<close> exists
  still answers C++, uncertain.
\<close>

theorem detectLanguage_cached_stale:
  "extname posixPath ''/proj/foo.h'' = ''.h'' \<and>
   stat (exampleHost ''/proj/foo.h'' ''cpp'' [''/proj/foo.h'', ''/proj/foo.c''])
     (companionFile posixPath ''/proj/foo.h'' ''.c'') \<and>
   fst (detectLanguage_cached posixPath
          (exampleHost ''/proj/foo.h'' ''cpp'' [''/proj/foo.h'', ''/proj/foo.c''])
          (snd (detectLanguage_cached posixPath
                  (exampleHost ''/proj/foo.h'' ''cpp'' [''/proj/foo.h'']) Map.empty))) =
     \<lparr>detected = CPP, uncertain = True\<rparr>"
  by (simp add: posix_foo_h detectLanguage_cached_def detectLanguageForHeaderFile_def
        fileExists_def exampleHost_def DEFINITIVE_EXTENSIONS_c_def
        DEFINITIVE_EXTENSIONS_cpp_def companionFile_def [symmetric])

text \<open>
  C1, amended. When the active file's extension is exactly \<open>.h\<close>, the detector probes the
  companions of the same directory and base name: if the existence check finds the
  \<open>.c\<close> companion the result is C, certain, whatever the other companions; else if it
  finds one of \<open>.cpp\<close>, \<open>.cc\<close>, \<open>.cxx\<close> the result is C++, certain; else C++, uncertain.
  The existence check of \<open>PairCreator\<close> is \<open>fs.stat\<close>; that of \<open>PairCreatorService\<close> is
  \<open>fileExists\<close>, which answers from its cache where it has an entry and is \<open>fs.stat\<close>
  for the companions the cache does not hold.
\<close>

theorem detectLanguage_header_probe:
  assumes "activeTextEditor host = Some document" and "\<not> isUntitled document"
    and "extname path (fsPath document) = ''.h''"
  shows "detectLanguage path host =
     (if stat host (companionFile path (fsPath document) ''.c'')
        then \<lparr>detected = C, uncertain = False\<rparr>
      else if stat host (companionFile path (fsPath document) ''.cpp'') \<or>
              stat host (companionFile path (fsPath document) ''.cc'') \<or>
              stat host (companionFile path (fsPath document) ''.cxx'')
        then \<lparr>detected = CPP, uncertain = False\<rparr>
      else \<lparr>detected = CPP, uncertain = True\<rparr>) \<and>
   fst (detectLanguage_cached path host cache) =
     (if fst (fileExists host (companionFile path (fsPath document) ''.c'') cache)
        then \<lparr>detected = C, uncertain = False\<rparr>
      else if fst (fileExists host (companionFile path (fsPath document) ''.cpp'') cache) \<or>
              fst (fileExists host (companionFile path (fsPath document) ''.cc'') cache) \<or>
              fst (fileExists host (companionFile path (fsPath document) ''.cxx'') cache)
        then \<lparr>detected = CPP, uncertain = False\<rparr>
      else \<lparr>detected = CPP, uncertain = True\<rparr>) \<and>
   (cache (companionFile path (fsPath document) ''.c'') = None \<and>
    cache (companionFile path (fsPath document) ''.cpp'') = None \<and>
    cache (companionFile path (fsPath document) ''.cc'') = None \<and>
    cache (companionFile path (fsPath document) ''.cxx'') = None \<longrightarrow>
    fst (detectLanguage_cached path host cache) = detectLanguage path host)"
  using detectLanguage_header [OF assms] detectLanguage_cached_header [OF assms, of cache]
  by (simp add: fileExists_fresh)

theorem detectLanguage_header_probe_witness:
  "activeTextEditor (exampleHost ''/proj/foo.h'' ''cpp'' [''/proj/foo.c'', ''/proj/foo.cpp'']) =
     Some \<lparr>isUntitled = False, languageId = ''cpp'', fsPath = ''/proj/foo.h''\<rparr> \<and>
   extname posixPath ''/proj/foo.h'' = ''.h'' \<and>
   stat (exampleHost ''/proj/foo.h'' ''cpp'' [''/proj/foo.c'', ''/proj/foo.cpp''])
     (companionFile posixPath ''/proj/foo.h'' ''.c'') \<and>
   detectLanguage posixPath
     (exampleHost ''/proj/foo.h'' ''cpp'' [''/proj/foo.c'', ''/proj/foo.cpp'']) =
     \<lparr>detected = C, uncertain = False\<rparr> \<and>
   fst (detectLanguage_cached posixPath
          (exampleHost ''/proj/foo.h'' ''cpp'' [''/proj/foo.c'', ''/proj/foo.cpp''])
          Map.empty) =
     \<lparr>detected = C, uncertain = False\<rparr>"
proof -
  let ?host = "exampleHost ''/proj/foo.h'' ''cpp'' [''/proj/foo.c'', ''/proj/foo.cpp'']"
  let ?document = "\<lparr>isUntitled = False, languageId = ''cpp'', fsPath = ''/proj/foo.h''\<rparr>"
  have a: "activeTextEditor ?host = Some ?document"
    by (simp add: exampleHost_def)
  have u: "\<not> isUntitled ?document" by simp
  have e: "extname posixPath (fsPath ?document) = ''.h''"
    by (simp add: posix_foo_h)
  have s: "stat ?host (companionFile posixPath ''/proj/foo.h'' ''.c'')"
    by (simp add: posix_foo_h exampleHost_def)
  from detectLanguage_header_probe [OF a u e, of Map.empty] a s
  show ?thesis by (simp add: posix_foo_h fileExists_fresh)
qed

text \<open>
  C2. With a saved document active, the extension \<open>.c\<close> gives C, certain, and each of
  \<open>.cpp\<close>, \<open>.cc\<close>, \<open>.cxx\<close>, \<open>.hh\<close>, \<open>.hpp\<close>, \<open>.hxx\<close> gives C++, certain, in \<open>PairCreator\<close>
  and in \<open>PairCreatorService\<close> (whose cache is left as it was).
\<close>

theorem detectLanguage_definitive:
  assumes "activeTextEditor host = Some document" and "\<not> isUntitled document"
  shows "(extname path (fsPath document) = ''.c'' \<longrightarrow>
            detectLanguage path host = \<lparr>detected = C, uncertain = False\<rparr> \<and>
            detectLanguage_cached path host cache =
              (\<lparr>detected = C, uncertain = False\<rparr>, cache)) \<and>
         (extname path (fsPath document) \<in>
            {''.cpp'', ''.cc'', ''.cxx'', ''.hh'', ''.hpp'', ''.hxx''} \<longrightarrow>
            detectLanguage path host = \<lparr>detected = CPP, uncertain = False\<rparr> \<and>
            detectLanguage_cached path host cache =
              (\<lparr>detected = CPP, uncertain = False\<rparr>, cache))"
  using assms
  by (auto simp: detectLanguage_def detectLanguage_cached_def DEFINITIVE_EXTENSIONS_c_def
        DEFINITIVE_EXTENSIONS_cpp_def Let_def)

theorem detectLanguage_definitive_witness:
  "activeTextEditor (exampleHost ''/proj/main.c'' ''plaintext'' []) =
     Some \<lparr>isUntitled = False, languageId = ''plaintext'', fsPath = ''/proj/main.c''\<rparr> \<and>
   extname posixPath ''/proj/main.c'' = ''.c'' \<and>
   detectLanguage posixPath (exampleHost ''/proj/main.c'' ''plaintext'' []) =
     \<lparr>detected = C, uncertain = False\<rparr> \<and>
   activeTextEditor (exampleHost ''/proj/main.hpp'' ''plaintext'' []) =
     Some \<lparr>isUntitled = False, languageId = ''plaintext'', fsPath = ''/proj/main.hpp''\<rparr> \<and>
   extname posixPath ''/proj/main.hpp'' = ''.hpp'' \<and>
   detectLanguage posixPath (exampleHost ''/proj/main.hpp'' ''plaintext'' []) =
     \<lparr>detected = CPP, uncertain = False\<rparr>"
proof -
  let ?c = "\<lparr>isUntitled = False, languageId = ''plaintext'', fsPath = ''/proj/main.c''\<rparr>"
  let ?h = "\<lparr>isUntitled = False, languageId = ''plaintext'', fsPath = ''/proj/main.hpp''\<rparr>"
  have a1: "activeTextEditor (exampleHost ''/proj/main.c'' ''plaintext'' []) = Some ?c"
    and a2: "activeTextEditor (exampleHost ''/proj/main.hpp'' ''plaintext'' []) = Some ?h"
    by (simp_all add: exampleHost_def)
  have u1: "\<not> isUntitled ?c" and u2: "\<not> isUntitled ?h" by simp_all
  have e1: "extname posixPath ''/proj/main.c'' = ''.c''"
    and e2: "extname posixPath ''/proj/main.hpp'' = ''.hpp''"
    by (simp_all add: posixPath_def posix_extname_def lastComponent_def)
  from detectLanguage_definitive [OF a1 u1, of posixPath Map.empty]
    detectLanguage_definitive [OF a2 u2, of posixPath Map.empty] a1 a2 e1 e2
  show ?thesis by simp
qed

text \<open>
  C3, as stated, fails on the later \<open>PairCreatorService.detectLanguage\<close>: for a file whose
  extension is neither definitive nor \<open>.h\<close>, the identifier \<open>c\<close> gives C, certain (not
  uncertain), and the identifier \<open>cpp\<close> gives C++, certain.
\<close>

theorem detectLanguage_injected_trusts_languageId:
  "extname posixPath ''/proj/notes.txt'' = ''.txt'' \<and>
   detectLanguage_injected posixPath (Some ''c'') (Some ''/proj/notes.txt'') None =
     \<lparr>detected = C, uncertain = False\<rparr> \<and>
   detectLanguage_injected posixPath (Some ''cpp'') (Some ''/proj/notes.txt'') None =
     \<lparr>detected = CPP, uncertain = False\<rparr>"
  by (simp add: detectLanguage_injected_def falsy_def posixPath_def posix_extname_def
        lastComponent_def DEFINITIVE_EXTENSIONS_c_def DEFINITIVE_EXTENSIONS_cpp_def)

text \<open>
  C3, amended. In \<open>PairCreator.detectLanguage\<close>: without an active editor, or with an
  untitled document, the result is C++, uncertain; with a saved document whose
  extension is neither definitive nor \<open>.h\<close> the language identifier decides, \<open>c\<close> giving
  C, uncertain and anything else C++, uncertain; the \<open>.h\<close> probe never falls through to
  the identifier (without a companion the result is C++, uncertain). In the later
  \<open>PairCreatorService.detectLanguage\<close>: a missing or empty identifier or path gives C++,
  uncertain; otherwise, for an extension that is not definitive, the identifier \<open>c\<close>
  gives C, certain, the identifiers \<open>cpp\<close> and \<open>cxx\<close> give C++, certain, and any other
  identifier with an extension other than \<open>.h\<close> gives C++, uncertain.
\<close>

theorem detectLanguage_fallback:
  "(activeTextEditor host = None \<or>
    (\<exists>document. activeTextEditor host = Some document \<and> isUntitled document) \<longrightarrow>
      detectLanguage path host = \<lparr>detected = CPP, uncertain = True\<rparr>) \<and>
   (activeTextEditor host = Some document \<and> \<not> isUntitled document \<and>
    extname path (fsPath document) \<notin>
      {''.c'', ''.cpp'', ''.cc'', ''.cxx'', ''.hh'', ''.hpp'', ''.hxx'', ''.h''} \<longrightarrow>
      detectLanguage path host =
        \<lparr>detected = (if languageId document = ''c'' then C else CPP), uncertain = True\<rparr>) \<and>
   (activeTextEditor host = Some document \<and> \<not> isUntitled document \<and>
    extname path (fsPath document) = ''.h'' \<and>
    \<not> stat host (companionFile path (fsPath document) ''.c'') \<and>
    \<not> stat host (companionFile path (fsPath document) ''.cpp'') \<and>
    \<not> stat host (companionFile path (fsPath document) ''.cc'') \<and>
    \<not> stat host (companionFile path (fsPath document) ''.cxx'') \<longrightarrow>
      detectLanguage path host = \<lparr>detected = CPP, uncertain = True\<rparr>) \<and>
   (falsy languageId' \<or> falsy filePath' \<longrightarrow>
      detectLanguage_injected path languageId' filePath' fileExistsCheck =
        \<lparr>detected = CPP, uncertain = True\<rparr>) \<and>
   (langId \<noteq> [] \<and> filePath \<noteq> [] \<and>
    extname path filePath \<notin> {''.c'', ''.cpp'', ''.cc'', ''.cxx'', ''.hh'', ''.hpp'', ''.hxx''} \<longrightarrow>
      (langId = ''c'' \<longrightarrow>
         detectLanguage_injected path (Some langId) (Some filePath) fileExistsCheck =
           \<lparr>detected = C, uncertain = False\<rparr>) \<and>
      (langId = ''cpp'' \<or> langId = ''cxx'' \<longrightarrow>
         detectLanguage_injected path (Some langId) (Some filePath) fileExistsCheck =
           \<lparr>detected = CPP, uncertain = False\<rparr>) \<and>
      (langId \<notin> {''c'', ''cpp'', ''cxx''} \<and> extname path filePath \<noteq> ''.h'' \<longrightarrow>
         detectLanguage_injected path (Some langId) (Some filePath) fileExistsCheck =
           \<lparr>detected = CPP, uncertain = True\<rparr>))"
proof (intro conjI impI)
  assume "activeTextEditor host = None \<or>
    (\<exists>document. activeTextEditor host = Some document \<and> isUntitled document)"
  then show "detectLanguage path host = \<lparr>detected = CPP, uncertain = True\<rparr>"
    by (auto simp: detectLanguage_def)
next
  assume "activeTextEditor host = Some document \<and> \<not> isUntitled document \<and>
    extname path (fsPath document) \<notin>
      {''.c'', ''.cpp'', ''.cc'', ''.cxx'', ''.hh'', ''.hpp'', ''.hxx'', ''.h''}"
  then show "detectLanguage path host =
        \<lparr>detected = (if languageId document = ''c'' then C else CPP), uncertain = True\<rparr>"
    by (simp add: detectLanguage_def Let_def)
next
  assume a: "activeTextEditor host = Some document \<and> \<not> isUntitled document \<and>
    extname path (fsPath document) = ''.h'' \<and>
    \<not> stat host (companionFile path (fsPath document) ''.c'') \<and>
    \<not> stat host (companionFile path (fsPath document) ''.cpp'') \<and>
    \<not> stat host (companionFile path (fsPath document) ''.cc'') \<and>
    \<not> stat host (companionFile path (fsPath document) ''.cxx'')"
  then show "detectLanguage path host = \<lparr>detected = CPP, uncertain = True\<rparr>"
    using detectLanguage_header [of host document path] by simp
next
  assume "falsy languageId' \<or> falsy filePath'"
  then show "detectLanguage_injected path languageId' filePath' fileExistsCheck =
        \<lparr>detected = CPP, uncertain = True\<rparr>"
    by (auto simp: detectLanguage_injected_def falsy_def split: option.splits)
next
  assume a: "langId \<noteq> [] \<and> filePath \<noteq> [] \<and>
    extname path filePath \<notin> {''.c'', ''.cpp'', ''.cc'', ''.cxx'', ''.hh'', ''.hpp'', ''.hxx''}"
  { assume "langId = ''c''"
    with a show "detectLanguage_injected path (Some langId) (Some filePath) fileExistsCheck =
           \<lparr>detected = C, uncertain = False\<rparr>"
      by (simp add: detectLanguage_injected_def falsy_def DEFINITIVE_EXTENSIONS_c_def
            DEFINITIVE_EXTENSIONS_cpp_def) }
  { assume "langId = ''cpp'' \<or> langId = ''cxx''"
    with a show "detectLanguage_injected path (Some langId) (Some filePath) fileExistsCheck =
           \<lparr>detected = CPP, uncertain = False\<rparr>"
      by (auto simp: detectLanguage_injected_def falsy_def DEFINITIVE_EXTENSIONS_c_def
            DEFINITIVE_EXTENSIONS_cpp_def) }
  { assume "langId \<notin> {''c'', ''cpp'', ''cxx''} \<and> extname path filePath \<noteq> ''.h''"
    with a show "detectLanguage_injected path (Some langId) (Some filePath) fileExistsCheck =
           \<lparr>detected = CPP, uncertain = True\<rparr>"
      by (simp add: detectLanguage_injected_def falsy_def DEFINITIVE_EXTENSIONS_c_def
            DEFINITIVE_EXTENSIONS_cpp_def Let_def) }
qed

theorem detectLanguage_fallback_witness:
  "activeTextEditor (exampleHost ''/proj/notes.txt'' ''c'' []) =
     Some \<lparr>isUntitled = False, languageId = ''c'', fsPath = ''/proj/notes.txt''\<rparr> \<and>
   extname posixPath ''/proj/notes.txt'' = ''.txt'' \<and>
   detectLanguage posixPath (exampleHost ''/proj/notes.txt'' ''c'' []) =
     \<lparr>detected = C, uncertain = True\<rparr> \<and>
   detectLanguage_injected posixPath (Some ''plaintext'') (Some ''/proj/notes.txt'') None =
     \<lparr>detected = CPP, uncertain = True\<rparr> \<and>
   falsy None \<and>
   detectLanguage_injected posixPath None (Some ''/proj/notes.txt'') None =
     \<lparr>detected = CPP, uncertain = True\<rparr>"
proof -
  let ?d = "\<lparr>isUntitled = False, languageId = ''c'', fsPath = ''/proj/notes.txt''\<rparr>"
  have a: "activeTextEditor (exampleHost ''/proj/notes.txt'' ''c'' []) = Some ?d"
    by (simp add: exampleHost_def)
  have e: "extname posixPath ''/proj/notes.txt'' = ''.txt''"
    by (simp add: posixPath_def posix_extname_def lastComponent_def)
  have f: "falsy None" by (simp add: falsy_def)
  from detectLanguage_fallback
         [of "exampleHost ''/proj/notes.txt'' ''c'' []" posixPath ?d None
             "Some ''/proj/notes.txt''" None "''plaintext''" "''/proj/notes.txt''"]
    a e f
  show ?thesis by simp
qed

section \<open>Properties of the settings service\<close>

lemma writes_append [simp]: "writes (xs @ ys) = writes xs @ writes ys"
  by (induction xs rule: writes.induct) simp_all

lemma updates_append [simp]: "updates (xs @ ys) = updates xs @ updates ys"
  by (induction xs rule: updates.induct) simp_all

lemma dismissals_append [simp]: "dismissals (xs @ ys) = dismissals xs @ dismissals ys"
  by (induction xs rule: dismissals.induct) simp_all

lemma forEach_validateRule_Inr:
  "forEach_validateRule rules = Inr () \<longleftrightarrow>
   (\<forall>rule\<in>set rules. \<not> (falsy (key_of rule) \<or> falsy (language_of rule) \<or>
         falsy (headerExt_of rule) \<or> falsy (sourceExt_of rule)))"
  by (induction rules) (auto simp: validateRule_def)

lemma forEach_validateRule_Inl:
  "forEach_validateRule rules = Inl e \<Longrightarrow>
   \<exists>rule\<in>set rules. e = InvalidRule rule \<and>
     (falsy (key_of rule) \<or> falsy (language_of rule) \<or>
      falsy (headerExt_of rule) \<or> falsy (sourceExt_of rule))"
  by (induction rules) (auto simp: validateRule_def split: if_splits sum.splits)

text \<open>
  C10. \<open>writeRules\<close> of the namespace validates every rule before it touches the
  settings. If some rule lacks (or has empty) key, language, headerExt or sourceExt, it
  throws \<open>Invalid rule\<close> for such a rule, no update is attempted and the configuration
  is as before. If all rules pass, exactly one update of the scope with these rules is
  attempted; it sets the scope's value when the host accepts it, and leaves the
  configuration and rethrows when the host rejects it.
\<close>

theorem writeRules_validated_all_or_nothing:
  "((\<exists>rule\<in>set rules. falsy (key_of rule) \<or> falsy (language_of rule) \<or>
        falsy (headerExt_of rule) \<or> falsy (sourceExt_of rule)) \<longrightarrow>
      (\<exists>rule\<in>set rules.
         (falsy (key_of rule) \<or> falsy (language_of rule) \<or>
          falsy (headerExt_of rule) \<or> falsy (sourceExt_of rule)) \<and>
         fst (writeRules_validated stringify host rules scope w) = Inl (InvalidRule rule)) \<and>
      configuration (snd (writeRules_validated stringify host rules scope w)) =
        configuration w \<and>
      updates (events (snd (writeRules_validated stringify host rules scope w))) =
        updates (events w)) \<and>
   ((\<forall>rule\<in>set rules. \<not> falsy (key_of rule) \<and> \<not> falsy (language_of rule) \<and>
        \<not> falsy (headerExt_of rule) \<and> \<not> falsy (sourceExt_of rule)) \<longrightarrow>
      updates (events (snd (writeRules_validated stringify host rules scope w))) =
        updates (events w) @ [(scope, rules)] \<and>
      (updateError host = None \<longrightarrow>
         fst (writeRules_validated stringify host rules scope w) = Inr () \<and>
         configuration (snd (writeRules_validated stringify host rules scope w)) =
           update scope (Some rules) (configuration w)) \<and>
      (\<forall>message. updateError host = Some message \<longrightarrow>
         fst (writeRules_validated stringify host rules scope w) =
           Inl (UpdateRejected message) \<and>
         configuration (snd (writeRules_validated stringify host rules scope w)) =
           configuration w))"
proof (intro conjI impI allI)
  assume bad: "\<exists>rule\<in>set rules. falsy (key_of rule) \<or> falsy (language_of rule) \<or>
        falsy (headerExt_of rule) \<or> falsy (sourceExt_of rule)"
  then have "forEach_validateRule rules \<noteq> Inr ()"
    by (simp add: forEach_validateRule_Inr)
  then obtain e where e: "forEach_validateRule rules = Inl e"
    by (cases "forEach_validateRule rules") auto
  from forEach_validateRule_Inl [OF e] e
  show "\<exists>rule\<in>set rules.
         (falsy (key_of rule) \<or> falsy (language_of rule) \<or>
          falsy (headerExt_of rule) \<or> falsy (sourceExt_of rule)) \<and>
         fst (writeRules_validated stringify host rules scope w) = Inl (InvalidRule rule)"
    by (auto simp: writeRules_validated_def handleError_def)
  from e show "configuration (snd (writeRules_validated stringify host rules scope w)) =
        configuration w"
    by (simp add: writeRules_validated_def handleError_def emit_def)
  from e show "updates (events (snd (writeRules_validated stringify host rules scope w))) =
        updates (events w)"
    by (simp add: writeRules_validated_def handleError_def emit_def)
next
  assume ok: "\<forall>rule\<in>set rules. \<not> falsy (key_of rule) \<and> \<not> falsy (language_of rule) \<and>
        \<not> falsy (headerExt_of rule) \<and> \<not> falsy (sourceExt_of rule)"
  then have v: "forEach_validateRule rules = Inr ()"
    by (simp add: forEach_validateRule_Inr)
  then show "updates (events (snd (writeRules_validated stringify host rules scope w))) =
        updates (events w) @ [(scope, rules)]"
    by (simp add: writeRules_validated_def writeRules_def handleError_def emit_def Let_def
          split: option.splits)
  { assume "updateError host = None"
    with v show "fst (writeRules_validated stringify host rules scope w) = Inr ()"
      and "configuration (snd (writeRules_validated stringify host rules scope w)) =
           update scope (Some rules) (configuration w)"
      by (simp_all add: writeRules_validated_def writeRules_def emit_def Let_def) }
  { fix message assume "updateError host = Some message"
    with v show "fst (writeRules_validated stringify host rules scope w) =
           Inl (UpdateRejected message)"
      and "configuration (snd (writeRules_validated stringify host rules scope w)) =
           configuration w"
      by (simp_all add: writeRules_validated_def writeRules_def emit_def Let_def
            handleError_def) }
qed

theorem writeRules_validated_all_or_nothing_witness:
  "falsy (sourceExt_of (okRule\<lparr>sourceExt_of := None\<rparr>)) \<and>
   fst (writeRules_validated (\<lambda>rule. ''{}'') (exampleHost ''/proj/a.cpp'' ''cpp'' [])
          [okRule, okRule\<lparr>sourceExt_of := None\<rparr>] Workspace
          \<lparr>configuration = \<lparr>workspaceValue = None, globalValue = None\<rparr>, events = []\<rparr>) =
     Inl (InvalidRule (okRule\<lparr>sourceExt_of := None\<rparr>)) \<and>
   configuration
     (snd (writeRules_validated (\<lambda>rule. ''{}'') (exampleHost ''/proj/a.cpp'' ''cpp'' [])
             [okRule, okRule\<lparr>sourceExt_of := None\<rparr>] Workspace
             \<lparr>configuration = \<lparr>workspaceValue = None, globalValue = None\<rparr>, events = []\<rparr>)) =
     \<lparr>workspaceValue = None, globalValue = None\<rparr> \<and>
   updates
     (events
        (snd (writeRules_validated (\<lambda>rule. ''{}'') (exampleHost ''/proj/a.cpp'' ''cpp'' [])
                [okRule, okRule\<lparr>sourceExt_of := None\<rparr>] Workspace
                \<lparr>configuration = \<lparr>workspaceValue = None, globalValue = None\<rparr>,
                 events = []\<rparr>))) = [] \<and>
   configuration
     (snd (writeRules_validated (\<lambda>rule. ''{}'') (exampleHost ''/proj/a.cpp'' ''cpp'' [])
             [okRule] Workspace
             \<lparr>configuration = \<lparr>workspaceValue = None, globalValue = None\<rparr>, events = []\<rparr>)) =
     \<lparr>workspaceValue = Some [okRule], globalValue = None\<rparr>"
proof -
  let ?w = "\<lparr>configuration = \<lparr>workspaceValue = None, globalValue = None\<rparr>,
            events = []\<rparr> :: RuleObject World"
  let ?host = "exampleHost ''/proj/a.cpp'' ''cpp'' []"
  let ?bad = "okRule\<lparr>sourceExt_of := None\<rparr>"
  have b: "falsy (sourceExt_of ?bad)" by (simp add: falsy_def)
  have g: "\<not> falsy (key_of okRule) \<and> \<not> falsy (language_of okRule) \<and>
           \<not> falsy (headerExt_of okRule) \<and> \<not> falsy (sourceExt_of okRule)"
    by (simp add: falsy_def okRule_def)
  have u: "updateError ?host = None" by (simp add: exampleHost_def)
  from writeRules_validated_all_or_nothing [of "[okRule, ?bad]" "\<lambda>rule. ''{}''" ?host Workspace ?w]
    b g
  have 1: "fst (writeRules_validated (\<lambda>rule. ''{}'') ?host [okRule, ?bad] Workspace ?w) =
             Inl (InvalidRule ?bad)"
    and 2: "configuration (snd (writeRules_validated (\<lambda>rule. ''{}'') ?host [okRule, ?bad]
              Workspace ?w)) = \<lparr>workspaceValue = None, globalValue = None\<rparr>"
    and 3: "updates (events (snd (writeRules_validated (\<lambda>rule. ''{}'') ?host [okRule, ?bad]
              Workspace ?w))) = []"
    by auto
  from writeRules_validated_all_or_nothing [of "[okRule]" "\<lambda>rule. ''{}''" ?host Workspace ?w]
    g u
  have 4: "configuration (snd (writeRules_validated (\<lambda>rule. ''{}'') ?host [okRule]
              Workspace ?w)) = \<lparr>workspaceValue = Some [okRule], globalValue = None\<rparr>"
    by (simp add: update_def)
  from b 1 2 3 4 show ?thesis by simp
qed

section \<open>Properties of the wizard\<close>

lemma endsAtDismissal_append:
  "endsAtDismissal (xs @ ys) =
     (if dismissals xs = [] then endsAtDismissal ys else endsAtDismissal xs \<and> ys = [])"
  by (induction xs rule: endsAtDismissal.induct) auto

lemma endsAtDismissal_Dialog [simp]:
  "endsAtDismissal (Dialog d b # es) = (if b then endsAtDismissal es else es = [])"
  by (cases b) simp_all

lemma dismissals_Dialog [simp]:
  "dismissals (Dialog d b # es) = (if b then dismissals es else d # dismissals es)"
  by (cases b) simp_all

lemma writes_Dialog [simp]: "writes (Dialog d b # es) = writes es"
  by (cases b) simp_all

lemma updates_Dialog [simp]: "updates (Dialog d b # es) = updates es"
  by (cases b) simp_all

lemma shown_append [simp]: "shown d (xs @ ys) \<longleftrightarrow> shown d xs \<or> shown d ys"
  by (auto simp: shown_def)

lemma quiet_Nil [simp]: "quiet [] c"
  by (simp add: quiet_def)

lemma quiet_append:
  "quiet xs True \<Longrightarrow> quiet ys c \<Longrightarrow> quiet (xs @ ys) c"
  by (simp add: quiet_def endsAtDismissal_append)

lemma quiet_weaken: "quiet xs c \<Longrightarrow> quiet xs False"
  by (simp add: quiet_def)

lemma pickWorkspaceFolder_quiet:
  "\<exists>es. events (snd (pickWorkspaceFolder host user w)) = events w @ es \<and>
        quiet es (fst (pickWorkspaceFolder host user w) \<noteq> None)"
  by (auto simp: pickWorkspaceFolder_def emit_def quiet_def split: option.splits)

lemma getTargetDirectory_quiet:
  "\<exists>es. events (snd (getTargetDirectory path host user w)) = events w @ es \<and>
        quiet es (fst (getTargetDirectory path host user w) \<noteq> None)"
  using pickWorkspaceFolder_quiet [of host user w]
  by (auto simp: getTargetDirectory_def split: option.splits)

lemma selectFromCustomRules_quiet:
  "\<exists>es. events (snd (selectFromCustomRules user rules lang w)) = events w @ es \<and>
        quiet es (fst (selectFromCustomRules user rules lang w) \<noteq> None)"
  by (auto simp: selectFromCustomRules_def emit_def quiet_def Let_def
           split: option.splits QuickPickItem.splits)

lemma offerToCreateCustomRules_quiet:
  "\<exists>es. events (snd (offerToCreateCustomRules user lang w)) = events w @ es \<and>
        quiet es (fst (offerToCreateCustomRules user lang w) \<noteq> None)"
  by (auto simp: offerToCreateCustomRules_def emit_def quiet_def Let_def)

lemma saveCustomRule_quiet:
  "\<exists>es. events (snd (saveCustomRule host user lang hExt sExt w)) = events w @ es \<and>
        quiet es (fst (saveCustomRule host user lang hExt sExt w) \<noteq> None)"
  by (auto simp: saveCustomRule_def writeRules_def emit_def quiet_def Let_def
           split: option.splits)

lemma createCustomRules_quiet:
  "\<exists>es. events (snd (createCustomRules host user lang w)) = events w @ es \<and>
        quiet es (fst (createCustomRules host user lang w) \<noteq> None)"
proof -
  have step: "\<exists>es. events (snd (saveCustomRule host user lang h s w')) = events w @ es \<and>
        quiet es (fst (saveCustomRule host user lang h s w') \<noteq> None)"
    if "events w' = events w @ pre" and "quiet pre True" for w' pre h s
  proof -
    from saveCustomRule_quiet [of host user lang h s w'] obtain es where
      "events (snd (saveCustomRule host user lang h s w')) = events w' @ es"
      "quiet es (fst (saveCustomRule host user lang h s w') \<noteq> None)" by blast
    with that show ?thesis by (auto intro: quiet_append)
  qed
  show ?thesis
  proof (cases "extensionPick user (commonExtensions lang)")
    case None
    then show ?thesis
      by (simp add: createCustomRules_def emit_def quiet_def)
  next
    case (Some sel)
    obtain l hExt sExt where sel: "sel = (l, hExt, sExt)" by (cases sel)
    let ?w1 = "emit (Dialog (ExtensionPick (commonExtensions lang)) True) w"
    have q1: "events ?w1 = events w @ [Dialog (ExtensionPick (commonExtensions lang)) True]"
      "quiet [Dialog (ExtensionPick (commonExtensions lang)) True] True"
      by (simp_all add: emit_def quiet_def)
    show ?thesis
    proof (cases "hExt = [] \<or> sExt = []")
      case False
      with Some sel step [OF q1] show ?thesis
        by (simp add: createCustomRules_def)
    next
      case True
      show ?thesis
      proof (cases "headerExtInput user")
        case None
        with Some sel True show ?thesis
          by (auto simp: createCustomRules_def emit_def quiet_def)
      next
        case hSome: (Some h')
        show ?thesis
        proof (cases "h' = []")
          case True
          with Some sel \<open>hExt = [] \<or> sExt = []\<close> hSome show ?thesis
            by (auto simp: createCustomRules_def emit_def quiet_def)
        next
          case hne: False
          show ?thesis
          proof (cases "sourceExtInput user")
            case None
            with Some sel \<open>hExt = [] \<or> sExt = []\<close> hSome hne show ?thesis
              by (auto simp: createCustomRules_def emit_def quiet_def)
          next
            case sSome: (Some s')
            show ?thesis
            proof (cases "s' = []")
              case True
              with Some sel \<open>hExt = [] \<or> sExt = []\<close> hSome hne sSome show ?thesis
                by (auto simp: createCustomRules_def emit_def quiet_def)
            next
              case sne: False
              let ?w3 = "emit (Dialog SourceExtInput True) (emit (Dialog HeaderExtInput True) ?w1)"
              have q3: "events ?w3 = events w @
                  [Dialog (ExtensionPick (commonExtensions lang)) True,
                   Dialog HeaderExtInput True, Dialog SourceExtInput True]"
                "quiet [Dialog (ExtensionPick (commonExtensions lang)) True,
                   Dialog HeaderExtInput True, Dialog SourceExtInput True] True"
                by (simp_all add: emit_def quiet_def)
              from Some sel \<open>hExt = [] \<or> sExt = []\<close> hSome hne sSome sne step [OF q3]
              show ?thesis
                by (auto simp: createCustomRules_def)
            qed
          qed
        qed
      qed
    qed
  qed
qed

lemma checkAndOfferCustomRules_quiet:
  "\<exists>es. events (snd (checkAndOfferCustomRules host user lang uncert w)) = events w @ es \<and>
        quiet es (fst (checkAndOfferCustomRules host user lang uncert w) \<noteq> Cancelled)"
proof -
  let ?rules = "filter (\<lambda>rule. language rule = lang)
      ((case getRules Workspace (configuration w) of None \<Rightarrow> [] | Some rs \<Rightarrow> rs) @
       (case getRules User (configuration w) of None \<Rightarrow> [] | Some rs \<Rightarrow> rs))"
  show ?thesis
  proof (cases "length ?rules > 0")
    case True
    obtain r w1 where s: "selectFromCustomRules user ?rules lang w = (r, w1)"
      by (cases "selectFromCustomRules user ?rules lang w")
    with selectFromCustomRules_quiet [of user ?rules lang w] obtain es where
      "events w1 = events w @ es" "quiet es (r \<noteq> None)" by auto
    moreover have "r = Some Cancelled \<Longrightarrow> False"
      using s by (auto simp: selectFromCustomRules_def Let_def
                       split: option.splits QuickPickItem.splits)
    ultimately show ?thesis using True s
      by (cases r) (auto simp: checkAndOfferCustomRules_def Let_def quiet_def)
  next
    case False
    show ?thesis
    proof (cases uncert)
      case True
      with False show ?thesis
        by (simp add: checkAndOfferCustomRules_def Let_def)
    next
      case certain: False
      obtain o' w1 where off: "offerToCreateCustomRules user lang w = (o', w1)"
        by (cases "offerToCreateCustomRules user lang w")
      with offerToCreateCustomRules_quiet [of user lang w] obtain es1 where
        e1: "events w1 = events w @ es1" "quiet es1 (o' \<noteq> None)" by auto
      show ?thesis
      proof (cases o')
        case None
        with False certain off e1 show ?thesis
          by (auto simp: checkAndOfferCustomRules_def Let_def)
      next
        case (Some b)
        show ?thesis
        proof (cases b)
          case no: False
          with Some False certain off e1 show ?thesis
            by (auto simp: checkAndOfferCustomRules_def Let_def)
        next
          case yes: True
          obtain r w2 where c: "createCustomRules host user lang w1 = (r, w2)"
            by (cases "createCustomRules host user lang w1")
          with createCustomRules_quiet [of host user lang w1] obtain es2 where
            e2: "events w2 = events w1 @ es2" "quiet es2 (r \<noteq> None)" by auto
          from e1 Some have "quiet es1 True" by simp
          with e2 have "quiet (es1 @ es2) (r \<noteq> None)" by (auto intro: quiet_append)
          with Some yes False certain off c e1 e2 show ?thesis
            by (cases r) (auto simp: checkAndOfferCustomRules_def Let_def)
        qed
      qed
    qed
  qed
qed

lemma promptForPairingRule_quiet:
  "\<exists>es. events (snd (promptForPairingRule host user lang uncert w)) = events w @ es \<and>
        quiet es (fst (promptForPairingRule host user lang uncert w) \<noteq> None)"
proof -
  obtain r w1 where c: "checkAndOfferCustomRules host user lang uncert w = (r, w1)"
    by (cases "checkAndOfferCustomRules host user lang uncert w")
  with checkAndOfferCustomRules_quiet [of host user lang uncert w] obtain es where
    e: "events w1 = events w @ es" "quiet es (r \<noteq> Cancelled)" by auto
  let ?choices = "sort_key (\<lambda>rule. indexOf (desiredOrder lang uncert) (key rule)) TEMPLATE_RULES"
  have pick: "quiet (es @ [Dialog (TemplatePick ?choices) (templatePick user ?choices \<noteq> None)])
                (templatePick user ?choices \<noteq> None)"
    if "r \<noteq> Cancelled"
    using that e(2) by (auto simp: quiet_def endsAtDismissal_append)
  from c e pick show ?thesis
    by (cases r) (auto simp: promptForPairingRule_def Let_def emit_def)
qed

lemma promptForFileName_quiet:
  "\<exists>es. events (snd (promptForFileName user rule w)) = events w @ es \<and>
        quiet es (fst (promptForFileName user rule w) \<noteq> None)"
  by (auto simp: promptForFileName_def emit_def quiet_def)

lemma createFiles_events:
  "events (createFiles path host fileName rule headerPath sourcePath w) =
     events w @
     [WriteFile headerPath (fst (generateFileContent fileName (getLineEnding host) rule)),
      WriteFile sourcePath (snd (generateFileContent fileName (getLineEnding host) rule))] @
     (case writeError host headerPath of
        Some message \<Rightarrow> [ErrorMessage (''Failed to create files: '' @ message @ ''.'')]
      | None \<Rightarrow>
          (case writeError host sourcePath of
             Some message \<Rightarrow> [ErrorMessage (''Failed to create files: '' @ message @ ''.'')]
           | None \<Rightarrow>
               [ShowTextDocument headerPath,
                InformationMessage
                  (''Successfully created '' @ basename path headerPath [] @ '' and '' @
                   basename path sourcePath [] @ ''.'')]))"
  by (simp add: createFiles_def writeFiles_def finalizeCreation_def emit_def Let_def split_beta
        split: option.splits)

text \<open>
  C4, amended. In a run of \<open>create\<close> that has a target directory, a rule and a file
  name, with the two target paths \<open>join targetDirectory (fileName + headerExt)\<close> and
  \<open>join targetDirectory (fileName + sourceExt)\<close> (which \<open>path.join\<close> never makes empty):
  if either path exists, no file is written and the run ends with the error message
  naming the existing path (the header's if that exists, else the source's); if both
  are absent, the files written are exactly these two paths, with the generated
  contents. In every run, a dismissed dialog means that no file is written and that the
  dismissed dialog is the last thing the run does, except that the dismissed folder pick
  is followed by the message that no target directory can be determined.
\<close>

theorem create_existing_or_both:
  "(getTargetDirectory path host user w = (Some targetDirectory, w1) \<and>
    promptForPairingRule host user (detected (detectLanguage path host))
      (uncertain (detectLanguage path host)) w1 = (Some rule, w2) \<and>
    fileNameInput user = Some fileName \<and> fileName \<noteq> [] \<and>
    headerPath = join path targetDirectory (fileName @ headerExt rule) \<and>
    sourcePath = join path targetDirectory (fileName @ sourceExt rule) \<and>
    headerPath \<noteq> [] \<and> sourcePath \<noteq> [] \<longrightarrow>
      (stat host headerPath \<or> stat host sourcePath \<longrightarrow>
         writes (events (create path host user w)) = writes (events w) \<and>
         events (create path host user w) =
           events w2 @
           [Dialog FileNameInput True,
            ErrorMessage
              (''File already exists: '' @
               (if stat host headerPath then headerPath else sourcePath))]) \<and>
      (\<not> stat host headerPath \<and> \<not> stat host sourcePath \<longrightarrow>
         writes (events (create path host user w)) =
           writes (events w) @
           [(headerPath, fst (generateFileContent fileName (getLineEnding host) rule)),
            (sourcePath, snd (generateFileContent fileName (getLineEnding host) rule))])) \<and>
   (\<exists>es. events (create path host user w) = events w @ es \<and>
      (dismissals es \<noteq> [] \<longrightarrow>
         writes es = [] \<and>
         (endsAtDismissal es \<or>
          es = [Dialog WorkspaceFolderPick False,
                ErrorMessage
                  ''Cannot determine target directory. Please open a folder or a file first.''])))"
proof (intro conjI impI)
  assume a: "getTargetDirectory path host user w = (Some targetDirectory, w1) \<and>
    promptForPairingRule host user (detected (detectLanguage path host))
      (uncertain (detectLanguage path host)) w1 = (Some rule, w2) \<and>
    fileNameInput user = Some fileName \<and> fileName \<noteq> [] \<and>
    headerPath = join path targetDirectory (fileName @ headerExt rule) \<and>
    sourcePath = join path targetDirectory (fileName @ sourceExt rule) \<and>
    headerPath \<noteq> [] \<and> sourcePath \<noteq> []"
  from a getTargetDirectory_quiet [of path host user w] obtain es1 where
    e1: "events w1 = events w @ es1" "writes es1 = []" by (auto simp: quiet_def)
  from a promptForPairingRule_quiet
         [of host user "detected (detectLanguage path host)"
             "uncertain (detectLanguage path host)" w1]
  obtain es2 where
    e2: "events w2 = events w1 @ es2" "writes es2 = []" by (auto simp: quiet_def)
  { assume ex: "stat host headerPath \<or> stat host sourcePath"
    with a show "events (create path host user w) =
           events w2 @
           [Dialog FileNameInput True,
            ErrorMessage
              (''File already exists: '' @
               (if stat host headerPath then headerPath else sourcePath))]"
      by (auto simp: create_def promptForFileName_def checkFileExistence_def emit_def Let_def)
    with e1 e2 show "writes (events (create path host user w)) = writes (events w)"
      by simp }
  { assume ab: "\<not> stat host headerPath \<and> \<not> stat host sourcePath"
    with a have "events (create path host user w) =
        events (createFiles path host fileName rule headerPath sourcePath
                  (emit (Dialog FileNameInput True) w2))"
      by (simp add: create_def promptForFileName_def checkFileExistence_def Let_def)
    with e1 e2 show "writes (events (create path host user w)) =
           writes (events w) @
           [(headerPath, fst (generateFileContent fileName (getLineEnding host) rule)),
            (sourcePath, snd (generateFileContent fileName (getLineEnding host) rule))]"
      by (simp add: createFiles_events emit_def split: option.splits) }
next
  let ?err = "ErrorMessage
      ''Cannot determine target directory. Please open a folder or a file first.''"
  let ?P = "\<lambda>es. dismissals es \<noteq> [] \<longrightarrow>
         writes es = [] \<and>
         (endsAtDismissal es \<or> es = [Dialog WorkspaceFolderPick False, ?err])"
  obtain t w1 where g: "getTargetDirectory path host user w = (t, w1)"
    by (cases "getTargetDirectory path host user w")
  with getTargetDirectory_quiet [of path host user w] obtain es1 where
    e1: "events w1 = events w @ es1" "quiet es1 (t \<noteq> None)" by auto
  show "\<exists>es. events (create path host user w) = events w @ es \<and> ?P es"
  proof (cases t)
    case None
    from g None have "es1 = [] \<or> es1 = [Dialog WorkspaceFolderPick (folderPick user \<noteq> None)]"
      using e1(1)
      by (auto simp: getTargetDirectory_def pickWorkspaceFolder_def emit_def
               split: option.splits if_splits)
    moreover from g None have "events (create path host user w) = events w1 @ [?err]"
      by (simp add: create_def emit_def)
    ultimately show ?thesis using e1(1) by auto
  next
    case (Some dir)
    let ?d = "detectLanguage path host"
    obtain r w2 where p: "promptForPairingRule host user (detected ?d) (uncertain ?d) w1 = (r, w2)"
      by (cases "promptForPairingRule host user (detected ?d) (uncertain ?d) w1")
    with promptForPairingRule_quiet [of host user "detected ?d" "uncertain ?d" w1]
    obtain es2 where e2: "events w2 = events w1 @ es2" "quiet es2 (r \<noteq> None)" by auto
    from e1 Some have q1: "quiet es1 True" by simp
    show ?thesis
    proof (cases r)
      case None
      with g Some p have "events (create path host user w) = events w @ (es1 @ es2)"
        using e1(1) e2(1) by (simp add: create_def Let_def)
      moreover from q1 e2(2) have "quiet (es1 @ es2) False"
        by (auto intro: quiet_append quiet_weaken)
      ultimately show ?thesis by (auto simp: quiet_def)
    next
      case rSome: (Some rule)
      with e2 have q2: "quiet es2 True" by simp
      from q1 q2 have q12: "quiet (es1 @ es2) True" by (rule quiet_append)
      show ?thesis
      proof (cases "fileNameInput user")
        case None
        with g Some p rSome have "events (create path host user w) =
            events w @ ((es1 @ es2) @ [Dialog FileNameInput False])"
          using e1(1) e2(1) by (simp add: create_def Let_def promptForFileName_def emit_def)
        moreover have "quiet ((es1 @ es2) @ [Dialog FileNameInput False]) False"
          using q12 by (auto simp: quiet_def endsAtDismissal_append)
        ultimately show ?thesis by (auto simp: quiet_def)
      next
        case fSome: (Some fileName)
        have cf: "\<exists>post. events (createFiles path host fileName rule h s' w') =
                  events w' @ post \<and> dismissals post = []" for h s' w'
          by (simp add: createFiles_events split: option.splits)
        have "\<exists>post. events (create path host user w) =
                events w2 @ Dialog FileNameInput True # post \<and> dismissals post = []"
        proof (cases "fileName = []")
          case True
          with g Some p rSome fSome show ?thesis
            by (simp add: create_def Let_def promptForFileName_def emit_def)
        next
          case False
          let ?h = "join path dir (fileName @ headerExt rule)"
          let ?s = "join path dir (fileName @ sourceExt rule)"
          let ?w3 = "emit (Dialog FileNameInput True) w2"
          from cf [of ?h ?s ?w3] obtain post where
            post: "events (createFiles path host fileName rule ?h ?s ?w3) =
                   events ?w3 @ post" "dismissals post = []" by blast
          show ?thesis
          proof (cases "checkFileExistence host ?h ?s")
            case None
            with False g Some p rSome fSome post show ?thesis
              by (simp add: create_def Let_def promptForFileName_def emit_def)
          next
            case (Some e)
            with False g \<open>t = Some dir\<close> p rSome fSome post show ?thesis
              by (simp add: create_def Let_def promptForFileName_def emit_def)
          qed
        qed
        then obtain post where
          "events (create path host user w) = events w2 @ Dialog FileNameInput True # post"
          "dismissals post = []" by blast
        with e1(1) e2(1) q12 have
          "events (create path host user w) =
             events w @ (es1 @ es2 @ Dialog FileNameInput True # post)"
          "dismissals (es1 @ es2 @ Dialog FileNameInput True # post) = []"
          by (simp_all add: quiet_def)
        then show ?thesis by blast
      qed
    qed
  qed
qed

lemma sorted_certain_cpp:
  "sort_key (\<lambda>rule. indexOf (desiredOrder CPP False) (key rule)) TEMPLATE_RULES = TEMPLATE_RULES"
  by code_simp

lemma sorted_uncertain_keys:
  "map key (sort_key (\<lambda>rule. indexOf (desiredOrder lang True) (key rule)) TEMPLATE_RULES) =
     [''cpp_empty'', ''c_empty'', ''cpp_class'', ''cpp_struct'', ''c_struct'']"
  by code_simp

lemma posix_main_cpp:
  "extname posixPath ''/proj/main.cpp'' = ''.cpp''"
  "dirname posixPath ''/proj/main.cpp'' = ''/proj''"
  "join posixPath ''/proj'' ''Foo.h'' = ''/proj/Foo.h''"
  "join posixPath ''/proj'' ''Foo.cpp'' = ''/proj/Foo.cpp''"
  by (simp_all add: posixPath_def posix_extname_def posix_dirname_def posix_join_def
        lastComponent_def)

lemma example_detect:
  "detectLanguage posixPath (exampleHost ''/proj/main.cpp'' ''cpp'' existing) =
     \<lparr>detected = CPP, uncertain = False\<rparr>"
  by (simp add: detectLanguage_def exampleHost_def posix_main_cpp)

lemma example_target:
  "getTargetDirectory posixPath (exampleHost ''/proj/main.cpp'' ''cpp'' existing) user w =
     (Some ''/proj'', w)"
  by (simp add: getTargetDirectory_def exampleHost_def posix_main_cpp)

lemma example_pick:
  "templatePick exampleUser TEMPLATE_RULES = Some (hd TEMPLATE_RULES)"
  "headerExt (hd TEMPLATE_RULES) = ''.h''"
  "sourceExt (hd TEMPLATE_RULES) = ''.cpp''"
  by (simp_all add: exampleUser_def TEMPLATE_RULES_def)

lemma example_rule:
  assumes "offerAnswer user = Some ''Use Defaults''"
    and "templatePick user TEMPLATE_RULES = Some rule"
  shows "promptForPairingRule host user CPP False emptyWorld =
     (Some rule,
      \<lparr>configuration = \<lparr>workspaceValue = None, globalValue = None\<rparr>,
       events = [Dialog OfferCustomRules True, Dialog (TemplatePick TEMPLATE_RULES) True]\<rparr>)"
proof -
  have "checkAndOfferCustomRules host user CPP False emptyWorld =
          (NoCustomRules, emit (Dialog OfferCustomRules True) emptyWorld)"
    using assms(1)
    by (simp add: checkAndOfferCustomRules_def getRules_def offerToCreateCustomRules_def
          emptyWorld_def)
  then show ?thesis
    using assms(2)
    by (simp add: promptForPairingRule_def sorted_certain_cpp emit_def emptyWorld_def)
qed

lemma example_answers:
  "offerAnswer exampleUser = Some ''Use Defaults''"
  "offerAnswer (exampleUser\<lparr>fileNameInput := None\<rparr>) = Some ''Use Defaults''"
  "templatePick (exampleUser\<lparr>fileNameInput := None\<rparr>) TEMPLATE_RULES =
     Some (hd TEMPLATE_RULES)"
  "fileNameInput (exampleUser\<lparr>fileNameInput := None\<rparr>) = None"
  by (simp_all add: exampleUser_def TEMPLATE_RULES_def)

theorem create_existing_or_both_witness:
  "stat (exampleHost ''/proj/main.cpp'' ''cpp'' [''/proj/main.cpp'', ''/proj/Foo.h''])
     ''/proj/Foo.h'' \<and>
   events (create posixPath
             (exampleHost ''/proj/main.cpp'' ''cpp'' [''/proj/main.cpp'', ''/proj/Foo.h''])
             exampleUser emptyWorld) =
     [Dialog OfferCustomRules True, Dialog (TemplatePick TEMPLATE_RULES) True,
      Dialog FileNameInput True, ErrorMessage ''File already exists: /proj/Foo.h''] \<and>
   map fst (writes (events (create posixPath
                      (exampleHost ''/proj/main.cpp'' ''cpp'' [''/proj/main.cpp''])
                      exampleUser emptyWorld))) =
     [''/proj/Foo.h'', ''/proj/Foo.cpp''] \<and>
   dismissals (events (create posixPath
                         (exampleHost ''/proj/main.cpp'' ''cpp'' [''/proj/main.cpp''])
                         (exampleUser\<lparr>fileNameInput := None\<rparr>) emptyWorld)) =
     [FileNameInput] \<and>
   writes (events (create posixPath
                     (exampleHost ''/proj/main.cpp'' ''cpp'' [''/proj/main.cpp''])
                     (exampleUser\<lparr>fileNameInput := None\<rparr>) emptyWorld)) = []"
proof -
  let ?h1 = "exampleHost ''/proj/main.cpp'' ''cpp'' [''/proj/main.cpp'', ''/proj/Foo.h'']"
  let ?h2 = "exampleHost ''/proj/main.cpp'' ''cpp'' [''/proj/main.cpp'']"
  let ?w2 = "\<lparr>configuration = \<lparr>workspaceValue = None, globalValue = None\<rparr>,
             events = [Dialog OfferCustomRules True,
                       Dialog (TemplatePick TEMPLATE_RULES) True]\<rparr> :: PairingRule World"
  have f: "fileNameInput exampleUser = Some ''Foo''" "''Foo'' \<noteq> []"
    by (simp_all add: exampleUser_def)
  have s1: "stat ?h1 ''/proj/Foo.h''"
    and s2: "\<not> stat ?h2 ''/proj/Foo.h''" "\<not> stat ?h2 ''/proj/Foo.cpp''"
    by (simp_all add: exampleHost_def)
  have e: "events (emptyWorld :: PairingRule World) = []"
    by (simp add: emptyWorld_def)
  from create_existing_or_both
         [of posixPath ?h1 exampleUser emptyWorld "''/proj''" emptyWorld "hd TEMPLATE_RULES"
             ?w2 "''Foo''" "''/proj/Foo.h''" "''/proj/Foo.cpp''"]
    f s1 e
  have 1: "events (create posixPath ?h1 exampleUser emptyWorld) =
     [Dialog OfferCustomRules True, Dialog (TemplatePick TEMPLATE_RULES) True,
      Dialog FileNameInput True, ErrorMessage ''File already exists: /proj/Foo.h'']"
    by (simp add: example_target example_detect example_rule example_pick example_answers
          posix_main_cpp)
  from create_existing_or_both
         [of posixPath ?h2 exampleUser emptyWorld "''/proj''" emptyWorld "hd TEMPLATE_RULES"
             ?w2 "''Foo''" "''/proj/Foo.h''" "''/proj/Foo.cpp''"]
    f s2 e
  have 2: "map fst (writes (events (create posixPath ?h2 exampleUser emptyWorld))) =
     [''/proj/Foo.h'', ''/proj/Foo.cpp'']"
    by (simp add: example_target example_detect example_rule example_pick example_answers
          posix_main_cpp)
  let ?u = "exampleUser\<lparr>fileNameInput := None\<rparr>"
  note r = example_rule [OF example_answers(2) example_answers(3), of ?h2]
  have 3: "dismissals (events (create posixPath ?h2 ?u emptyWorld)) = [FileNameInput]"
    by (simp add: create_def example_target example_detect r example_answers
          promptForFileName_def emit_def)
  from create_existing_or_both [of posixPath ?h2 ?u emptyWorld] e 3
  have 4: "writes (events (create posixPath ?h2 ?u emptyWorld)) = []"
    by auto
  from s1 1 2 3 4 show ?thesis by simp
qed

text \<open>
  C4, as stated, fails in its last part if the settings count as written: a run in which
  the user creates a custom rule and then dismisses the file name box has already saved
  the rule to the workspace settings when it stops.
\<close>

theorem create_dismissed_after_saving_rule:
  "events (create posixPath (exampleHost ''/proj/main.cpp'' ''cpp'' [''/proj/main.cpp''])
             (exampleUser\<lparr>offerAnswer := Some ''Create Custom Rules'',
                           fileNameInput := None\<rparr>)
             emptyWorld) =
     [Dialog OfferCustomRules True,
      Dialog (ExtensionPick (commonExtensions CPP)) True,
      Dialog SaveLocationPick True,
      ConfigurationUpdate Workspace
        [\<lparr>key = ''custom_cpp_1700000000000'', label = ''$(new-file) C++ Pair (.h/.cpp)'',
          description = ''Creates a .h/.cpp file pair with header guards.'',
          language = CPP, headerExt = ''.h'', sourceExt = ''.cpp'',
          isClass = None, isStruct = None\<rparr>],
      InformationMessage ''Custom pairing rule saved to workspace settings.'',
      Dialog FileNameInput False] \<and>
   workspaceValue
     (configuration
        (create posixPath (exampleHost ''/proj/main.cpp'' ''cpp'' [''/proj/main.cpp''])
           (exampleUser\<lparr>offerAnswer := Some ''Create Custom Rules'',
                         fileNameInput := None\<rparr>)
           emptyWorld)) =
     Some [\<lparr>key = ''custom_cpp_1700000000000'', label = ''$(new-file) C++ Pair (.h/.cpp)'',
            description = ''Creates a .h/.cpp file pair with header guards.'',
            language = CPP, headerExt = ''.h'', sourceExt = ''.cpp'',
            isClass = None, isStruct = None\<rparr>] \<and>
   workspaceValue (configuration (emptyWorld :: PairingRule World)) = None"
proof -
  let ?h = "exampleHost ''/proj/main.cpp'' ''cpp'' [''/proj/main.cpp'']"
  let ?u = "exampleUser\<lparr>offerAnswer := Some ''Create Custom Rules'', fileNameInput := None\<rparr>"
  let ?rule = "\<lparr>key = ''custom_cpp_1700000000000'', label = ''$(new-file) C++ Pair (.h/.cpp)'',
          description = ''Creates a .h/.cpp file pair with header guards.'',
          language = CPP, headerExt = ''.h'', sourceExt = ''.cpp'',
          isClass = None, isStruct = None\<rparr>"
  let ?w1 = "emit (Dialog (ExtensionPick (commonExtensions CPP)) True)
               (emit (Dialog OfferCustomRules True) (emptyWorld :: PairingRule World))"
  have pick: "extensionPick exampleUser (commonExtensions CPP) =
                Some (''.h / .cpp (Default)'', ''.h'', ''.cpp'')"
    by (simp add: exampleUser_def commonExtensions_def)
  have save: "saveCustomRule ?h ?u CPP ''.h'' ''.cpp'' ?w1 =
      (Some ?rule,
       \<lparr>configuration = \<lparr>workspaceValue = Some [?rule], globalValue = None\<rparr>,
        events = [Dialog OfferCustomRules True,
                  Dialog (ExtensionPick (commonExtensions CPP)) True,
                  Dialog SaveLocationPick True,
                  ConfigurationUpdate Workspace [?rule],
                  InformationMessage ''Custom pairing rule saved to workspace settings.'']\<rparr>)"
    by (simp add: saveCustomRule_def writeRules_def getRules_def update_def emit_def
          exampleUser_def exampleHost_def emptyWorld_def languageName_def Let_def)
  have cr: "createCustomRules ?h ?u CPP (emit (Dialog OfferCustomRules True) emptyWorld) =
              saveCustomRule ?h ?u CPP ''.h'' ''.cpp'' ?w1"
    by (simp add: createCustomRules_def pick Let_def)
  have off: "offerToCreateCustomRules ?u CPP (emptyWorld :: PairingRule World) =
               (Some True, emit (Dialog OfferCustomRules True) emptyWorld)"
    by (simp add: offerToCreateCustomRules_def exampleUser_def)
  have chk: "checkAndOfferCustomRules ?h ?u CPP False emptyWorld =
      (Selected ?rule,
       \<lparr>configuration = \<lparr>workspaceValue = Some [?rule], globalValue = None\<rparr>,
        events = [Dialog OfferCustomRules True,
                  Dialog (ExtensionPick (commonExtensions CPP)) True,
                  Dialog SaveLocationPick True,
                  ConfigurationUpdate Workspace [?rule],
                  InformationMessage ''Custom pairing rule saved to workspace settings.'']\<rparr>)"
  proof -
    have "getRules Workspace (configuration (emptyWorld :: PairingRule World)) = None"
      and "getRules User (configuration (emptyWorld :: PairingRule World)) = None"
      by (simp_all add: getRules_def emptyWorld_def)
    then show ?thesis
      by (simp add: checkAndOfferCustomRules_def off cr save)
  qed
  have f: "fileNameInput ?u = None" by (simp add: exampleUser_def)
  have "create posixPath ?h ?u emptyWorld =
      \<lparr>configuration = \<lparr>workspaceValue = Some [?rule], globalValue = None\<rparr>,
        events = [Dialog OfferCustomRules True,
                  Dialog (ExtensionPick (commonExtensions CPP)) True,
                  Dialog SaveLocationPick True,
                  ConfigurationUpdate Workspace [?rule],
                  InformationMessage ''Custom pairing rule saved to workspace settings.'',
                  Dialog FileNameInput False]\<rparr>"
    by (simp add: create_def example_target example_detect promptForPairingRule_def chk
          promptForFileName_def f emit_def)
  then show ?thesis by (simp add: emptyWorld_def)
qed

lemma createCustomRules_extends:
  "\<exists>es. events (snd (createCustomRules host user lang w)) = events w @ es"
  using createCustomRules_quiet [of host user lang w] by blast

lemma createCustomRules2_CPP:
  "createCustomRules2 host user CPP w = createCustomRules host user CPP w"
  by (simp add: createCustomRules2_def createCustomRules_def)

lemma no_language_rules:
  "filter (\<lambda>rule. language rule = lang) (allRules (configuration w)) = [] \<Longrightarrow>
   filter (\<lambda>rule. language rule = lang)
     ((case getRules Workspace (configuration w) of None \<Rightarrow> [] | Some rs \<Rightarrow> rs) @
      (case getRules User (configuration w) of None \<Rightarrow> [] | Some rs \<Rightarrow> rs)) = []"
  by (simp add: allRules_def)

lemma offer_first:
  assumes "filter (\<lambda>rule. language rule = lang) (allRules (configuration w)) = []"
    and "\<not> uncert"
  shows "\<exists>rest. events (snd (promptForPairingRule host user lang uncert w)) =
           events w @ Dialog OfferCustomRules (offerAnswer user \<noteq> None) # rest"
proof -
  let ?w1 = "emit (Dialog OfferCustomRules (offerAnswer user \<noteq> None)) w"
  note none = no_language_rules [OF assms(1)]
  show ?thesis
  proof (cases "offerAnswer user = Some ''Create Custom Rules''")
    case False
    with none assms(2) show ?thesis
      by (auto simp: promptForPairingRule_def checkAndOfferCustomRules_def
            offerToCreateCustomRules_def emit_def Let_def simp del: filter_append)
  next
    case True
    obtain r w2 where c: "createCustomRules host user lang ?w1 = (r, w2)"
      by (cases "createCustomRules host user lang ?w1")
    with createCustomRules_extends [of host user lang ?w1] obtain es where
      "events w2 = events ?w1 @ es" by auto
    with True none assms(2) c show ?thesis
      by (cases r)
         (auto simp: promptForPairingRule_def checkAndOfferCustomRules_def
            offerToCreateCustomRules_def emit_def Let_def simp del: filter_append)
  qed
qed

lemma offer_first2:
  assumes "filter (\<lambda>rule. language rule = CPP) (allRules (configuration w)) = []"
    and "\<not> uncert"
  shows "\<exists>rest. events (snd (promptForPairingRule2 host user CPP uncert w)) =
           events w @ Dialog OfferCustomRules (offerAnswer user \<noteq> None) # rest"
proof -
  let ?w1 = "emit (Dialog OfferCustomRules (offerAnswer user \<noteq> None)) w"
  show ?thesis
  proof (cases "offerAnswer user = Some ''Create Custom Rules''")
    case False
    with assms show ?thesis
      by (auto simp: promptForPairingRule2_def checkAndOfferCustomRules2_def
            offerToCreateCustomRules2_def emit_def Let_def split: option.splits)
  next
    case True
    obtain r w2 where c: "createCustomRules host user CPP ?w1 = (r, w2)"
      by (cases "createCustomRules host user CPP ?w1")
    with createCustomRules_extends [of host user CPP ?w1] obtain es where
      "events w2 = events ?w1 @ es" by auto
    with True assms c show ?thesis
      by (cases r)
         (auto simp: promptForPairingRule2_def checkAndOfferCustomRules2_def
            offerToCreateCustomRules2_def createCustomRules2_CPP emit_def Let_def)
  qed
qed

lemma key_adaptRuleForCurrentExtensions [simp]:
  "key (adaptRuleForCurrentExtensions config rule lang) = key rule"
  by (simp add: adaptRuleForCurrentExtensions_def Let_def split: list.splits)

lemma sorted2_uncertain_keys:
  "map key (sort_key (\<lambda>rule. indexOf (desiredOrder lang True) (key rule)) TEMPLATE_RULES2) =
     [''cpp_empty'', ''c_empty'', ''cpp_class'', ''cpp_struct'', ''c_struct'']"
  by code_simp

lemma sorted2_certain_keys:
  "map key (sort_key (\<lambda>rule. indexOf (desiredOrder C False) (key rule)) TEMPLATE_RULES2) =
     desiredOrder C False"
  "map key (sort_key (\<lambda>rule. indexOf (desiredOrder CPP False) (key rule)) TEMPLATE_RULES2) =
     desiredOrder CPP False"
  by code_simp+

lemma desiredOrder_uncertain:
  "desiredOrder lang True =
     [''cpp_empty'', ''c_empty'', ''cpp_class'', ''cpp_struct'', ''c_struct'']"
  by (simp add: desiredOrder_def)

lemma straight_to_templates2:
  assumes "filter (\<lambda>rule. language rule = lang) (allRules (configuration w)) = []"
    and "uncert \<or> lang = C"
  shows "\<exists>choices a rest.
           events (snd (promptForPairingRule2 host user lang uncert w)) =
             events w @ Dialog (TemplatePick choices) a # rest \<and>
           (rest = [] \<or> (\<exists>b. rest = [Dialog MismatchWarning b])) \<and>
           map key choices = desiredOrder lang uncert"
proof -
  have keys: "map key (sort_key (\<lambda>rule. indexOf (desiredOrder lang uncert) (key rule))
                         TEMPLATE_RULES2) = desiredOrder lang uncert"
  proof (cases uncert)
    case True
    then show ?thesis
      using sorted2_uncertain_keys [of lang] by (simp add: desiredOrder_uncertain)
  next
    case False
    then show ?thesis
      using sorted2_certain_keys by (cases lang) simp_all
  qed
  have c: "checkAndOfferCustomRules2 host user lang uncert w = (NoCustomRules, w)"
    using assms
    by (auto simp: checkAndOfferCustomRules2_def Let_def)
  show ?thesis
    using keys
    by (auto simp: promptForPairingRule2_def c Let_def emit_def comp_def
          split: option.splits)
qed
lemma shown_Cons_Dialog:
  "shown d (Dialog d' b # es) \<longleftrightarrow> d = d' \<or> shown d es"
  by (cases b) (auto simp: shown_def)

lemma shown_Nil [simp]: "\<not> shown d []"
  by (simp add: shown_def)

text \<open>
  C6, as stated, fails twice. In the first version, with C++ detected for certain and no
  custom rules, dismissing the offer ends the rule selection: nothing is returned and
  the built-in templates are not shown. In the second version, with C detected for
  certain and no custom rules, the offer is not shown at all.
\<close>

theorem offer_counterexample:
  "promptForPairingRule (exampleHost ''/proj/main.cpp'' ''cpp'' [])
     (exampleUser\<lparr>offerAnswer := None\<rparr>) CPP False emptyWorld =
     (None,
      \<lparr>configuration = \<lparr>workspaceValue = None, globalValue = None\<rparr>,
       events = [Dialog OfferCustomRules False]\<rparr>) \<and>
   \<not> shown OfferCustomRules
       (events (snd (promptForPairingRule2 (exampleHost ''/proj/main.c'' ''c'' [])
                       exampleUser C False emptyWorld)))"
proof -
  have 1: "promptForPairingRule (exampleHost ''/proj/main.cpp'' ''cpp'' [])
     (exampleUser\<lparr>offerAnswer := None\<rparr>) CPP False emptyWorld =
     (None,
      \<lparr>configuration = \<lparr>workspaceValue = None, globalValue = None\<rparr>,
       events = [Dialog OfferCustomRules False]\<rparr>)"
    by (simp add: promptForPairingRule_def checkAndOfferCustomRules_def getRules_def
          offerToCreateCustomRules_def exampleUser_def emptyWorld_def emit_def)
  have "filter (\<lambda>rule. language rule = C)
          (allRules (configuration (emptyWorld :: PairingRule World))) = []"
    by (simp add: allRules_def getRules_def emptyWorld_def)
  from straight_to_templates2 [OF this, of False "exampleHost ''/proj/main.c'' ''c'' []"
         exampleUser]
  have 2: "\<not> shown OfferCustomRules
       (events (snd (promptForPairingRule2 (exampleHost ''/proj/main.c'' ''c'' [])
                       exampleUser C False emptyWorld)))"
    by (auto simp: emptyWorld_def shown_Cons_Dialog)
  from 1 2 show ?thesis by simp
qed

text \<open>
  C6, amended. When no custom rules exist for the detected language: in the first
  version the offer to create a custom rule is shown if and only if detection was not
  uncertain; in the second version if and only if detection was not uncertain and the
  language is C++. Declining the offer (\<open>Use Defaults\<close>, in the second version \<open>Dismiss\<close>)
  leads on to the built-in templates; dismissing the message ends the rule selection
  with nothing selected. When detection was uncertain the first dialog is the list of
  built-in templates, in the order \<open>cpp_empty\<close>, \<open>c_empty\<close>, \<open>cpp_class\<close>, \<open>cpp_struct\<close>,
  \<open>c_struct\<close>.
\<close>

theorem offer_iff_certain:
  fixes host :: Host and user :: User and lang :: Language and uncert :: bool
    and w :: "PairingRule World"
  defines "choices1 \<equiv>
      sort_key (\<lambda>rule. indexOf (desiredOrder lang uncert) (key rule)) TEMPLATE_RULES"
    and "choices2 \<equiv>
      map (\<lambda>rule. adaptRuleForCurrentExtensions (configuration w) rule lang)
        (sort_key (\<lambda>rule. indexOf (desiredOrder lang uncert) (key rule)) TEMPLATE_RULES2)"
  assumes none: "filter (\<lambda>rule. language rule = lang) (allRules (configuration w)) = []"
  shows
   "(shown OfferCustomRules
       (drop (length (events w))
          (events (snd (promptForPairingRule host user lang uncert w)))) \<longleftrightarrow> \<not> uncert) \<and>
    (shown OfferCustomRules
       (drop (length (events w))
          (events (snd (promptForPairingRule2 host user lang uncert w)))) \<longleftrightarrow>
       \<not> uncert \<and> lang = CPP) \<and>
    (\<not> uncert \<and> offerAnswer user = Some ''Use Defaults'' \<longrightarrow>
       promptForPairingRule host user lang uncert w =
         (templatePick user choices1,
          emit (Dialog (TemplatePick choices1) (templatePick user choices1 \<noteq> None))
            (emit (Dialog OfferCustomRules True) w))) \<and>
    (\<not> uncert \<and> lang = CPP \<and> offerAnswer user = Some ''Dismiss'' \<longrightarrow>
       (\<exists>rest. events (snd (promptForPairingRule2 host user lang uncert w)) =
          events w @
          Dialog OfferCustomRules True #
          Dialog (TemplatePick choices2) (templatePick user choices2 \<noteq> None) # rest)) \<and>
    (\<not> uncert \<and> offerAnswer user = None \<longrightarrow>
       promptForPairingRule host user lang uncert w =
         (None, emit (Dialog OfferCustomRules False) w)) \<and>
    (\<not> uncert \<and> lang = CPP \<and> offerAnswer user = None \<longrightarrow>
       promptForPairingRule2 host user lang uncert w =
         (None, emit (Dialog OfferCustomRules False) w)) \<and>
    (uncert \<longrightarrow>
       promptForPairingRule host user lang uncert w =
         (templatePick user choices1,
          emit (Dialog (TemplatePick choices1) (templatePick user choices1 \<noteq> None)) w) \<and>
       map key choices1 =
         [''cpp_empty'', ''c_empty'', ''cpp_class'', ''cpp_struct'', ''c_struct''] \<and>
       promptForPairingRule2 host user lang uncert w =
         (templatePick user choices2,
          emit (Dialog (TemplatePick choices2) (templatePick user choices2 \<noteq> None)) w) \<and>
       map key choices2 =
         [''cpp_empty'', ''c_empty'', ''cpp_class'', ''cpp_struct'', ''c_struct''])"
proof -
  note none1 = no_language_rules [OF none]
  have u1: "promptForPairingRule host user lang uncert w =
         (templatePick user choices1,
          emit (Dialog (TemplatePick choices1) (templatePick user choices1 \<noteq> None)) w)"
    if uncert
    using that none1
    by (simp add: promptForPairingRule_def checkAndOfferCustomRules_def Let_def choices1_def
          del: filter_append)
  have u2: "promptForPairingRule2 host user lang uncert w =
         (templatePick user choices2,
          emit (Dialog (TemplatePick choices2) (templatePick user choices2 \<noteq> None)) w)"
    if uncert
    using that none
    by (auto simp: promptForPairingRule2_def checkAndOfferCustomRules2_def Let_def
          choices2_def split: option.splits)
  have k1: "map key choices1 =
         [''cpp_empty'', ''c_empty'', ''cpp_class'', ''cpp_struct'', ''c_struct'']" if uncert
    using that sorted_uncertain_keys [of lang] by (simp add: choices1_def)
  have k2: "map key choices2 =
         [''cpp_empty'', ''c_empty'', ''cpp_class'', ''cpp_struct'', ''c_struct'']" if uncert
    using that sorted2_uncertain_keys [of lang] by (simp add: choices2_def comp_def)
  have s1: "shown OfferCustomRules
       (drop (length (events w))
          (events (snd (promptForPairingRule host user lang uncert w)))) \<longleftrightarrow> \<not> uncert"
  proof (cases uncert)
    case True
    with u1 show ?thesis by (simp add: emit_def shown_Cons_Dialog)
  next
    case False
    with offer_first [OF none False, of host user] show ?thesis
      by (auto simp: shown_Cons_Dialog)
  qed
  have s2: "shown OfferCustomRules
       (drop (length (events w))
          (events (snd (promptForPairingRule2 host user lang uncert w)))) \<longleftrightarrow>
       \<not> uncert \<and> lang = CPP"
  proof (cases "uncert \<or> lang = C")
    case True
    with straight_to_templates2 [OF none True, of host user] show ?thesis
      by (auto simp: shown_Cons_Dialog)
  next
    case False
    then have f: "\<not> uncert" "lang = CPP" by (auto intro: Language.exhaust)
    with offer_first2 [of w uncert host user] none show ?thesis
      by (auto simp: shown_Cons_Dialog)
  qed
  have d1: "promptForPairingRule host user lang uncert w =
         (templatePick user choices1,
          emit (Dialog (TemplatePick choices1) (templatePick user choices1 \<noteq> None))
            (emit (Dialog OfferCustomRules True) w))"
    if "\<not> uncert \<and> offerAnswer user = Some ''Use Defaults''"
    using that none1
    by (simp add: promptForPairingRule_def checkAndOfferCustomRules_def
          offerToCreateCustomRules_def Let_def choices1_def del: filter_append)
  have d2: "\<exists>rest. events (snd (promptForPairingRule2 host user lang uncert w)) =
          events w @
          Dialog OfferCustomRules True #
          Dialog (TemplatePick choices2) (templatePick user choices2 \<noteq> None) # rest"
    if "\<not> uncert \<and> lang = CPP \<and> offerAnswer user = Some ''Dismiss''"
    using that none
    by (auto simp: promptForPairingRule2_def checkAndOfferCustomRules2_def
          offerToCreateCustomRules2_def Let_def choices2_def emit_def split: option.splits)
  have c1: "promptForPairingRule host user lang uncert w =
         (None, emit (Dialog OfferCustomRules False) w)"
    if "\<not> uncert \<and> offerAnswer user = None"
    using that none1
    by (simp add: promptForPairingRule_def checkAndOfferCustomRules_def
          offerToCreateCustomRules_def Let_def del: filter_append)
  have c2: "promptForPairingRule2 host user lang uncert w =
         (None, emit (Dialog OfferCustomRules False) w)"
    if "\<not> uncert \<and> lang = CPP \<and> offerAnswer user = None"
    using that none
    by (simp add: promptForPairingRule2_def checkAndOfferCustomRules2_def
          offerToCreateCustomRules2_def Let_def)
  from s1 s2 d1 d2 c1 c2 u1 u2 k1 k2 show ?thesis by blast
qed

theorem offer_iff_certain_witness:
  "filter (\<lambda>rule. language rule = CPP)
     (allRules (configuration (emptyWorld :: PairingRule World))) = [] \<and>
   shown OfferCustomRules
     (events (snd (promptForPairingRule (exampleHost ''/proj/main.cpp'' ''cpp'' [])
                     exampleUser CPP False emptyWorld))) \<and>
   shown OfferCustomRules
     (events (snd (promptForPairingRule2 (exampleHost ''/proj/main.cpp'' ''cpp'' [])
                     exampleUser CPP False emptyWorld))) \<and>
   map key
     (sort_key (\<lambda>rule. indexOf (desiredOrder CPP True) (key rule)) TEMPLATE_RULES) =
     [''cpp_empty'', ''c_empty'', ''cpp_class'', ''cpp_struct'', ''c_struct''] \<and>
   events (snd (promptForPairingRule (exampleHost ''/proj/main.cpp'' ''cpp'' [])
                  exampleUser CPP True emptyWorld)) =
     [Dialog
        (TemplatePick
           (sort_key (\<lambda>rule. indexOf (desiredOrder CPP True) (key rule)) TEMPLATE_RULES))
        (templatePick exampleUser
           (sort_key (\<lambda>rule. indexOf (desiredOrder CPP True) (key rule)) TEMPLATE_RULES) \<noteq>
         None)]"
proof -
  let ?w = "emptyWorld :: PairingRule World"
  let ?h = "exampleHost ''/proj/main.cpp'' ''cpp'' []"
  have n: "filter (\<lambda>rule. language rule = CPP) (allRules (configuration ?w)) = []"
    by (simp add: allRules_def getRules_def emptyWorld_def)
  have e: "events ?w = []" by (simp add: emptyWorld_def)
  from offer_iff_certain [OF n, of ?h exampleUser False] e
  have 1: "shown OfferCustomRules
     (events (snd (promptForPairingRule ?h exampleUser CPP False ?w)))"
    and 2: "shown OfferCustomRules
     (events (snd (promptForPairingRule2 ?h exampleUser CPP False ?w)))"
    by simp_all
  from offer_iff_certain [OF n, of ?h exampleUser True] e
  have 3: "map key
     (sort_key (\<lambda>rule. indexOf (desiredOrder CPP True) (key rule)) TEMPLATE_RULES) =
     [''cpp_empty'', ''c_empty'', ''cpp_class'', ''cpp_struct'', ''c_struct'']"
    and 4: "events (snd (promptForPairingRule ?h exampleUser CPP True ?w)) =
     [Dialog
        (TemplatePick
           (sort_key (\<lambda>rule. indexOf (desiredOrder CPP True) (key rule)) TEMPLATE_RULES))
        (templatePick exampleUser
           (sort_key (\<lambda>rule. indexOf (desiredOrder CPP True) (key rule)) TEMPLATE_RULES) \<noteq>
         None)]"
    by (simp_all add: emit_def)
  from n 1 2 3 4 show ?thesis by blast
qed

text \<open>
  C7, as stated, fails on the first version of \<open>promptForPairingRule\<close>, which has no
  confirmation step: with C detected for certain and no custom rules, the user declines
  the offer and picks the C++ template \<open>cpp_empty\<close>; the rule is returned and the only
  dialogs are the offer and the template list.
\<close>

theorem no_confirmation_in_first_version:
  "language (TEMPLATE_RULES ! 0) = CPP \<and>
   promptForPairingRule (exampleHost ''/proj/main.c'' ''c'' [])
     (exampleUser\<lparr>templatePick := (\<lambda>choices. Some (TEMPLATE_RULES ! 0))\<rparr>) C False emptyWorld =
     (Some (TEMPLATE_RULES ! 0),
      \<lparr>configuration = \<lparr>workspaceValue = None, globalValue = None\<rparr>,
       events =
         [Dialog OfferCustomRules True,
          Dialog (TemplatePick
                    (sort_key (\<lambda>rule. indexOf (desiredOrder C False) (key rule))
                       TEMPLATE_RULES))
            True]\<rparr>)"
proof -
  have "language (TEMPLATE_RULES ! 0) = CPP"
    by (simp add: TEMPLATE_RULES_def)
  moreover have
    "checkAndOfferCustomRules (exampleHost ''/proj/main.c'' ''c'' [])
       (exampleUser\<lparr>templatePick := (\<lambda>choices. Some (TEMPLATE_RULES ! 0))\<rparr>) C False
       emptyWorld =
     (NoCustomRules, emit (Dialog OfferCustomRules True) emptyWorld)"
    by (simp add: checkAndOfferCustomRules_def getRules_def offerToCreateCustomRules_def
          exampleUser_def emptyWorld_def)
  then have "promptForPairingRule (exampleHost ''/proj/main.c'' ''c'' [])
     (exampleUser\<lparr>templatePick := (\<lambda>choices. Some (TEMPLATE_RULES ! 0))\<rparr>) C False emptyWorld =
     (Some (TEMPLATE_RULES ! 0),
      \<lparr>configuration = \<lparr>workspaceValue = None, globalValue = None\<rparr>,
       events =
         [Dialog OfferCustomRules True,
          Dialog (TemplatePick
                    (sort_key (\<lambda>rule. indexOf (desiredOrder C False) (key rule))
                       TEMPLATE_RULES))
            True]\<rparr>)"
    by (simp add: promptForPairingRule_def emit_def emptyWorld_def)
  ultimately show ?thesis by simp
qed

text \<open>
  C7, amended. In the second version of \<open>promptForPairingRule\<close>, when the language was
  detected for certain and the user selects, in the list of built-in templates, a
  template whose language differs from the detected one, the warning is shown next, and
  the template is returned only if the user answers \<open>Continue Anyway\<close>; any other answer
  or a dismissal returns nothing. The first version returns the template selected in
  that list without any further dialog.
\<close>

theorem mismatch_guard:
  fixes host :: Host and user :: User and lang :: Language and uncert :: bool
    and w w1 :: "PairingRule World" and result :: CustomRulesResult and rule :: PairingRule
  defines "choices1 \<equiv>
      sort_key (\<lambda>rule. indexOf (desiredOrder lang uncert) (key rule)) TEMPLATE_RULES"
    and "choices2 \<equiv>
      map (\<lambda>rule. adaptRuleForCurrentExtensions (configuration w1) rule lang)
        (sort_key (\<lambda>rule. indexOf (desiredOrder lang uncert) (key rule)) TEMPLATE_RULES2)"
  shows
   "(checkAndOfferCustomRules2 host user lang uncert w = (result, w1) \<and>
     (result = NoCustomRules \<or> result = UseDefault) \<and>
     templatePick user choices2 = Some rule \<and> \<not> uncert \<and> language rule \<noteq> lang \<longrightarrow>
       promptForPairingRule2 host user lang uncert w =
         (if mismatchAnswer user = Some ''Continue Anyway'' then Some rule else None,
          emit (Dialog MismatchWarning (mismatchAnswer user \<noteq> None))
            (emit (Dialog (TemplatePick choices2) True) w1))) \<and>
    (checkAndOfferCustomRules host user lang uncert w = (result, w1) \<and>
     (result = NoCustomRules \<or> result = UseDefault) \<longrightarrow>
       promptForPairingRule host user lang uncert w =
         (templatePick user choices1,
          emit (Dialog (TemplatePick choices1) (templatePick user choices1 \<noteq> None)) w1))"
  by (auto simp: promptForPairingRule2_def promptForPairingRule_def Let_def choices1_def
        choices2_def)

theorem mismatch_guard_witness:
  "checkAndOfferCustomRules2 (exampleHost ''/proj/main.c'' ''c'' []) exampleUser C False
     emptyWorld = (NoCustomRules, emptyWorld) \<and>
   templatePick (exampleUser\<lparr>templatePick := (\<lambda>choices. Some (TEMPLATE_RULES2 ! 0))\<rparr>)
     (map (\<lambda>rule. adaptRuleForCurrentExtensions
                    (configuration (emptyWorld :: PairingRule World)) rule C)
        (sort_key (\<lambda>rule. indexOf (desiredOrder C False) (key rule)) TEMPLATE_RULES2)) =
     Some (TEMPLATE_RULES2 ! 0) \<and>
   language (TEMPLATE_RULES2 ! 0) = CPP \<and>
   fst (promptForPairingRule2 (exampleHost ''/proj/main.c'' ''c'' [])
          (exampleUser\<lparr>templatePick := (\<lambda>choices. Some (TEMPLATE_RULES2 ! 0)),
                        mismatchAnswer := Some ''Cancel''\<rparr>) C False emptyWorld) = None \<and>
   fst (promptForPairingRule2 (exampleHost ''/proj/main.c'' ''c'' [])
          (exampleUser\<lparr>templatePick := (\<lambda>choices. Some (TEMPLATE_RULES2 ! 0))\<rparr>)
          C False emptyWorld) = Some (TEMPLATE_RULES2 ! 0) \<and>
   shown MismatchWarning
     (events (snd (promptForPairingRule2 (exampleHost ''/proj/main.c'' ''c'' [])
                     (exampleUser\<lparr>templatePick := (\<lambda>choices. Some (TEMPLATE_RULES2 ! 0))\<rparr>)
                     C False emptyWorld)))"
proof -
  let ?h = "exampleHost ''/proj/main.c'' ''c'' []"
  let ?u = "exampleUser\<lparr>templatePick := (\<lambda>choices. Some (TEMPLATE_RULES2 ! 0))\<rparr>"
  let ?v = "exampleUser\<lparr>templatePick := (\<lambda>choices. Some (TEMPLATE_RULES2 ! 0)),
                        mismatchAnswer := Some ''Cancel''\<rparr>"
  let ?w = "emptyWorld :: PairingRule World"
  have c: "checkAndOfferCustomRules2 ?h user C False ?w = (NoCustomRules, ?w)" for user
    by (simp add: checkAndOfferCustomRules2_def)
  have l: "language (TEMPLATE_RULES2 ! 0) = CPP"
    by (simp add: TEMPLATE_RULES2_def)
  have a: "mismatchAnswer ?u = Some ''Continue Anyway''" "mismatchAnswer ?v = Some ''Cancel''"
    by (simp_all add: exampleUser_def)
  from mismatch_guard [of ?h ?u C False ?w NoCustomRules ?w "TEMPLATE_RULES2 ! 0"] c l a
  have 1: "promptForPairingRule2 ?h ?u C False ?w =
      (Some (TEMPLATE_RULES2 ! 0),
       emit (Dialog MismatchWarning True)
         (emit (Dialog (TemplatePick
            (map (\<lambda>rule. adaptRuleForCurrentExtensions (configuration ?w) rule C)
               (sort_key (\<lambda>rule. indexOf (desiredOrder C False) (key rule))
                  TEMPLATE_RULES2))) True) ?w))"
    by simp
  from mismatch_guard [of ?h ?v C False ?w NoCustomRules ?w "TEMPLATE_RULES2 ! 0"] c l a
  have 2: "fst (promptForPairingRule2 ?h ?v C False ?w) = None"
    by simp
  from 1 have 3: "shown MismatchWarning (events (snd (promptForPairingRule2 ?h ?u C False ?w)))"
    by (simp add: emit_def shown_def)
  from c [of exampleUser] l 1 2 3 show ?thesis by simp
qed

end
